theory Spec2Isabelle
  imports Complex_Main
begin

section \<open>Numeric conventions\<close>

text \<open>
  The drawing code of \<^verbatim>\<open>bridge.cpp\<close> computes with C++ \<^verbatim>\<open>double\<close> and \<^verbatim>\<open>int\<close>.  A \<^verbatim>\<open>double\<close>
  is modelled by the real number it denotes.  The function \<open>round_double\<close> below is the
  rounding of IEEE 754 binary64 (to nearest, ties to the even significand, with gradual
  underflow), and it is applied to the result of every arithmetic operation of

    \<^item> the shoelace accumulation of \<^verbatim>\<open>polygon_signed_area\<close>,
    \<^item> the diagonal, the quotient, the line count and the offsets \<^verbatim>\<open>i * spacing\<close> of
      \<^verbatim>\<open>generate_hatch_lines_for_region\<close>,
    \<^item> the corners \<^verbatim>\<open>center - radius\<close> and \<^verbatim>\<open>center + radius\<close> of \<^verbatim>\<open>extract_2d_curves\<close>,
    \<^item> the multiplications by \<^verbatim>\<open>scale\<close> of both projections.

  Every such operation is rounded by itself: a product and the sum that takes it are two
  roundings, as without a fused multiply-add.  The remaining operations (the projection onto
  the section plane, the intersection of a hatch line with the boundary, the lengths
  compared with a tolerance, the angles) are read over the reals.  Results beyond the
  largest finite \<^verbatim>\<open>double\<close>, infinities and NaN are outside the model.

  An \<^verbatim>\<open>int\<close> has 32 bits.  \<^verbatim>\<open>static_cast<int>\<close> of a \<^verbatim>\<open>double\<close> truncates toward zero; when the
  truncated value does not fit, the conversion yields \<open>-2^31\<close>, which is what the conversion
  instruction of x86-64 returns.  \<open>int_wrap\<close> is the two's-complement wrap-around of an
  \<^verbatim>\<open>int\<close> addition or negation.
\<close>

definition DBL_MAX :: real where
  "DBL_MAX = (2 ^ 53 - 1) * 2 ^ 971"

definition DBL_LOWEST :: real where
  "DBL_LOWEST = - DBL_MAX"

definition M_PI :: real where
  "M_PI = pi"

text \<open>Rounding to the nearest integer, a tie going to the even one.\<close>

definition round_half_even :: "real \<Rightarrow> int" where
  "round_half_even x =
     (let f = \<lfloor>x\<rfloor>
      in if x - of_int f < 1 / 2 then f
         else if x - of_int f > 1 / 2 then f + 1
         else if even f then f else f + 1)"

text \<open>The binary exponent of a \<^verbatim>\<open>double\<close> (at least \<open>-1022\<close>, where the subnormal numbers
  start), the spacing of the doubles at that exponent, and the rounding of a real number to
  the nearest \<^verbatim>\<open>double\<close>.\<close>

definition double_exponent :: "real \<Rightarrow> int" where
  "double_exponent x = max \<lfloor>log 2 \<bar>x\<bar>\<rfloor> (- 1022)"

definition double_ulp :: "real \<Rightarrow> real" where
  "double_ulp x = 2 powr (of_int (double_exponent x) - 52)"

definition round_double :: "real \<Rightarrow> real" where
  "round_double x =
     (if x = 0 then 0
      else of_int (round_half_even (x / double_ulp x)) * double_ulp x)"

definition int_wrap :: "int \<Rightarrow> int" where
  "int_wrap n = (n + 2 ^ 31) mod 2 ^ 32 - 2 ^ 31"

definition static_cast_int :: "real \<Rightarrow> int" where
  "static_cast_int x =
     (let t = (if 0 \<le> x then \<lfloor>x\<rfloor> else \<lceil>x\<rceil>)
      in if - (2 ^ 31) \<le> t \<and> t < 2 ^ 31 then t else - (2 ^ 31))"

section \<open>Hatcher: \<^verbatim>\<open>generate_hatch_lines_for_region\<close>\<close>

record HatchLineFFI =
  hl_start_x :: real
  hl_start_y :: real
  hl_end_x :: real
  hl_end_y :: real

text \<open>Body of the loop over the polygon edges \<^verbatim>\<open>j\<close> for one hatch line through
  \<^verbatim>\<open>(hx, hy)\<close>: the edge runs from \<^verbatim>\<open>boundary[j]\<close> to \<^verbatim>\<open>boundary[(j + 1) % n]\<close>.\<close>

definition hatch_edge_crossing ::
  "(real \<times> real) list \<Rightarrow> real \<Rightarrow> real \<Rightarrow> real \<Rightarrow> real \<Rightarrow> nat \<Rightarrow> real list \<Rightarrow> real list" where
  "hatch_edge_crossing boundary cos_a sin_a hx hy j intersections =
     (let n = length boundary;
          k = (j + 1) mod n;
          x1 = fst (boundary ! j);
          y1 = snd (boundary ! j);
          x2 = fst (boundary ! k);
          y2 = snd (boundary ! k);
          dx = x2 - x1;
          dy = y2 - y1;
          denom = dx * sin_a - dy * cos_a
      in if \<bar>denom\<bar> < 1 / 10 ^ 10 then intersections
         else
           let t_edge = ((hx - x1) * sin_a - (hy - y1) * cos_a) / denom
           in if 0 \<le> t_edge \<and> t_edge \<le> 1 then
                let ix = x1 + t_edge * dx;
                    iy = y1 + t_edge * dy;
                    t_hatch = (ix - hx) * cos_a + (iy - hy) * sin_a
                in intersections @ [t_hatch]
              else intersections)"

text \<open>The pairing loop \<^verbatim>\<open>for (j = 0; j + 1 < intersections.size(); j += 2)\<close> over the
  sorted parameters.\<close>

fun hatch_pairs :: "real \<Rightarrow> real \<Rightarrow> real \<Rightarrow> real \<Rightarrow> real list \<Rightarrow> HatchLineFFI list" where
  "hatch_pairs cos_a sin_a hx hy (t1 # t2 # rest) =
     (let line = \<lparr>hl_start_x = hx + t1 * cos_a, hl_start_y = hy + t1 * sin_a,
                  hl_end_x = hx + t2 * cos_a, hl_end_y = hy + t2 * sin_a\<rparr>;
          len = sqrt ((hl_end_x line - hl_start_x line) ^ 2 + (hl_end_y line - hl_start_y line) ^ 2)
      in (if len > 1 / 10 ^ 6 then [line] else []) @ hatch_pairs cos_a sin_a hx hy rest)"
| "hatch_pairs cos_a sin_a hx hy rest = []"

text \<open>One pass of the outer loop once \<^verbatim>\<open>offset = i * spacing\<close> is known: the segments
  of the candidate line at that offset.\<close>

definition hatch_line ::
  "(real \<times> real) list \<Rightarrow> real \<Rightarrow> real \<Rightarrow> real \<Rightarrow> real \<Rightarrow> real \<Rightarrow> HatchLineFFI list" where
  "hatch_line boundary cos_a sin_a cx cy offset =
     (let hx = cx + offset * sin_a;
          hy = cy - offset * cos_a;
          intersections =
            fold (hatch_edge_crossing boundary cos_a sin_a hx hy) [0..<length boundary] []
      in hatch_pairs cos_a sin_a hx hy (sort intersections))"

text \<open>The outer loop \<^verbatim>\<open>for (int i = -num_lines; i <= num_lines; i++)\<close>, started at \<^verbatim>\<open>i\<close>,
  with \<^verbatim>\<open>offset = i * spacing\<close>.  The counter is compared as an integer: the loop ends
  after the pass with \<^verbatim>\<open>i = num_lines\<close>, also for \<^verbatim>\<open>num_lines = INT_MAX\<close>, where the
  increment of the C++ counter is undefined.\<close>

function hatch_loop ::
  "(real \<times> real) list \<Rightarrow> real \<Rightarrow> real \<Rightarrow> real \<Rightarrow> real \<Rightarrow> real \<Rightarrow> int \<Rightarrow> int \<Rightarrow>
   HatchLineFFI list \<Rightarrow> HatchLineFFI list" where
  "hatch_loop boundary cos_a sin_a cx cy spacing num_lines i hatch_lines =
     (if i \<le> num_lines then
        hatch_loop boundary cos_a sin_a cx cy spacing num_lines (i + 1)
          (hatch_lines @
           hatch_line boundary cos_a sin_a cx cy (round_double (of_int i * spacing)))
      else hatch_lines)"
  by pat_completeness auto
termination
  by (relation "measure (\<lambda>(boundary, cos_a, sin_a, cx, cy, spacing, num_lines, i, hatch_lines).
        nat (num_lines + 1 - i))") auto

text \<open>\<^verbatim>\<open>diag = std::sqrt(std::pow(max_x - min_x, 2) + std::pow(max_y - min_y, 2))\<close>: two
  differences, two squares, a sum and a square root, each rounded.\<close>

definition hatch_diag :: "real \<Rightarrow> real \<Rightarrow> real \<Rightarrow> real \<Rightarrow> real" where
  "hatch_diag min_x min_y max_x max_y =
     round_double (sqrt (round_double
       (round_double ((round_double (max_x - min_x)) ^ 2) +
        round_double ((round_double (max_y - min_y)) ^ 2))))"

text \<open>\<^verbatim>\<open>int num_lines = static_cast<int>(diag / spacing) + 2\<close>.\<close>

definition hatch_num_lines :: "real \<Rightarrow> real \<Rightarrow> real \<Rightarrow> real \<Rightarrow> real \<Rightarrow> int" where
  "hatch_num_lines min_x min_y max_x max_y spacing =
     int_wrap (static_cast_int (round_double (hatch_diag min_x min_y max_x max_y / spacing)) + 2)"

definition generate_hatch_lines_for_region ::
  "(real \<times> real) list \<Rightarrow> real \<Rightarrow> real \<Rightarrow> HatchLineFFI list \<Rightarrow>
   real \<Rightarrow> real \<Rightarrow> real \<Rightarrow> real \<Rightarrow> HatchLineFFI list" where
  "generate_hatch_lines_for_region boundary angle_deg spacing hatch_lines min_x min_y max_x max_y =
     (if length boundary < 3 \<or> spacing \<le> 0 then hatch_lines
      else
        let angle_rad = angle_deg * M_PI / 180;
            cos_a = cos angle_rad;
            sin_a = sin angle_rad;
            cx = (min_x + max_x) / 2;
            cy = (min_y + max_y) / 2;
            num_lines = hatch_num_lines min_x min_y max_x max_y spacing
        in hatch_loop boundary cos_a sin_a cx cy spacing num_lines (int_wrap (- num_lines))
             hatch_lines)"

text \<open>\<^verbatim>\<open>polygon_signed_area\<close>: the accumulation loop over \<^verbatim>\<open>i\<close> with \<^verbatim>\<open>j = (i + 1) % n\<close>.
  Each pass is \<^verbatim>\<open>area += pts[i].first * pts[j].second\<close> followed by
  \<^verbatim>\<open>area -= pts[j].first * pts[i].second\<close>: two products, a sum and a difference, each
  rounded; the result is \<^verbatim>\<open>area / 2.0\<close>, rounded.\<close>

definition area_step :: "(real \<times> real) list \<Rightarrow> nat \<Rightarrow> real \<Rightarrow> real" where
  "area_step pts i area =
     (let j = (i + 1) mod length pts;
          area1 = round_double (area + round_double (fst (pts ! i) * snd (pts ! j)))
      in round_double (area1 - round_double (fst (pts ! j) * snd (pts ! i))))"

definition polygon_signed_area :: "(real \<times> real) list \<Rightarrow> real" where
  "polygon_signed_area pts =
     (let n = length pts;
          area = fold (area_step pts) [0..<n] 0
      in round_double (area / 2))"

text \<open>The point-in-polygon test of the specification (property P1): the even-odd
  crossing test along the ray from the point towards \<open>+x\<close>.\<close>

definition ray_crosses_edge :: "real \<times> real \<Rightarrow> real \<times> real \<Rightarrow> real \<times> real \<Rightarrow> bool" where
  "ray_crosses_edge p a b =
     ((snd a > snd p) \<noteq> (snd b > snd p) \<and>
      fst p < (fst b - fst a) * (snd p - snd a) / (snd b - snd a) + fst a)"

definition point_in_polygon :: "(real \<times> real) list \<Rightarrow> real \<times> real \<Rightarrow> bool" where
  "point_in_polygon poly p =
     odd (length (filter (\<lambda>j. ray_crosses_edge p (poly ! j) (poly ! ((j + 1) mod length poly)))
                    [0..<length poly]))"

definition hatch_midpoint :: "HatchLineFFI \<Rightarrow> real \<times> real" where
  "hatch_midpoint h = ((hl_start_x h + hl_end_x h) / 2, (hl_start_y h + hl_end_y h) / 2)"

text \<open>The spec's shoelace formula, as a sum over the cyclic edges.\<close>

definition shoelace :: "(real \<times> real) list \<Rightarrow> real" where
  "shoelace pts =
     (\<Sum>i<length pts. fst (pts ! i) * snd (pts ! ((i + 1) mod length pts))
                       - fst (pts ! ((i + 1) mod length pts)) * snd (pts ! i)) / 2"

text \<open>The shoelace sum over the first \<open>k\<close> edges, and the polygons on which the
  accumulation of \<^verbatim>\<open>polygon_signed_area\<close> is exact: the two products of every pass, the sum
  and the difference that the pass stores, and the final half are doubles.\<close>

definition exact_area :: "(real \<times> real) list \<Rightarrow> nat \<Rightarrow> real" where
  "exact_area pts k =
     sum_list (map (\<lambda>i. fst (pts ! i) * snd (pts ! ((i + 1) mod length pts))
                           - fst (pts ! ((i + 1) mod length pts)) * snd (pts ! i)) [0..<k])"

definition is_double :: "real \<Rightarrow> bool" where
  "is_double x = (round_double x = x)"

definition no_rounding :: "(real \<times> real) list \<Rightarrow> bool" where
  "no_rounding pts =
     (list_all (\<lambda>i. let j = (i + 1) mod length pts;
                         p = fst (pts ! i) * snd (pts ! j);
                         q = fst (pts ! j) * snd (pts ! i);
                         a = exact_area pts i
                     in is_double p \<and> is_double (a + p) \<and> is_double q \<and> is_double (a + p - q))
        [0..<length pts] \<and>
      is_double (exact_area pts (length pts) / 2))"


section \<open>Geometry kernel values\<close>

text \<open>
  The geometry kernel is an external collaborator.  Its answers are inputs of the model:
  a call that may throw yields \<open>Inl\<close> of the exception class that the handlers of
  \<^verbatim>\<open>bridge.cpp\<close> distinguish, and \<open>Inr\<close> of its value otherwise.  The calls that may
  throw in the model are those that precede the extraction loops (the direction constructors,
  the plane intersection, the wire partition, the hidden-line algorithm); the queries inside
  the loops (vertex points, curve evaluations, sampled points) are taken to return.
\<close>

datatype exn = Standard_Failure | std_exception | unknown_exception

type_synonym 'a kernel_result = "exn + 'a"

record gp_XYZ =
  coordX :: real
  coordY :: real
  coordZ :: real

definition gp_Resolution :: real where
  "gp_Resolution = 1 / 2 ^ 1022"

definition Modulus :: "gp_XYZ \<Rightarrow> real" where
  "Modulus v = sqrt (coordX v * coordX v + coordY v * coordY v + coordZ v * coordZ v)"

text \<open>The kernel's unit-direction constructor: it raises a \<^verbatim>\<open>Standard_Failure\<close>
  (construction error) on a vector whose length is at most the kernel's resolution.\<close>

definition gp_Dir :: "real \<Rightarrow> real \<Rightarrow> real \<Rightarrow> gp_XYZ kernel_result" where
  "gp_Dir x y z =
     (let D = sqrt (x * x + y * y + z * z)
      in if D \<le> gp_Resolution then Inl Standard_Failure
         else Inr \<lparr>coordX = x / D, coordY = y / D, coordZ = z / D\<rparr>)"

definition Crossed :: "gp_XYZ \<Rightarrow> gp_XYZ \<Rightarrow> gp_XYZ kernel_result" where
  "Crossed a b =
     (let c = \<lparr>coordX = coordY a * coordZ b - coordZ a * coordY b,
                coordY = coordZ a * coordX b - coordX a * coordZ b,
                coordZ = coordX a * coordY b - coordY a * coordX b\<rparr>;
          D = Modulus c
      in if D \<le> gp_Resolution then Inl Standard_Failure
         else Inr \<lparr>coordX = coordX c / D, coordY = coordY c / D, coordZ = coordZ c / D\<rparr>)"

definition Dot :: "gp_XYZ \<Rightarrow> gp_XYZ \<Rightarrow> real" where
  "Dot a b = coordX a * coordX b + coordY a * coordY b + coordZ a * coordZ b"

definition Distance :: "gp_XYZ \<Rightarrow> gp_XYZ \<Rightarrow> real" where
  "Distance a b =
     sqrt ((coordX a - coordX b) ^ 2 + (coordY a - coordY b) ^ 2 + (coordZ a - coordZ b) ^ 2)"

text \<open>What the code asks of an \<^verbatim>\<open>OcctShape\<close>: whether it is null, the face and edge counts
  of \<^verbatim>\<open>count_shape_topology\<close>, and its 3D bounding box (\<open>None\<close> when the box is void),
  as \<open>(xmin, ymin, zmin, xmax, ymax, zmax)\<close>.\<close>

record OcctShape =
  is_null :: bool
  num_faces :: nat
  num_edges :: nat
  bnd_box :: "(real \<times> real \<times> real \<times> real \<times> real \<times> real) option"

section \<open>SectionExtractor: \<^verbatim>\<open>compute_section_with_hatch\<close>\<close>

record TessPoint2D =
  tp_x :: real
  tp_y :: real

record SectionCurveFFI =
  sc_points :: "TessPoint2D list"
  sc_is_closed :: bool

record HatchRegionFFI =
  hr_boundary :: "TessPoint2D list"
  hr_hatch_lines :: "HatchLineFFI list"
  hr_area :: real
  hr_is_outer :: bool

record SectionWithHatchResult =
  sec_curves :: "SectionCurveFFI list"
  sec_regions :: "HatchRegionFFI list"
  sec_min_x :: real
  sec_min_y :: real
  sec_max_x :: real
  sec_max_y :: real
  sec_num_regions :: int
  sec_num_hatch_lines :: int

definition project_point_to_plane :: "gp_XYZ \<Rightarrow> gp_XYZ \<Rightarrow> gp_XYZ \<Rightarrow> gp_XYZ \<Rightarrow> real \<times> real" where
  "project_point_to_plane pt3d origin xAxis yAxis =
     (let v = \<lparr>coordX = coordX pt3d - coordX origin, coordY = coordY pt3d - coordY origin,
                coordZ = coordZ pt3d - coordZ origin\<rparr>
      in (Dot v xAxis, Dot v yAxis))"

text \<open>Body of the vertex loop of a wire: appends the projected point to the curve (and, for a
  closed wire, to the boundary) and widens the running bounding box of the result.\<close>

definition section_update_bbox :: "real \<Rightarrow> real \<Rightarrow> SectionWithHatchResult \<Rightarrow> SectionWithHatchResult" where
  "section_update_bbox x2d y2d result =
     result\<lparr>sec_min_x := min (sec_min_x result) x2d,
            sec_min_y := min (sec_min_y result) y2d,
            sec_max_x := max (sec_max_x result) x2d,
            sec_max_y := max (sec_max_y result) y2d\<rparr>"

definition closed_wire_vertex ::
  "gp_XYZ \<Rightarrow> gp_XYZ \<Rightarrow> gp_XYZ \<Rightarrow> gp_XYZ \<Rightarrow>
   (real \<times> real) list \<times> SectionCurveFFI \<times> SectionWithHatchResult \<Rightarrow>
   (real \<times> real) list \<times> SectionCurveFFI \<times> SectionWithHatchResult" where
  "closed_wire_vertex origin xAxis yAxis pt st =
     (case st of (boundary, curve, result) \<Rightarrow>
        (case project_point_to_plane pt origin xAxis yAxis of (x2d, y2d) \<Rightarrow>
           (boundary @ [(x2d, y2d)],
            curve\<lparr>sc_points := sc_points curve @ [\<lparr>tp_x = x2d, tp_y = y2d\<rparr>]\<rparr>,
            section_update_bbox x2d y2d result)))"

text \<open>The block that builds the region of a kept closed loop.\<close>

definition make_hatch_region ::
  "(real \<times> real) list \<Rightarrow> real \<Rightarrow> real \<Rightarrow> real \<Rightarrow> real \<Rightarrow> real \<Rightarrow> real \<Rightarrow> HatchRegionFFI" where
  "make_hatch_region boundary hatch_angle hatch_spacing min_x min_y max_x max_y =
     \<lparr>hr_boundary = map (\<lambda>p. \<lparr>tp_x = fst p, tp_y = snd p\<rparr>) boundary,
      hr_hatch_lines =
        generate_hatch_lines_for_region boundary hatch_angle hatch_spacing [] min_x min_y max_x max_y,
      hr_area = \<bar>polygon_signed_area boundary\<bar>,
      hr_is_outer = (polygon_signed_area boundary > 0)\<rparr>"

text \<open>Body of the loop over the closed wires; a wire is the list of the vertices that the
  wire explorer visits.\<close>

definition process_closed_wire ::
  "gp_XYZ \<Rightarrow> gp_XYZ \<Rightarrow> gp_XYZ \<Rightarrow> real \<Rightarrow> real \<Rightarrow> gp_XYZ list \<Rightarrow>
   SectionWithHatchResult \<times> int \<Rightarrow> SectionWithHatchResult \<times> int" where
  "process_closed_wire origin xAxis yAxis hatch_angle hatch_spacing wire st =
     (case st of (result0, closedCount0) \<Rightarrow>
        let closedCount = closedCount0 + 1
        in (case fold (closed_wire_vertex origin xAxis yAxis) wire
                   ([], \<lparr>sc_points = [], sc_is_closed = True\<rparr>, result0)
            of (boundary, curve, result) \<Rightarrow>
              if length boundary \<ge> 3 then
                let result1 = result\<lparr>sec_curves := sec_curves result @ [curve]\<rparr>;
                    region = make_hatch_region boundary hatch_angle hatch_spacing
                               (sec_min_x result1) (sec_min_y result1)
                               (sec_max_x result1) (sec_max_y result1)
                in (result1\<lparr>sec_num_hatch_lines :=
                              sec_num_hatch_lines result1 + int (length (hr_hatch_lines region)),
                            sec_regions := sec_regions result1 @ [region]\<rparr>,
                    closedCount)
              else (result, closedCount)))"

definition open_wire_vertex ::
  "gp_XYZ \<Rightarrow> gp_XYZ \<Rightarrow> gp_XYZ \<Rightarrow> gp_XYZ \<Rightarrow>
   SectionCurveFFI \<times> SectionWithHatchResult \<Rightarrow> SectionCurveFFI \<times> SectionWithHatchResult" where
  "open_wire_vertex origin xAxis yAxis pt st =
     (case st of (curve, result) \<Rightarrow>
        (case project_point_to_plane pt origin xAxis yAxis of (x2d, y2d) \<Rightarrow>
           (curve\<lparr>sc_points := sc_points curve @ [\<lparr>tp_x = x2d, tp_y = y2d\<rparr>]\<rparr>,
            section_update_bbox x2d y2d result)))"

definition process_open_wire ::
  "gp_XYZ \<Rightarrow> gp_XYZ \<Rightarrow> gp_XYZ \<Rightarrow> gp_XYZ list \<Rightarrow>
   SectionWithHatchResult \<times> int \<Rightarrow> SectionWithHatchResult \<times> int" where
  "process_open_wire origin xAxis yAxis wire st =
     (case st of (result0, openCount0) \<Rightarrow>
        let openCount = openCount0 + 1
        in (case fold (open_wire_vertex origin xAxis yAxis) wire
                   (\<lparr>sc_points = [], sc_is_closed = False\<rparr>, result0)
            of (curve, result) \<Rightarrow>
              if length (sc_points curve) \<ge> 2 then
                (result\<lparr>sec_curves := sec_curves result @ [curve]\<rparr>, openCount)
              else (result, openCount)))"

definition section_zero_bbox :: "SectionWithHatchResult \<Rightarrow> SectionWithHatchResult" where
  "section_zero_bbox result = result\<lparr>sec_min_x := 0, sec_min_y := 0, sec_max_x := 0, sec_max_y := 0\<rparr>"

definition section_initial :: SectionWithHatchResult where
  "section_initial =
     \<lparr>sec_curves = [], sec_regions = [],
      sec_min_x = DBL_MAX, sec_min_y = DBL_MAX, sec_max_x = DBL_LOWEST, sec_max_y = DBL_LOWEST,
      sec_num_regions = 0, sec_num_hatch_lines = 0\<rparr>"

text \<open>The two wire loops and the closing steps, once the plane basis and the closed/open
  partition are known.\<close>

definition section_wires ::
  "gp_XYZ \<Rightarrow> gp_XYZ \<Rightarrow> gp_XYZ \<Rightarrow> real \<Rightarrow> real \<Rightarrow> gp_XYZ list list \<Rightarrow> gp_XYZ list list \<Rightarrow>
   SectionWithHatchResult \<Rightarrow> SectionWithHatchResult" where
  "section_wires origin xAxis yAxis hatch_angle hatch_spacing closedWires openWires result0 =
     (case fold (process_closed_wire origin xAxis yAxis hatch_angle hatch_spacing) closedWires
             (result0, 0)
      of (result1, closedCount) \<Rightarrow>
        (case fold (process_open_wire origin xAxis yAxis) openWires (result1, 0)
         of (result2, openCount) \<Rightarrow>
           let result3 = result2\<lparr>sec_num_regions := closedCount\<rparr>
           in if sec_curves result3 = [] then section_zero_bbox result3 else result3))"

text \<open>The \<^verbatim>\<open>try\<close> block.  \<open>section_build\<close> is the outcome of the plane intersection
  (\<open>Inr done\<close> with \<open>done\<close> the value of \<^verbatim>\<open>IsDone()\<close>) and \<open>free_bounds\<close> the outcome of the
  closed/open wire partition.\<close>

definition section_try ::
  "OcctShape \<Rightarrow> real \<Rightarrow> real \<Rightarrow> real \<Rightarrow> real \<Rightarrow> real \<Rightarrow> real \<Rightarrow> real \<Rightarrow> real \<Rightarrow> real \<Rightarrow>
   real \<Rightarrow> real \<Rightarrow> bool kernel_result \<Rightarrow> (gp_XYZ list list \<times> gp_XYZ list list) kernel_result \<Rightarrow>
   SectionWithHatchResult \<Rightarrow> SectionWithHatchResult kernel_result" where
  "section_try shape origin_x origin_y origin_z normal_x normal_y normal_z up_x up_y up_z
       hatch_angle hatch_spacing section_build free_bounds result =
     (if is_null shape then Inr result
      else
        let origin = \<lparr>coordX = origin_x, coordY = origin_y, coordZ = origin_z\<rparr>
        in case gp_Dir normal_x normal_y normal_z of Inl e \<Rightarrow> Inl e | Inr normal \<Rightarrow>
           (case section_build of Inl e \<Rightarrow> Inl e | Inr done \<Rightarrow>
              if \<not> done then Inr result
              else
                (case gp_Dir up_x up_y up_z of Inl e \<Rightarrow> Inl e | Inr upDir \<Rightarrow>
                   let xAxis = (case Crossed upDir normal of
                                  Inl e \<Rightarrow> \<lparr>coordX = 1, coordY = 0, coordZ = 0\<rparr>
                                | Inr x \<Rightarrow> x)
                   in case Crossed normal xAxis of Inl e \<Rightarrow> Inl e | Inr yAxis \<Rightarrow>
                      (case free_bounds of Inl e \<Rightarrow> Inl e | Inr (closedWires, openWires) \<Rightarrow>
                         Inr (section_wires origin xAxis yAxis hatch_angle hatch_spacing
                                closedWires openWires result)))))"

definition compute_section_with_hatch ::
  "OcctShape \<Rightarrow> real \<Rightarrow> real \<Rightarrow> real \<Rightarrow> real \<Rightarrow> real \<Rightarrow> real \<Rightarrow> real \<Rightarrow> real \<Rightarrow> real \<Rightarrow>
   real \<Rightarrow> real \<Rightarrow> bool kernel_result \<Rightarrow> (gp_XYZ list list \<times> gp_XYZ list list) kernel_result \<Rightarrow>
   SectionWithHatchResult" where
  "compute_section_with_hatch shape origin_x origin_y origin_z normal_x normal_y normal_z
       up_x up_y up_z hatch_angle hatch_spacing section_build free_bounds =
     (case section_try shape origin_x origin_y origin_z normal_x normal_y normal_z up_x up_y up_z
             hatch_angle hatch_spacing section_build free_bounds section_initial
      of Inr result \<Rightarrow> result
       | Inl Standard_Failure \<Rightarrow> section_zero_bbox section_initial
       | Inl std_exception \<Rightarrow> section_initial
       | Inl unknown_exception \<Rightarrow> section_initial)"

section \<open>HLRExtractor: what the visibility classifier returns\<close>

datatype GeomAbs_CurveType = GeomAbs_Line | GeomAbs_Circle | GeomAbs_Ellipse | GeomAbs_OtherCurve

text \<open>
  An edge of a classified compound, as the answers of the kernel to the queries of the
  extraction loops: whether \<^verbatim>\<open>BRep_Tool::Curve\<close> is null, the parameter range, the two
  endpoint evaluations \<^verbatim>\<open>curve->Value(first)\<close> and \<^verbatim>\<open>curve->Value(last)\<close>, the curve type of
  the adaptor, the circle and ellipse accessors, the tangential-deflection sampler (from the
  chord deflection to the sampled points) and whether the orientation is reversed.
\<close>

record TopoDS_Edge =
  curve_is_null :: bool
  first :: real
  last :: real
  value_first :: gp_XYZ
  value_last :: gp_XYZ
  curve_type :: GeomAbs_CurveType
  circ_location :: gp_XYZ
  circ_radius :: real
  elips_location :: gp_XYZ
  elips_major_radius :: real
  elips_minor_radius :: real
  elips_xdir :: gp_XYZ
  tangential_deflection :: "real \<Rightarrow> gp_XYZ list"
  orientation_reversed :: bool

text \<open>A compound is \<open>None\<close> when the shape is null, else the edges its explorer visits.\<close>

type_synonym TopoDS_Shape = "TopoDS_Edge list option"

record HLRBRep_HLRToShape =
  VCompound :: TopoDS_Shape
  HCompound :: TopoDS_Shape
  Rg1LineVCompound :: TopoDS_Shape
  Rg1LineHCompound :: TopoDS_Shape
  OutLineVCompound :: TopoDS_Shape
  OutLineHCompound :: TopoDS_Shape

definition atan2 :: "real \<Rightarrow> real \<Rightarrow> real" where
  "atan2 y x =
     (if x > 0 then arctan (y / x)
      else if x < 0 \<and> y \<ge> 0 then arctan (y / x) + pi
      else if x < 0 then arctan (y / x) - pi
      else if y > 0 then pi / 2
      else if y < 0 then - pi / 2
      else 0)"

section \<open>HLRExtractor: \<^verbatim>\<open>compute_hlr_projection\<close>\<close>

record Line2DFFI =
  ln_start_x :: real
  ln_start_y :: real
  ln_end_x :: real
  ln_end_y :: real
  ln_line_type :: int

record HLRProjectionResult =
  hlr_lines :: "Line2DFFI list"
  hlr_min_x :: real
  hlr_min_y :: real
  hlr_max_x :: real
  hlr_max_y :: real

text \<open>Body of the edge loop of \<^verbatim>\<open>extract_2d_edges\<close>; the state is the count \<^verbatim>\<open>extracted\<close> and
  the result whose lines and bounding box the function updates by reference.\<close>

definition extract_2d_edges_step ::
  "int \<Rightarrow> TopoDS_Edge \<Rightarrow> int \<times> HLRProjectionResult \<Rightarrow> int \<times> HLRProjectionResult" where
  "extract_2d_edges_step line_type edge st =
     (case st of (extracted, result) \<Rightarrow>
        if curve_is_null edge then (extracted, result)
        else
          let startPt = value_first edge;
              endPt = value_last edge;
              line = \<lparr>ln_start_x = coordX startPt, ln_start_y = coordY startPt,
                      ln_end_x = coordX endPt, ln_end_y = coordY endPt,
                      ln_line_type = line_type\<rparr>;
              len = sqrt ((ln_end_x line - ln_start_x line) ^ 2 + (ln_end_y line - ln_start_y line) ^ 2)
          in if len \<le> 1 / 10 ^ 7 then (extracted, result)
             else
               (extracted + 1,
                result\<lparr>hlr_min_x := min (hlr_min_x result) (min (ln_start_x line) (ln_end_x line)),
                       hlr_min_y := min (hlr_min_y result) (min (ln_start_y line) (ln_end_y line)),
                       hlr_max_x := max (hlr_max_x result) (max (ln_start_x line) (ln_end_x line)),
                       hlr_max_y := max (hlr_max_y result) (max (ln_start_y line) (ln_end_y line)),
                       hlr_lines := hlr_lines result @ [line]\<rparr>))"

definition extract_2d_edges ::
  "TopoDS_Shape \<Rightarrow> int \<Rightarrow> HLRProjectionResult \<Rightarrow> int \<times> HLRProjectionResult" where
  "extract_2d_edges shape line_type result =
     (case shape of
        None \<Rightarrow> (0, result)
      | Some edges \<Rightarrow> fold (extract_2d_edges_step line_type) edges (0, result))"

definition extract_bbox_edges ::
  "OcctShape \<Rightarrow> HLRProjectionResult \<Rightarrow> real \<Rightarrow> real \<Rightarrow> real \<Rightarrow> real \<Rightarrow> HLRProjectionResult" where
  "extract_bbox_edges shape result dir_x dir_y dir_z scale =
     (case bnd_box shape of
        None \<Rightarrow> result
      | Some (xmin, ymin, zmin, xmax, ymax, zmax) \<Rightarrow>
          (case (if \<bar>dir_y\<bar> > 9 / 10
                 then (round_double (xmin * scale), round_double (zmin * scale),
                       round_double (xmax * scale), round_double (zmax * scale))
                 else if \<bar>dir_z\<bar> > 9 / 10
                 then (round_double (xmin * scale), round_double (ymin * scale),
                       round_double (xmax * scale), round_double (ymax * scale))
                 else if \<bar>dir_x\<bar> > 9 / 10
                 then (round_double (ymin * scale), round_double (zmin * scale),
                       round_double (ymax * scale), round_double (zmax * scale))
                 else (round_double (xmin * scale), round_double (ymin * scale),
                       round_double (xmax * scale), round_double (ymax * scale)))
           of (p_xmin, p_ymin, p_xmax, p_ymax) \<Rightarrow>
             result\<lparr>hlr_lines := hlr_lines result @
                      [\<lparr>ln_start_x = p_xmin, ln_start_y = p_ymin, ln_end_x = p_xmax, ln_end_y = p_ymin,
                        ln_line_type = 4\<rparr>,
                       \<lparr>ln_start_x = p_xmax, ln_start_y = p_ymin, ln_end_x = p_xmax, ln_end_y = p_ymax,
                        ln_line_type = 4\<rparr>,
                       \<lparr>ln_start_x = p_xmax, ln_start_y = p_ymax, ln_end_x = p_xmin, ln_end_y = p_ymax,
                        ln_line_type = 4\<rparr>,
                       \<lparr>ln_start_x = p_xmin, ln_start_y = p_ymax, ln_end_x = p_xmin, ln_end_y = p_ymin,
                        ln_line_type = 4\<rparr>],
                    hlr_min_x := p_xmin, hlr_min_y := p_ymin,
                    hlr_max_x := p_xmax, hlr_max_y := p_ymax\<rparr>))"

definition hlr_scale_line :: "real \<Rightarrow> Line2DFFI \<Rightarrow> Line2DFFI" where
  "hlr_scale_line scale line =
     line\<lparr>ln_start_x := round_double (ln_start_x line * scale),
          ln_start_y := round_double (ln_start_y line * scale),
          ln_end_x := round_double (ln_end_x line * scale),
          ln_end_y := round_double (ln_end_y line * scale)\<rparr>"

definition hlr_zero_bbox :: "HLRProjectionResult \<Rightarrow> HLRProjectionResult" where
  "hlr_zero_bbox result = result\<lparr>hlr_min_x := 0, hlr_min_y := 0, hlr_max_x := 0, hlr_max_y := 0\<rparr>"

definition hlr_initial :: HLRProjectionResult where
  "hlr_initial =
     \<lparr>hlr_lines = [], hlr_min_x = DBL_MAX, hlr_min_y = DBL_MAX,
      hlr_max_x = DBL_LOWEST, hlr_max_y = DBL_LOWEST\<rparr>"

text \<open>The six calls of \<^verbatim>\<open>extract_2d_edges\<close>, one for each compound of the classifier, with
  the running sum \<^verbatim>\<open>totalExtracted\<close>.\<close>

definition hlr_extract_groups ::
  "HLRBRep_HLRToShape \<Rightarrow> HLRProjectionResult \<Rightarrow> int \<times> HLRProjectionResult" where
  "hlr_extract_groups extractor result0 =
     (case extract_2d_edges (VCompound extractor) 0 result0 of (n1, result1) \<Rightarrow>
      case extract_2d_edges (HCompound extractor) 1 result1 of (n2, result2) \<Rightarrow>
      case extract_2d_edges (Rg1LineVCompound extractor) 2 result2 of (n3, result3) \<Rightarrow>
      case extract_2d_edges (Rg1LineHCompound extractor) 3 result3 of (n4, result4) \<Rightarrow>
      case extract_2d_edges (OutLineVCompound extractor) 4 result4 of (n5, result5) \<Rightarrow>
      case extract_2d_edges (OutLineHCompound extractor) 5 result5 of (n6, result6) \<Rightarrow>
        (0 + n1 + n2 + n3 + n4 + n5 + n6, result6))"

text \<open>The part of the \<^verbatim>\<open>try\<close> block after the classifier has returned its six compounds:
  the six extractions, the bounding-box fallback, the scaling and the empty-result reset.\<close>

definition hlr_extract_all ::
  "OcctShape \<Rightarrow> real \<Rightarrow> real \<Rightarrow> real \<Rightarrow> real \<Rightarrow> HLRBRep_HLRToShape \<Rightarrow>
   HLRProjectionResult \<Rightarrow> HLRProjectionResult" where
  "hlr_extract_all shape dir_x dir_y dir_z scale extractor result0 =
     (case hlr_extract_groups extractor result0 of (totalExtracted, result6) \<Rightarrow>
        let result7 = (if hlr_lines result6 = []
                       then extract_bbox_edges shape result6 dir_x dir_y dir_z scale
                       else result6);
            result8 = (if scale \<noteq> 1 \<and> hlr_lines result7 \<noteq> [] \<and> totalExtracted > 0
                       then result7\<lparr>hlr_lines := map (hlr_scale_line scale) (hlr_lines result7),
                                     hlr_min_x := round_double (hlr_min_x result7 * scale),
                                     hlr_min_y := round_double (hlr_min_y result7 * scale),
                                     hlr_max_x := round_double (hlr_max_x result7 * scale),
                                     hlr_max_y := round_double (hlr_max_y result7 * scale)\<rparr>
                       else result7)
        in if hlr_lines result8 = [] then hlr_zero_bbox result8 else result8)"

text \<open>The \<^verbatim>\<open>try\<close> block.  \<open>hlr\<close> is the outcome of everything the kernel does between the
  normalisation of the view direction and the extraction: the projector frame from the view
  and up directions, the hidden-line algorithm and the six compounds of its extractor.\<close>

definition hlr_try ::
  "OcctShape \<Rightarrow> real \<Rightarrow> real \<Rightarrow> real \<Rightarrow> real \<Rightarrow> HLRBRep_HLRToShape kernel_result \<Rightarrow>
   HLRProjectionResult \<Rightarrow> HLRProjectionResult kernel_result" where
  "hlr_try shape dir_x dir_y dir_z scale hlr result =
     (if is_null shape then Inr result
      else if num_faces shape = 0 \<and> num_edges shape = 0 then Inr result
      else
        let len = sqrt (dir_x * dir_x + dir_y * dir_y + dir_z * dir_z)
        in if len < 1 / 10 ^ 10 then Inr result
           else
             (case hlr of
                Inl e \<Rightarrow> Inl e
              | Inr extractor \<Rightarrow>
                  Inr (hlr_extract_all shape (dir_x / len) (dir_y / len) (dir_z / len) scale
                         extractor result)))"

definition compute_hlr_projection ::
  "OcctShape \<Rightarrow> real \<Rightarrow> real \<Rightarrow> real \<Rightarrow> real \<Rightarrow> real \<Rightarrow> real \<Rightarrow> real \<Rightarrow>
   HLRBRep_HLRToShape kernel_result \<Rightarrow> HLRProjectionResult" where
  "compute_hlr_projection shape dir_x dir_y dir_z up_x up_y up_z scale hlr =
     (case hlr_try shape dir_x dir_y dir_z scale hlr hlr_initial of
        Inr result \<Rightarrow> result
      | Inl Standard_Failure \<Rightarrow> hlr_zero_bbox hlr_initial
      | Inl std_exception \<Rightarrow> hlr_zero_bbox hlr_initial
      | Inl unknown_exception \<Rightarrow> hlr_zero_bbox hlr_initial)"

section \<open>HLRExtractor: \<^verbatim>\<open>compute_hlr_projection_v2\<close>\<close>

record Curve2DFFI =
  cv_curve_type :: int
  cv_line_type :: int
  cv_start_x :: real
  cv_start_y :: real
  cv_end_x :: real
  cv_end_y :: real
  cv_center_x :: real
  cv_center_y :: real
  cv_radius :: real
  cv_major_radius :: real
  cv_minor_radius :: real
  cv_start_angle :: real
  cv_end_angle :: real
  cv_rotation :: real
  cv_ccw :: bool

record Polyline2DFFI =
  pl_points :: "TessPoint2D list"
  pl_line_type :: int

record HLRProjectionResultV2 =
  v2_curves :: "Curve2DFFI list"
  v2_polylines :: "Polyline2DFFI list"
  v2_min_x :: real
  v2_min_y :: real
  v2_max_x :: real
  v2_max_y :: real
  v2_num_edges :: int
  v2_num_lines :: int
  v2_num_arcs :: int
  v2_num_polylines :: int

text \<open>The counters \<^verbatim>\<open>numLines\<close>, \<^verbatim>\<open>numArcs\<close> and \<^verbatim>\<open>numPolylines\<close> that
  \<^verbatim>\<open>extract_2d_curves\<close> updates by reference.\<close>

record curve_counters =
  numLines :: int
  numArcs :: int
  numPolylines :: int

definition v2_widen_x :: "real \<Rightarrow> real \<Rightarrow> HLRProjectionResultV2 \<Rightarrow> HLRProjectionResultV2" where
  "v2_widen_x lo hi result =
     result\<lparr>v2_min_x := min (v2_min_x result) lo, v2_max_x := max (v2_max_x result) hi\<rparr>"

definition v2_widen_y :: "real \<Rightarrow> real \<Rightarrow> HLRProjectionResultV2 \<Rightarrow> HLRProjectionResultV2" where
  "v2_widen_y lo hi result =
     result\<lparr>v2_min_y := min (v2_min_y result) lo, v2_max_y := max (v2_max_y result) hi\<rparr>"

text \<open>Body of the loop over the sampled points of a tessellated curve.\<close>

definition polyline_add_point ::
  "gp_XYZ \<Rightarrow> Polyline2DFFI \<times> HLRProjectionResultV2 \<Rightarrow> Polyline2DFFI \<times> HLRProjectionResultV2" where
  "polyline_add_point pt st =
     (case st of (polyline, result) \<Rightarrow>
        (polyline\<lparr>pl_points := pl_points polyline @ [\<lparr>tp_x = coordX pt, tp_y = coordY pt\<rparr>]\<rparr>,
         v2_widen_y (coordY pt) (coordY pt) (v2_widen_x (coordX pt) (coordX pt) result)))"

text \<open>Body of the edge loop of \<^verbatim>\<open>extract_2d_curves\<close>.\<close>

definition extract_2d_curves_step ::
  "int \<Rightarrow> real \<Rightarrow> TopoDS_Edge \<Rightarrow> int \<times> HLRProjectionResultV2 \<times> curve_counters \<Rightarrow>
   int \<times> HLRProjectionResultV2 \<times> curve_counters" where
  "extract_2d_curves_step line_type deflection edge st =
     (case st of (extracted, result0, counters) \<Rightarrow>
        if curve_is_null edge then (extracted, result0, counters)
        else
          let curveType = curve_type edge;
              startPt = value_first edge;
              endPt = value_last edge;
              len = Distance startPt endPt
          in if len \<le> 1 / 10 ^ 7 \<and> curveType = GeomAbs_Line then (extracted, result0, counters)
             else
               let result = v2_widen_y (min (coordY startPt) (coordY endPt))
                                       (max (coordY startPt) (coordY endPt))
                              (v2_widen_x (min (coordX startPt) (coordX endPt))
                                          (max (coordX startPt) (coordX endPt)) result0)
               in (case curveType of
                     GeomAbs_Line \<Rightarrow>
                       let c = \<lparr>cv_curve_type = 0, cv_line_type = line_type,
                                cv_start_x = coordX startPt, cv_start_y = coordY startPt,
                                cv_end_x = coordX endPt, cv_end_y = coordY endPt,
                                cv_center_x = 0, cv_center_y = 0, cv_radius = 0,
                                cv_major_radius = 0, cv_minor_radius = 0,
                                cv_start_angle = 0, cv_end_angle = 0, cv_rotation = 0,
                                cv_ccw = False\<rparr>
                       in (extracted + 1,
                           result\<lparr>v2_curves := v2_curves result @ [c]\<rparr>,
                           counters\<lparr>numLines := numLines counters + 1\<rparr>)
                   | GeomAbs_Circle \<Rightarrow>
                       let center = circ_location edge;
                           radius = circ_radius edge;
                           result1 = v2_widen_y (round_double (coordY center - radius))
                                                (round_double (coordY center + radius))
                                       (v2_widen_x (round_double (coordX center - radius))
                                                   (round_double (coordX center + radius))
                                          result);
                           startAngle = atan2 (coordY startPt - coordY center)
                                              (coordX startPt - coordX center);
                           endAngle = atan2 (coordY endPt - coordY center)
                                            (coordX endPt - coordX center);
                           isFullCircle = (\<bar>first edge\<bar> < 1 / 10 ^ 10 \<and>
                                           \<bar>last edge - 2 * M_PI\<bar> < 1 / 10 ^ 10);
                           c = \<lparr>cv_curve_type = (if isFullCircle then 2 else 1),
                                cv_line_type = line_type,
                                cv_start_x = coordX startPt, cv_start_y = coordY startPt,
                                cv_end_x = coordX endPt, cv_end_y = coordY endPt,
                                cv_center_x = coordX center, cv_center_y = coordY center,
                                cv_radius = radius,
                                cv_major_radius = radius, cv_minor_radius = radius,
                                cv_start_angle = startAngle, cv_end_angle = endAngle,
                                cv_rotation = 0,
                                cv_ccw = (\<not> orientation_reversed edge)\<rparr>
                       in (extracted + 1,
                           result1\<lparr>v2_curves := v2_curves result1 @ [c]\<rparr>,
                           counters\<lparr>numArcs := numArcs counters + 1\<rparr>)
                   | GeomAbs_Ellipse \<Rightarrow>
                       let center = elips_location edge;
                           majorR = elips_major_radius edge;
                           minorR = elips_minor_radius edge;
                           xDir = elips_xdir edge;
                           rotation = atan2 (coordY xDir) (coordX xDir);
                           result1 = v2_widen_y (round_double (coordY center - majorR))
                                                (round_double (coordY center + majorR))
                                       (v2_widen_x (round_double (coordX center - majorR))
                                                   (round_double (coordX center + majorR))
                                          result);
                           c = \<lparr>cv_curve_type = 3, cv_line_type = line_type,
                                cv_start_x = coordX startPt, cv_start_y = coordY startPt,
                                cv_end_x = coordX endPt, cv_end_y = coordY endPt,
                                cv_center_x = coordX center, cv_center_y = coordY center,
                                cv_radius = majorR,
                                cv_major_radius = majorR, cv_minor_radius = minorR,
                                cv_start_angle = first edge, cv_end_angle = last edge,
                                cv_rotation = rotation,
                                cv_ccw = (\<not> orientation_reversed edge)\<rparr>
                       in (extracted + 1,
                           result1\<lparr>v2_curves := v2_curves result1 @ [c]\<rparr>,
                           counters\<lparr>numArcs := numArcs counters + 1\<rparr>)
                   | GeomAbs_OtherCurve \<Rightarrow>
                       let discretizer = tangential_deflection edge deflection;
                           nbPoints = length discretizer
                       in if nbPoints \<ge> 2 then
                            (case fold polyline_add_point discretizer
                                    (\<lparr>pl_points = [], pl_line_type = line_type\<rparr>, result)
                             of (polyline, result1) \<Rightarrow>
                               (extracted + 1,
                                result1\<lparr>v2_polylines := v2_polylines result1 @ [polyline]\<rparr>,
                                counters\<lparr>numPolylines := numPolylines counters + 1\<rparr>))
                          else (extracted, result, counters)))"

definition extract_2d_curves ::
  "TopoDS_Shape \<Rightarrow> int \<Rightarrow> real \<Rightarrow> HLRProjectionResultV2 \<times> curve_counters \<Rightarrow>
   int \<times> HLRProjectionResultV2 \<times> curve_counters" where
  "extract_2d_curves shape line_type deflection st =
     (case shape of
        None \<Rightarrow> (0, st)
      | Some edges \<Rightarrow> fold (extract_2d_curves_step line_type deflection) edges (0, st))"

text \<open>One call of \<^verbatim>\<open>extract_2d_curves\<close> from \<^verbatim>\<open>compute_hlr_projection_v2\<close>, with
  \<^verbatim>\<open>result.num_edges +=\<close> the count it returns.\<close>

definition v2_extract_group ::
  "TopoDS_Shape \<Rightarrow> int \<Rightarrow> real \<Rightarrow> HLRProjectionResultV2 \<times> curve_counters \<Rightarrow>
   HLRProjectionResultV2 \<times> curve_counters" where
  "v2_extract_group shape line_type deflection st =
     (case extract_2d_curves shape line_type deflection st of
        (extracted, result, counters) \<Rightarrow>
          (result\<lparr>v2_num_edges := v2_num_edges result + extracted\<rparr>, counters))"

definition v2_scale_curve :: "real \<Rightarrow> Curve2DFFI \<Rightarrow> Curve2DFFI" where
  "v2_scale_curve scale c =
     c\<lparr>cv_start_x := round_double (cv_start_x c * scale),
       cv_start_y := round_double (cv_start_y c * scale),
       cv_end_x := round_double (cv_end_x c * scale),
       cv_end_y := round_double (cv_end_y c * scale),
       cv_center_x := round_double (cv_center_x c * scale),
       cv_center_y := round_double (cv_center_y c * scale),
       cv_radius := round_double (cv_radius c * scale),
       cv_major_radius := round_double (cv_major_radius c * scale),
       cv_minor_radius := round_double (cv_minor_radius c * scale)\<rparr>"

definition v2_scale_polyline :: "real \<Rightarrow> Polyline2DFFI \<Rightarrow> Polyline2DFFI" where
  "v2_scale_polyline scale p =
     p\<lparr>pl_points := map (\<lambda>pt. pt\<lparr>tp_x := round_double (tp_x pt * scale),
                                    tp_y := round_double (tp_y pt * scale)\<rparr>)
                       (pl_points p)\<rparr>"

definition v2_zero_bbox :: "HLRProjectionResultV2 \<Rightarrow> HLRProjectionResultV2" where
  "v2_zero_bbox result = result\<lparr>v2_min_x := 0, v2_min_y := 0, v2_max_x := 0, v2_max_y := 0\<rparr>"

definition v2_initial :: HLRProjectionResultV2 where
  "v2_initial =
     \<lparr>v2_curves = [], v2_polylines = [],
      v2_min_x = DBL_MAX, v2_min_y = DBL_MAX, v2_max_x = DBL_LOWEST, v2_max_y = DBL_LOWEST,
      v2_num_edges = 0, v2_num_lines = 0, v2_num_arcs = 0, v2_num_polylines = 0\<rparr>"

text \<open>The six calls of \<^verbatim>\<open>extract_2d_curves\<close>, one for each compound of the classifier.\<close>

definition v2_extract_groups ::
  "real \<Rightarrow> HLRBRep_HLRToShape \<Rightarrow> HLRProjectionResultV2 \<times> curve_counters \<Rightarrow>
   HLRProjectionResultV2 \<times> curve_counters" where
  "v2_extract_groups deflection extractor st =
     v2_extract_group (OutLineHCompound extractor) 5 deflection
       (v2_extract_group (OutLineVCompound extractor) 4 deflection
         (v2_extract_group (Rg1LineHCompound extractor) 3 deflection
           (v2_extract_group (Rg1LineVCompound extractor) 2 deflection
             (v2_extract_group (HCompound extractor) 1 deflection
               (v2_extract_group (VCompound extractor) 0 deflection st)))))"

text \<open>The scaling block.\<close>

definition v2_apply_scale :: "real \<Rightarrow> HLRProjectionResultV2 \<Rightarrow> HLRProjectionResultV2" where
  "v2_apply_scale scale result =
     (if scale \<noteq> 1
      then result\<lparr>v2_curves := map (v2_scale_curve scale) (v2_curves result),
                  v2_polylines := map (v2_scale_polyline scale) (v2_polylines result),
                  v2_min_x := round_double (v2_min_x result * scale),
                  v2_min_y := round_double (v2_min_y result * scale),
                  v2_max_x := round_double (v2_max_x result * scale),
                  v2_max_y := round_double (v2_max_y result * scale)\<rparr>
      else result)"

text \<open>The part of the \<^verbatim>\<open>try\<close> block after the classifier has returned its six compounds.\<close>

definition v2_extract_all ::
  "real \<Rightarrow> real \<Rightarrow> HLRBRep_HLRToShape \<Rightarrow> HLRProjectionResultV2 \<Rightarrow> HLRProjectionResultV2" where
  "v2_extract_all scale deflection extractor result0 =
     (case v2_extract_groups deflection extractor
             (result0, \<lparr>numLines = 0, numArcs = 0, numPolylines = 0\<rparr>)
      of (result1, counters) \<Rightarrow>
        let result2 = result1\<lparr>v2_num_lines := numLines counters,
                              v2_num_arcs := numArcs counters,
                              v2_num_polylines := numPolylines counters\<rparr>;
            result3 = v2_apply_scale scale result2
        in if v2_curves result3 = [] \<and> v2_polylines result3 = []
           then v2_zero_bbox result3 else result3)"

definition v2_try ::
  "OcctShape \<Rightarrow> real \<Rightarrow> real \<Rightarrow> real \<Rightarrow> real \<Rightarrow> real \<Rightarrow> HLRBRep_HLRToShape kernel_result \<Rightarrow>
   HLRProjectionResultV2 \<Rightarrow> HLRProjectionResultV2 kernel_result" where
  "v2_try shape dir_x dir_y dir_z scale deflection0 hlr result =
     (if is_null shape then Inr result
      else
        let deflection = (if deflection0 \<le> 0 then 1 / 100 else deflection0);
            len = sqrt (dir_x * dir_x + dir_y * dir_y + dir_z * dir_z)
        in if len < 1 / 10 ^ 10 then Inr result
           else
             (case hlr of
                Inl e \<Rightarrow> Inl e
              | Inr extractor \<Rightarrow> Inr (v2_extract_all scale deflection extractor result)))"

definition compute_hlr_projection_v2 ::
  "OcctShape \<Rightarrow> real \<Rightarrow> real \<Rightarrow> real \<Rightarrow> real \<Rightarrow> real \<Rightarrow> real \<Rightarrow> real \<Rightarrow> real \<Rightarrow>
   HLRBRep_HLRToShape kernel_result \<Rightarrow> HLRProjectionResultV2" where
  "compute_hlr_projection_v2 shape dir_x dir_y dir_z up_x up_y up_z scale deflection hlr =
     (case v2_try shape dir_x dir_y dir_z scale deflection hlr v2_initial of
        Inr result \<Rightarrow> result
      | Inl Standard_Failure \<Rightarrow> v2_zero_bbox v2_initial
      | Inl std_exception \<Rightarrow> v2_initial
      | Inl unknown_exception \<Rightarrow> v2_initial)"

section \<open>Notions of the specification\<close>

text \<open>A simple polygon: two edges that are not neighbours have no common point, and two
  neighbouring edges meet in their common vertex only.  The tests are the usual ones on the
  sign of the orientation determinant.\<close>

definition orient :: "real \<times> real \<Rightarrow> real \<times> real \<Rightarrow> real \<times> real \<Rightarrow> real" where
  "orient p q r = (fst q - fst p) * (snd r - snd p) - (snd q - snd p) * (fst r - fst p)"

definition on_segment :: "real \<times> real \<Rightarrow> real \<times> real \<Rightarrow> real \<times> real \<Rightarrow> bool" where
  "on_segment p q r =
     (orient p q r = 0 \<and> min (fst p) (fst q) \<le> fst r \<and> fst r \<le> max (fst p) (fst q) \<and>
      min (snd p) (snd q) \<le> snd r \<and> snd r \<le> max (snd p) (snd q))"

definition segments_intersect ::
  "real \<times> real \<Rightarrow> real \<times> real \<Rightarrow> real \<times> real \<Rightarrow> real \<times> real \<Rightarrow> bool" where
  "segments_intersect a b c d =
     ((orient c d a * orient c d b < 0 \<and> orient a b c * orient a b d < 0) \<or>
      on_segment c d a \<or> on_segment c d b \<or> on_segment a b c \<or> on_segment a b d)"

definition edges_compatible :: "(real \<times> real) list \<Rightarrow> nat \<Rightarrow> nat \<Rightarrow> bool" where
  "edges_compatible poly i j =
     (let n = length poly;
          a = poly ! i; b = poly ! ((i + 1) mod n);
          c = poly ! j; d = poly ! ((j + 1) mod n)
      in if j = i + 1 then \<not> on_segment a b d \<and> \<not> on_segment c d a
         else if i = 0 \<and> j = n - 1 then \<not> on_segment a b c \<and> \<not> on_segment c d b
         else \<not> segments_intersect a b c d)"

definition simple_polygon :: "(real \<times> real) list \<Rightarrow> bool" where
  "simple_polygon poly =
     (3 \<le> length poly \<and>
      list_all (\<lambda>j. list_all (\<lambda>i. edges_compatible poly i j) [0..<j]) [0..<length poly])"

text \<open>The projected points of a wire, the curve and the region data that the specification
  expects for it.\<close>

definition project_wire :: "gp_XYZ \<Rightarrow> gp_XYZ \<Rightarrow> gp_XYZ \<Rightarrow> gp_XYZ list \<Rightarrow> (real \<times> real) list" where
  "project_wire origin xAxis yAxis wire =
     map (\<lambda>pt. project_point_to_plane pt origin xAxis yAxis) wire"

definition tess_points :: "(real \<times> real) list \<Rightarrow> TessPoint2D list" where
  "tess_points ps = map (\<lambda>p. \<lparr>tp_x = fst p, tp_y = snd p\<rparr>) ps"

definition wire_bbox :: "(real \<times> real) list \<Rightarrow> SectionWithHatchResult \<Rightarrow> SectionWithHatchResult" where
  "wire_bbox ps result = fold (\<lambda>p. section_update_bbox (fst p) (snd p)) ps result"

definition closed_curve :: "gp_XYZ \<Rightarrow> gp_XYZ \<Rightarrow> gp_XYZ \<Rightarrow> gp_XYZ list \<Rightarrow> SectionCurveFFI" where
  "closed_curve origin xAxis yAxis wire =
     \<lparr>sc_points = tess_points (project_wire origin xAxis yAxis wire), sc_is_closed = True\<rparr>"

definition open_curve :: "gp_XYZ \<Rightarrow> gp_XYZ \<Rightarrow> gp_XYZ \<Rightarrow> gp_XYZ list \<Rightarrow> SectionCurveFFI" where
  "open_curve origin xAxis yAxis wire =
     \<lparr>sc_points = tess_points (project_wire origin xAxis yAxis wire), sc_is_closed = False\<rparr>"

definition region_summary :: "HatchRegionFFI \<Rightarrow> TessPoint2D list \<times> real \<times> bool" where
  "region_summary region = (hr_boundary region, hr_area region, hr_is_outer region)"

text \<open>The region of a closed wire as the specification words it, with the shoelace
  formula, and the region with the area that the accumulation in \<^verbatim>\<open>double\<close> gives.\<close>

definition expected_region ::
  "gp_XYZ \<Rightarrow> gp_XYZ \<Rightarrow> gp_XYZ \<Rightarrow> gp_XYZ list \<Rightarrow> TessPoint2D list \<times> real \<times> bool" where
  "expected_region origin xAxis yAxis wire =
     (let boundary = project_wire origin xAxis yAxis wire
      in (tess_points boundary, \<bar>shoelace boundary\<bar>, shoelace boundary > 0))"

definition computed_region ::
  "gp_XYZ \<Rightarrow> gp_XYZ \<Rightarrow> gp_XYZ \<Rightarrow> gp_XYZ list \<Rightarrow> TessPoint2D list \<times> real \<times> bool" where
  "computed_region origin xAxis yAxis wire =
     (let boundary = project_wire origin xAxis yAxis wire
      in (tess_points boundary, \<bar>polygon_signed_area boundary\<bar>,
          polygon_signed_area boundary > 0))"

text \<open>The bounding rectangle that the fallback rule of the specification selects.\<close>

definition fallback_rectangle ::
  "real \<Rightarrow> real \<Rightarrow> real \<Rightarrow> real \<times> real \<times> real \<times> real \<times> real \<times> real \<Rightarrow> real \<Rightarrow>
   real \<times> real \<times> real \<times> real" where
  "fallback_rectangle dir_x dir_y dir_z box scale =
     (case box of (xmin, ymin, zmin, xmax, ymax, zmax) \<Rightarrow>
        if \<bar>dir_y\<bar> > 9 / 10
        then (round_double (xmin * scale), round_double (zmin * scale),
              round_double (xmax * scale), round_double (zmax * scale))
        else if \<bar>dir_z\<bar> > 9 / 10
        then (round_double (xmin * scale), round_double (ymin * scale),
              round_double (xmax * scale), round_double (ymax * scale))
        else if \<bar>dir_x\<bar> > 9 / 10
        then (round_double (ymin * scale), round_double (zmin * scale),
              round_double (ymax * scale), round_double (zmax * scale))
        else (round_double (xmin * scale), round_double (ymin * scale),
              round_double (xmax * scale), round_double (ymax * scale)))"

definition outline_rectangle :: "real \<times> real \<times> real \<times> real \<Rightarrow> HLRProjectionResult" where
  "outline_rectangle rect =
     (case rect of (p_xmin, p_ymin, p_xmax, p_ymax) \<Rightarrow>
        \<lparr>hlr_lines =
           [\<lparr>ln_start_x = p_xmin, ln_start_y = p_ymin, ln_end_x = p_xmax, ln_end_y = p_ymin,
             ln_line_type = 4\<rparr>,
            \<lparr>ln_start_x = p_xmax, ln_start_y = p_ymin, ln_end_x = p_xmax, ln_end_y = p_ymax,
             ln_line_type = 4\<rparr>,
            \<lparr>ln_start_x = p_xmax, ln_start_y = p_ymax, ln_end_x = p_xmin, ln_end_y = p_ymax,
             ln_line_type = 4\<rparr>,
            \<lparr>ln_start_x = p_xmin, ln_start_y = p_ymax, ln_end_x = p_xmin, ln_end_y = p_ymin,
             ln_line_type = 4\<rparr>],
         hlr_min_x = p_xmin, hlr_min_y = p_ymin, hlr_max_x = p_xmax, hlr_max_y = p_ymax\<rparr>)"

section \<open>Notions for the bounding box of the second projection\<close>

text \<open>The coordinates that the bounding box is compared with: the two end points of a
  curve and, for a circle, an arc or an ellipse, the corner \<^verbatim>\<open>center - radius\<close> on the lower
  side and \<^verbatim>\<open>center + radius\<close> on the upper side, each a difference or a sum in
  \<^verbatim>\<open>double\<close>; all the points of a polyline.\<close>

definition curve_ends :: "Curve2DFFI \<Rightarrow> (real \<times> real) list" where
  "curve_ends c = [(cv_start_x c, cv_start_y c), (cv_end_x c, cv_end_y c)]"

definition curve_corner_lower :: "Curve2DFFI \<Rightarrow> (real \<times> real) list" where
  "curve_corner_lower c =
     (if cv_curve_type c = 0 then []
      else [(round_double (cv_center_x c - cv_radius c),
             round_double (cv_center_y c - cv_radius c))])"

definition curve_corner_upper :: "Curve2DFFI \<Rightarrow> (real \<times> real) list" where
  "curve_corner_upper c =
     (if cv_curve_type c = 0 then []
      else [(round_double (cv_center_x c + cv_radius c),
             round_double (cv_center_y c + cv_radius c))])"

definition curve_lower :: "Curve2DFFI \<Rightarrow> (real \<times> real) list" where
  "curve_lower c = curve_ends c @ curve_corner_lower c"

definition curve_upper :: "Curve2DFFI \<Rightarrow> (real \<times> real) list" where
  "curve_upper c = curve_ends c @ curve_corner_upper c"

definition polyline_coords :: "Polyline2DFFI \<Rightarrow> (real \<times> real) list" where
  "polyline_coords p = map (\<lambda>pt. (tp_x pt, tp_y pt)) (pl_points p)"

definition result_lower :: "HLRProjectionResultV2 \<Rightarrow> (real \<times> real) list" where
  "result_lower result =
     concat (map curve_lower (v2_curves result)) @
     concat (map polyline_coords (v2_polylines result))"

definition result_upper :: "HLRProjectionResultV2 \<Rightarrow> (real \<times> real) list" where
  "result_upper result =
     concat (map curve_upper (v2_curves result)) @
     concat (map polyline_coords (v2_polylines result))"

text \<open>The points of a result: the end points of its curves and the points of its
  polylines; and the corners of its circles, arcs and ellipses.\<close>

definition result_ends :: "HLRProjectionResultV2 \<Rightarrow> (real \<times> real) list" where
  "result_ends result =
     concat (map curve_ends (v2_curves result)) @
     concat (map polyline_coords (v2_polylines result))"

definition result_corners_lower :: "HLRProjectionResultV2 \<Rightarrow> (real \<times> real) list" where
  "result_corners_lower result = concat (map curve_corner_lower (v2_curves result))"

definition result_corners_upper :: "HLRProjectionResultV2 \<Rightarrow> (real \<times> real) list" where
  "result_corners_upper result = concat (map curve_corner_upper (v2_curves result))"

definition group_edges :: "TopoDS_Shape \<Rightarrow> TopoDS_Edge list" where
  "group_edges shape = (case shape of None \<Rightarrow> [] | Some edges \<Rightarrow> edges)"

definition extractor_edges :: "HLRBRep_HLRToShape \<Rightarrow> TopoDS_Edge list" where
  "extractor_edges extractor =
     group_edges (VCompound extractor) @ group_edges (HCompound extractor) @
     group_edges (Rg1LineVCompound extractor) @ group_edges (Rg1LineHCompound extractor) @
     group_edges (OutLineVCompound extractor) @ group_edges (OutLineHCompound extractor)"

text \<open>The sampler gives at least two points of a curve that is neither a line, a circle nor
  an ellipse, the two endpoint evaluations among them.\<close>

definition tessellation_covers_ends :: "real \<Rightarrow> TopoDS_Edge \<Rightarrow> bool" where
  "tessellation_covers_ends deflection edge =
     (if curve_is_null edge \<or> curve_type edge \<noteq> GeomAbs_OtherCurve then True
      else 2 \<le> length (tangential_deflection edge deflection) \<and>
           value_first edge \<in> set (tangential_deflection edge deflection) \<and>
           value_last edge \<in> set (tangential_deflection edge deflection))"

definition finite_double :: "real \<Rightarrow> bool" where
  "finite_double x = (\<bar>x\<bar> \<le> DBL_MAX)"

text \<open>The running bounding box is the extremum of the initial value and of the coordinates
  emitted so far.\<close>

definition lower_bound :: "real set \<Rightarrow> real" where
  "lower_bound S = Min (insert DBL_MAX S)"

definition upper_bound :: "real set \<Rightarrow> real" where
  "upper_bound S = Max (insert DBL_LOWEST S)"

definition v2_bbox_inv :: "HLRProjectionResultV2 \<Rightarrow> bool" where
  "v2_bbox_inv result =
     (v2_min_x result = lower_bound (fst ` set (result_lower result)) \<and>
      v2_min_y result = lower_bound (snd ` set (result_lower result)) \<and>
      v2_max_x result = upper_bound (fst ` set (result_upper result)) \<and>
      v2_max_y result = upper_bound (snd ` set (result_upper result)) \<and>
      list_all (\<lambda>p. pl_points p \<noteq> []) (v2_polylines result))"

text \<open>The primitives that \<^verbatim>\<open>extract_2d_curves\<close> emits for an edge of each curve type, and
  the widening of the bounding box by the two endpoint evaluations.\<close>

definition line_curve :: "int \<Rightarrow> TopoDS_Edge \<Rightarrow> Curve2DFFI" where
  "line_curve line_type edge =
     \<lparr>cv_curve_type = 0, cv_line_type = line_type,
      cv_start_x = coordX (value_first edge), cv_start_y = coordY (value_first edge),
      cv_end_x = coordX (value_last edge), cv_end_y = coordY (value_last edge),
      cv_center_x = 0, cv_center_y = 0, cv_radius = 0,
      cv_major_radius = 0, cv_minor_radius = 0,
      cv_start_angle = 0, cv_end_angle = 0, cv_rotation = 0, cv_ccw = False\<rparr>"

definition circle_curve :: "int \<Rightarrow> TopoDS_Edge \<Rightarrow> Curve2DFFI" where
  "circle_curve line_type edge =
     \<lparr>cv_curve_type = (if \<bar>first edge\<bar> < 1 / 10 ^ 10 \<and> \<bar>last edge - 2 * M_PI\<bar> < 1 / 10 ^ 10
                        then 2 else 1),
      cv_line_type = line_type,
      cv_start_x = coordX (value_first edge), cv_start_y = coordY (value_first edge),
      cv_end_x = coordX (value_last edge), cv_end_y = coordY (value_last edge),
      cv_center_x = coordX (circ_location edge), cv_center_y = coordY (circ_location edge),
      cv_radius = circ_radius edge,
      cv_major_radius = circ_radius edge, cv_minor_radius = circ_radius edge,
      cv_start_angle = atan2 (coordY (value_first edge) - coordY (circ_location edge))
                             (coordX (value_first edge) - coordX (circ_location edge)),
      cv_end_angle = atan2 (coordY (value_last edge) - coordY (circ_location edge))
                           (coordX (value_last edge) - coordX (circ_location edge)),
      cv_rotation = 0, cv_ccw = (\<not> orientation_reversed edge)\<rparr>"

definition ellipse_curve :: "int \<Rightarrow> TopoDS_Edge \<Rightarrow> Curve2DFFI" where
  "ellipse_curve line_type edge =
     \<lparr>cv_curve_type = 3, cv_line_type = line_type,
      cv_start_x = coordX (value_first edge), cv_start_y = coordY (value_first edge),
      cv_end_x = coordX (value_last edge), cv_end_y = coordY (value_last edge),
      cv_center_x = coordX (elips_location edge), cv_center_y = coordY (elips_location edge),
      cv_radius = elips_major_radius edge,
      cv_major_radius = elips_major_radius edge, cv_minor_radius = elips_minor_radius edge,
      cv_start_angle = first edge, cv_end_angle = last edge,
      cv_rotation = atan2 (coordY (elips_xdir edge)) (coordX (elips_xdir edge)),
      cv_ccw = (\<not> orientation_reversed edge)\<rparr>"

definition sampled_polyline :: "int \<Rightarrow> real \<Rightarrow> TopoDS_Edge \<Rightarrow> Polyline2DFFI" where
  "sampled_polyline line_type deflection edge =
     \<lparr>pl_points = map (\<lambda>pt. \<lparr>tp_x = coordX pt, tp_y = coordY pt\<rparr>)
                     (tangential_deflection edge deflection),
      pl_line_type = line_type\<rparr>"

definition widen_ends :: "TopoDS_Edge \<Rightarrow> HLRProjectionResultV2 \<Rightarrow> HLRProjectionResultV2" where
  "widen_ends edge result =
     v2_widen_y (min (coordY (value_first edge)) (coordY (value_last edge)))
                (max (coordY (value_first edge)) (coordY (value_last edge)))
       (v2_widen_x (min (coordX (value_first edge)) (coordX (value_last edge)))
                   (max (coordX (value_first edge)) (coordX (value_last edge))) result)"

text \<open>The scaling block multiplies a coordinate by the scale in \<^verbatim>\<open>double\<close>; it is skipped
  when the scale is 1.\<close>

definition scale_coord :: "real \<Rightarrow> real \<Rightarrow> real" where
  "scale_coord s x = (if s = 1 then x else round_double (x * s))"

definition scale_point :: "real \<Rightarrow> real \<times> real \<Rightarrow> real \<times> real" where
  "scale_point s v = (scale_coord s (fst v), scale_coord s (snd v))"

section \<open>Concrete inputs\<close>

text \<open>A U-shaped nonagon, counter-clockwise; its vertex \<open>(0, 3)\<close> lies between its two
  neighbours in height.\<close>

definition U_polygon :: "(real \<times> real) list" where
  "U_polygon = [(0, 0), (8, 0), (8, 6), (6, 6), (6, 2), (2, 2), (2, 6), (1, 6), (0, 3)]"

definition unit_square :: "(real \<times> real) list" where
  "unit_square = [(0, 0), (1, 0), (1, 1), (0, 1)]"

text \<open>A triangle with products of coordinates above \<open>2^53\<close>, counter-clockwise, and a
  clockwise triangle of area \<open>1/2\<close> with coordinates near \<open>2^26.5\<close>; all coordinates are
  integers, hence doubles.\<close>

definition big_triangle :: "(real \<times> real) list" where
  "big_triangle = [(1, 1), (94906267, 1), (94906267, 94906267)]"

definition sliver :: "(real \<times> real) list" where
  "sliver = [(94906267, 94906267), (94906264, 94906265), (94906265, 94906266)]"

definition null_shape :: OcctShape where
  "null_shape = \<lparr>is_null = True, num_faces = 0, num_edges = 0, bnd_box = None\<rparr>"

definition cube_shape :: OcctShape where
  "cube_shape = \<lparr>is_null = False, num_faces = 6, num_edges = 12,
                  bnd_box = Some (- 5, - 5, - 5, 5, 5, 5)\<rparr>"

definition pnt :: "real \<Rightarrow> real \<Rightarrow> real \<Rightarrow> gp_XYZ" where
  "pnt x y z = \<lparr>coordX = x, coordY = y, coordZ = z\<rparr>"

definition square_wire :: "gp_XYZ list" where
  "square_wire = [pnt (- 5) (- 5) 0, pnt 5 (- 5) 0, pnt 5 5 0, pnt (- 5) 5 0]"

definition sliver_wire :: "gp_XYZ list" where
  "sliver_wire =
     [pnt 94906267 94906267 0, pnt 94906264 94906265 0, pnt 94906265 94906266 0]"

definition circle_wire :: "gp_XYZ list" where
  "circle_wire = [pnt 2 0 0]"

definition open_wire_2 :: "gp_XYZ list" where
  "open_wire_2 = [pnt 0 0 0, pnt 1 0 0]"

definition open_wire_1 :: "gp_XYZ list" where
  "open_wire_1 = [pnt 7 7 0]"

definition empty_shape :: OcctShape where
  "empty_shape = \<lparr>is_null = False, num_faces = 0, num_edges = 0, bnd_box = None\<rparr>"

definition void_shape :: OcctShape where
  "void_shape = \<lparr>is_null = False, num_faces = 1, num_edges = 0, bnd_box = None\<rparr>"

definition empty_extractor :: HLRBRep_HLRToShape where
  "empty_extractor =
     \<lparr>VCompound = Some [], HCompound = None, Rg1LineVCompound = None, Rg1LineHCompound = None,
      OutLineVCompound = Some [], OutLineHCompound = None\<rparr>"

definition line_edge :: "gp_XYZ \<Rightarrow> gp_XYZ \<Rightarrow> TopoDS_Edge" where
  "line_edge p q =
     \<lparr>curve_is_null = False, first = 0, last = Distance p q, value_first = p, value_last = q,
      curve_type = GeomAbs_Line, circ_location = pnt 0 0 0, circ_radius = 0,
      elips_location = pnt 0 0 0, elips_major_radius = 0, elips_minor_radius = 0,
      elips_xdir = pnt 1 0 0, tangential_deflection = (\<lambda>deflection. []),
      orientation_reversed = False\<rparr>"

definition circle_edge :: "gp_XYZ \<Rightarrow> real \<Rightarrow> gp_XYZ \<Rightarrow> TopoDS_Edge" where
  "circle_edge center radius p =
     \<lparr>curve_is_null = False, first = 0, last = 2 * pi, value_first = p, value_last = p,
      curve_type = GeomAbs_Circle, circ_location = center, circ_radius = radius,
      elips_location = pnt 0 0 0, elips_major_radius = 0, elips_minor_radius = 0,
      elips_xdir = pnt 1 0 0, tangential_deflection = (\<lambda>deflection. []),
      orientation_reversed = False\<rparr>"

definition spline_edge :: "gp_XYZ \<Rightarrow> gp_XYZ \<Rightarrow> gp_XYZ list \<Rightarrow> TopoDS_Edge" where
  "spline_edge p q samples =
     \<lparr>curve_is_null = False, first = 0, last = 1, value_first = p, value_last = q,
      curve_type = GeomAbs_OtherCurve, circ_location = pnt 0 0 0, circ_radius = 0,
      elips_location = pnt 0 0 0, elips_major_radius = 0, elips_minor_radius = 0,
      elips_xdir = pnt 1 0 0, tangential_deflection = (\<lambda>deflection. samples),
      orientation_reversed = False\<rparr>"

definition sample_extractor :: HLRBRep_HLRToShape where
  "sample_extractor =
     \<lparr>VCompound = Some [line_edge (pnt 0 0 0) (pnt 3 4 0), circle_edge (pnt 2 2 0) 1 (pnt 3 2 0)],
      HCompound = None, Rg1LineVCompound = None, Rg1LineHCompound = None,
      OutLineVCompound =
        Some [spline_edge (pnt 0 (- 1) 0) (pnt 4 0 0) [pnt 0 (- 1) 0, pnt 2 (- 2) 0, pnt 4 0 0]],
      OutLineHCompound = None\<rparr>"

definition line_extractor :: HLRBRep_HLRToShape where
  "line_extractor =
     \<lparr>VCompound = Some [line_edge (pnt 0 0 0) (pnt 3 4 0)],
      HCompound = None, Rg1LineVCompound = None, Rg1LineHCompound = None,
      OutLineVCompound = None, OutLineHCompound = None\<rparr>"

text \<open>An edge that is neither a line, a circle nor an ellipse widens the running bounding box
  by its two endpoint evaluations before the sampler is asked; when the sampler gives fewer
  than 2 points the edge emits nothing and the box keeps the two points.\<close>

text \<open>A full circle of radius 1 about \<open>(c, c)\<close> with \<open>c = 3002399751580331\<close>, for which
  \<open>3 * c\<close> lies just above \<open>2^53\<close>.\<close>

definition far_circle_extractor :: HLRBRep_HLRToShape where
  "far_circle_extractor =
     \<lparr>VCompound = Some [circle_edge (pnt 3002399751580331 3002399751580331 0) 1
                          (pnt 3002399751580332 3002399751580331 0)],
      HCompound = None, Rg1LineVCompound = None, Rg1LineHCompound = None,
      OutLineVCompound = None, OutLineHCompound = None\<rparr>"

definition dropped_extractor :: HLRBRep_HLRToShape where
  "dropped_extractor =
     \<lparr>VCompound = Some [line_edge (pnt 0 0 0) (pnt 3 4 0), spline_edge (pnt 5 5 0) (pnt 6 6 0) []],
      HCompound = None, Rg1LineVCompound = None, Rg1LineHCompound = None,
      OutLineVCompound = None, OutLineHCompound = None\<rparr>"

section \<open>Properties of the rounding\<close>

lemma round_half_even_int [simp]: "round_half_even (of_int k) = k"
  by (simp add: round_half_even_def)

lemma round_half_even_mono: "x \<le> y \<Longrightarrow> round_half_even x \<le> round_half_even y"
proof -
  assume xy: "x \<le> y"
  have fl: "\<lfloor>x\<rfloor> \<le> \<lfloor>y\<rfloor>" using xy by (rule floor_mono)
  show ?thesis
  proof (cases "\<lfloor>x\<rfloor> = \<lfloor>y\<rfloor>")
    case True
    with xy show ?thesis
      by (auto simp add: round_half_even_def Let_def)
  next
    case False
    with fl have "\<lfloor>x\<rfloor> + 1 \<le> \<lfloor>y\<rfloor>" by simp
    moreover have "round_half_even x \<le> \<lfloor>x\<rfloor> + 1"
      by (simp add: round_half_even_def Let_def)
    moreover have "\<lfloor>y\<rfloor> \<le> round_half_even y"
      by (simp add: round_half_even_def Let_def)
    ultimately show ?thesis by linarith
  qed
qed

lemma round_half_even_minus: "round_half_even (- x) = - round_half_even x"
proof (cases "x \<in> \<int>")
  case True
  then obtain k where "x = of_int k" by (auto elim: Ints_cases)
  then have "- x = of_int (- k)" by simp
  then show ?thesis using \<open>x = of_int k\<close> by (simp only: round_half_even_int)
next
  case False
  then have "x \<noteq> of_int \<lfloor>x\<rfloor>"
    by (metis Ints_of_int)
  then have c: "\<lceil>x\<rceil> = \<lfloor>x\<rfloor> + 1"
    by (simp add: ceiling_altdef)
  have f: "\<lfloor>- x\<rfloor> = - \<lfloor>x\<rfloor> - 1"
    using c by (simp add: ceiling_def)
  show ?thesis
    unfolding round_half_even_def Let_def f
    by (auto simp add: algebra_simps)
qed

lemma double_ulp_pos: "0 < double_ulp x"
  by (simp add: double_ulp_def)

lemma double_ulp_minus: "double_ulp (- x) = double_ulp x"
  by (simp add: double_ulp_def double_exponent_def)

lemma round_double_0 [simp]: "round_double 0 = 0"
  by (simp add: round_double_def)

lemma round_double_minus: "round_double (- x) = - round_double x"
  by (simp add: round_double_def double_ulp_minus round_half_even_minus)

lemma floor_log2_bounds:
  assumes "x \<noteq> 0"
  shows "2 powr of_int \<lfloor>log 2 \<bar>x\<bar>\<rfloor> \<le> \<bar>x\<bar>" and "\<bar>x\<bar> < 2 powr (of_int \<lfloor>log 2 \<bar>x\<bar>\<rfloor> + 1)"
proof -
  from assms have pos: "0 < \<bar>x\<bar>" by simp
  have "of_int \<lfloor>log 2 \<bar>x\<bar>\<rfloor> \<le> log 2 \<bar>x\<bar>" by simp
  then have "2 powr of_int \<lfloor>log 2 \<bar>x\<bar>\<rfloor> \<le> 2 powr log 2 \<bar>x\<bar>"
    by (simp only: powr_le_cancel_iff) 
  with pos show "2 powr of_int \<lfloor>log 2 \<bar>x\<bar>\<rfloor> \<le> \<bar>x\<bar>" by simp
  have "log 2 \<bar>x\<bar> < of_int \<lfloor>log 2 \<bar>x\<bar>\<rfloor> + 1" by linarith
  then have "2 powr log 2 \<bar>x\<bar> < 2 powr (of_int \<lfloor>log 2 \<bar>x\<bar>\<rfloor> + 1)"
    by (simp only: powr_less_cancel_iff)
  with pos show "\<bar>x\<bar> < 2 powr (of_int \<lfloor>log 2 \<bar>x\<bar>\<rfloor> + 1)" by simp
qed

lemma floor_log2_unique:
  assumes "2 powr of_int e \<le> \<bar>x\<bar>" and "\<bar>x\<bar> < 2 powr (of_int e + 1)"
  shows "\<lfloor>log 2 \<bar>x\<bar>\<rfloor> = e"
proof -
  have pos: "0 < \<bar>x\<bar>" using assms(1) powr_gt_zero [of 2 "of_int e"] by linarith
  have "of_int e \<le> log 2 \<bar>x\<bar>"
    using assms(1) pos by (simp add: le_log_iff)
  moreover have "log 2 \<bar>x\<bar> < of_int e + 1"
    using assms(2) pos by (simp add: log_less_iff)
  ultimately show ?thesis by linarith
qed

lemma powr_shift:
  "(2::real) powr (a + 1) = 2 ^ 53 * 2 powr (a - 52)"
  "(2::real) powr a = 2 ^ 52 * 2 powr (a - 52)"
proof -
  have "a + 1 = (a - 52) + real 53" by simp
  then have "(2::real) powr (a + 1) = 2 powr ((a - 52) + real 53)" by (rule arg_cong)
  also have "\<dots> = 2 powr (a - 52) * 2 powr real 53" by (rule powr_add)
  also have "(2::real) powr real 53 = 2 ^ 53" by (rule powr_realpow) simp
  finally show "(2::real) powr (a + 1) = 2 ^ 53 * 2 powr (a - 52)" by (simp only: mult.commute)
  have "a = (a - 52) + real 52" by simp
  then have "(2::real) powr a = 2 powr ((a - 52) + real 52)" by (rule arg_cong)
  also have "\<dots> = 2 powr (a - 52) * 2 powr real 52" by (rule powr_add)
  also have "(2::real) powr real 52 = 2 ^ 52" by (rule powr_realpow) simp
  finally show "(2::real) powr a = 2 ^ 52 * 2 powr (a - 52)" by (simp only: mult.commute)
qed

text \<open>The scaled significand is below \<open>2^53\<close>; for a normal number it is at least \<open>2^52\<close>.\<close>

lemma significand_less:
  assumes "x \<noteq> 0"
  shows "\<bar>x\<bar> / double_ulp x < 2 ^ 53"
proof -
  let ?l = "\<lfloor>log 2 \<bar>x\<bar>\<rfloor>" and ?E = "double_exponent x"
  have "\<bar>x\<bar> < 2 powr (of_int ?l + 1)" by (rule floor_log2_bounds [OF assms])
  also have "\<dots> \<le> 2 powr (of_int ?E + 1)" by (simp add: double_exponent_def)
  also have "\<dots> = 2 ^ 53 * 2 powr (of_int ?E - 52)" by (rule powr_shift)
  finally have "\<bar>x\<bar> < 2 ^ 53 * double_ulp x" by (simp only: double_ulp_def)
  then show ?thesis
    using double_ulp_pos [of x] by (simp only: pos_divide_less_eq)
qed

lemma significand_ge:
  assumes "x \<noteq> 0" and "- 1022 \<le> \<lfloor>log 2 \<bar>x\<bar>\<rfloor>"
  shows "2 ^ 52 \<le> \<bar>x\<bar> / double_ulp x"
proof -
  let ?l = "\<lfloor>log 2 \<bar>x\<bar>\<rfloor>"
  from assms(2) have "max ?l (- 1022) = ?l" by (rule max_absorb1)
  then have u: "double_ulp x = 2 powr (of_int ?l - 52)"
    by (simp only: double_ulp_def double_exponent_def)
  have "2 ^ 52 * 2 powr (of_int ?l - 52) = (2::real) powr of_int ?l"
    by (rule powr_shift [symmetric])
  also have "\<dots> \<le> \<bar>x\<bar>" by (rule floor_log2_bounds [OF assms(1)])
  finally have "2 ^ 52 * double_ulp x \<le> \<bar>x\<bar>" by (simp only: u)
  then show ?thesis
    using double_ulp_pos [of x] by (simp only: pos_le_divide_eq)
qed

lemma powr_succ: "(2::real) powr (a + 1) = 2 * 2 powr a"
proof -
  have "(2::real) powr (a + 1) = 2 powr a * 2 powr 1" by (rule powr_add)
  then show ?thesis by simp
qed

lemma double_exponent_mono:
  assumes "0 < x" and "x \<le> y"
  shows "double_exponent x \<le> double_exponent y"
proof -
  from assms have "log 2 \<bar>x\<bar> \<le> log 2 \<bar>y\<bar>" by simp
  then have "\<lfloor>log 2 \<bar>x\<bar>\<rfloor> \<le> \<lfloor>log 2 \<bar>y\<bar>\<rfloor>" by (rule floor_mono)
  then show ?thesis by (simp add: double_exponent_def)
qed

lemma round_double_nonneg:
  assumes "0 \<le> x"
  shows "0 \<le> round_double x"
proof (cases "x = 0")
  case True
  then show ?thesis by simp
next
  case False
  from assms double_ulp_pos [of x] have "0 \<le> x / double_ulp x" by simp
  from round_half_even_mono [OF this] have "0 \<le> round_half_even (x / double_ulp x)"
    using round_half_even_int [of 0] by simp
  with double_ulp_pos [of x] False show ?thesis
    by (simp add: round_double_def)
qed

lemma round_double_mono_pos:
  assumes "0 < x" and "x \<le> y"
  shows "round_double x \<le> round_double y"
proof -
  from assms have nz: "x \<noteq> 0" "y \<noteq> 0" and ypos: "0 < y" by simp_all
  have E: "double_exponent x \<le> double_exponent y"
    by (rule double_exponent_mono [OF assms])
  show ?thesis
  proof (cases "double_exponent x = double_exponent y")
    case True
    then have u: "double_ulp y = double_ulp x" by (simp add: double_ulp_def)
    from assms(2) double_ulp_pos [of x] have "x / double_ulp x \<le> y / double_ulp x"
      by (simp add: divide_right_mono)
    from round_half_even_mono [OF this] double_ulp_pos [of x] nz show ?thesis
      by (simp add: round_double_def u)
  next
    case False
    with E have lt: "double_exponent x + 1 \<le> double_exponent y" by simp
    then have "- 1022 < double_exponent y" by (simp add: double_exponent_def)
    then have normal: "- 1022 \<le> \<lfloor>log 2 \<bar>y\<bar>\<rfloor>"
      unfolding double_exponent_def by linarith
    have "x / double_ulp x \<le> 2 ^ 53"
      using significand_less [OF nz(1)] assms(1) by simp
    then have "x / double_ulp x \<le> of_int (2 ^ 53)" by simp
    from round_half_even_mono [OF this] have "round_half_even (x / double_ulp x) \<le> 2 ^ 53"
      by (simp only: round_half_even_int)
    then have "real_of_int (round_half_even (x / double_ulp x)) \<le> 2 ^ 53"
      by (metis of_int_le_iff of_int_numeral of_int_power)
    then have 1: "round_double x \<le> 2 ^ 53 * double_ulp x"
      using double_ulp_pos [of x] nz by (simp add: round_double_def)
    have "of_int (2 ^ 52) \<le> y / double_ulp y"
      using significand_ge [OF nz(2) normal] ypos by simp
    from round_half_even_mono [OF this] have "2 ^ 52 \<le> round_half_even (y / double_ulp y)"
      by (simp only: round_half_even_int)
    then have "2 ^ 52 \<le> real_of_int (round_half_even (y / double_ulp y))"
      by (metis of_int_le_iff of_int_numeral of_int_power)
    then have 2: "2 ^ 52 * double_ulp y \<le> round_double y"
      using double_ulp_pos [of y] nz by (simp add: round_double_def)
    have "real_of_int (double_exponent x) - 52 + 1 \<le> real_of_int (double_exponent y) - 52"
      using lt by linarith
    then have "2 powr (real_of_int (double_exponent x) - 52 + 1) \<le> double_ulp y"
      by (simp only: double_ulp_def powr_le_cancel_iff) 
    moreover have "2 powr (real_of_int (double_exponent x) - 52 + 1) = 2 * double_ulp x"
      unfolding double_ulp_def by (rule powr_succ)
    ultimately have "2 * double_ulp x \<le> double_ulp y" by simp
    then have "2 ^ 53 * double_ulp x \<le> 2 ^ 52 * double_ulp y" by simp
    with 1 2 show ?thesis by linarith
  qed
qed

lemma round_double_mono:
  assumes "x \<le> y"
  shows "round_double x \<le> round_double y"
proof -
  consider "0 < x" | "y < 0" | "x \<le> 0" "0 \<le> y" by linarith
  then show ?thesis
  proof cases
    case 1
    then show ?thesis using assms by (rule round_double_mono_pos)
  next
    case 2
    with assms have "0 < - y" and "- y \<le> - x" by simp_all
    from round_double_mono_pos [OF this] show ?thesis
      by (simp add: round_double_minus)
  next
    case 3
    from 3(1) have "0 \<le> round_double (- x)" by (intro round_double_nonneg) simp
    then have "round_double x \<le> 0" by (simp add: round_double_minus)
    moreover from 3(2) have "0 \<le> round_double y" by (rule round_double_nonneg)
    ultimately show ?thesis by simp
  qed
qed

text \<open>A number with a significand of at most 53 bits and an exponent in range is a double.\<close>

lemma round_double_dyadic:
  assumes "\<bar>k\<bar> < 2 ^ 53" and "- 1074 \<le> j"
  shows "round_double (of_int k * 2 powr of_int j) = of_int k * 2 powr of_int j"
proof (cases "k = 0")
  case True
  then show ?thesis by simp
next
  case False
  let ?x = "of_int k * 2 powr of_int j :: real"
  let ?l = "\<lfloor>log 2 \<bar>?x\<bar>\<rfloor>"
  from False have nz: "?x \<noteq> 0" by simp
  have "real_of_int \<bar>k\<bar> < 2 ^ 53"
    using assms(1) by (metis of_int_less_iff of_int_numeral of_int_power)
  then have "\<bar>?x\<bar> < 2 ^ 53 * 2 powr of_int j"
    by (simp add: abs_mult)
  also have "\<dots> = 2 powr (of_int j + 52 + 1)"
    using powr_shift(1) [of "real_of_int j + 52"] by simp
  finally have "(2::real) powr of_int ?l < 2 powr (of_int j + 52 + 1)"
    using floor_log2_bounds(1) [OF nz] by linarith
  then have "real_of_int ?l < of_int j + 52 + 1"
    by (simp only: powr_less_cancel_iff) 
  then have "?l \<le> j + 52" by linarith
  with assms(2) have E: "double_exponent ?x - 52 \<le> j"
    by (simp add: double_exponent_def)
  define d where "d = nat (j - (double_exponent ?x - 52))"
  define x where "x = ?x"
  define u where "u = double_ulp x"
  define p where "p = (2::real) powr of_int j"
  from E have d: "of_int j = (real_of_int (double_exponent ?x) - 52) + real d"
    by (simp add: d_def)
  have "2 powr of_int j = double_ulp ?x * 2 powr real d"
    unfolding double_ulp_def by (subst d) (rule powr_add)
  also have "(2::real) powr real d = 2 ^ d" by (rule powr_realpow) simp
  finally have pj: "p = u * 2 ^ d"
    by (simp only: p_def u_def x_def)
  have upos: "0 < u"
    unfolding u_def by (rule double_ulp_pos)
  have xk: "x = of_int k * p"
    by (simp only: x_def p_def)
  have "x / u = of_int (k * 2 ^ d)"
    using upos by (simp add: xk pj)
  then have "round_half_even (x / u) = k * 2 ^ d"
    by (simp only: round_half_even_int)
  moreover have "x \<noteq> 0"
    unfolding x_def by (rule nz)
  ultimately have "round_double x = of_int (k * 2 ^ d) * u"
    by (simp only: round_double_def u_def if_False)
  also have "\<dots> = x" by (simp add: xk pj)
  finally show ?thesis by (simp only: x_def)
qed

lemma round_double_int:
  assumes "\<bar>k\<bar> \<le> 2 ^ 53"
  shows "round_double (of_int k) = of_int k"
proof (cases "\<bar>k\<bar> < 2 ^ 53")
  case True
  from round_double_dyadic [OF True, of 0] show ?thesis by simp
next
  case False
  with assms have "\<bar>k\<bar> = 2 ^ 53" by simp
  then consider "k = 2 ^ 53" | "k = - (2 ^ 53)" by linarith
  then show ?thesis
  proof cases
    case 1
    have "round_double (of_int (2 ^ 52) * 2 powr of_int 1) = of_int (2 ^ 52) * 2 powr of_int 1"
      by (rule round_double_dyadic) simp_all
    with 1 show ?thesis by simp
  next
    case 2
    have "round_double (of_int (- (2 ^ 52)) * 2 powr of_int 1) = of_int (- (2 ^ 52)) * 2 powr of_int 1"
      by (rule round_double_dyadic) simp_all
    with 2 show ?thesis by simp
  qed
qed

lemma round_double_numeral:
  "numeral n \<le> (2::int) ^ 53 \<Longrightarrow> round_double (numeral n) = numeral n"
  "numeral n \<le> (2::int) ^ 53 \<Longrightarrow> round_double (- numeral n) = - numeral n"
  "round_double 1 = 1"
  "round_double (- 1) = - 1"
  using round_double_int [of "numeral n"] round_double_int [of "- numeral n"] round_double_int [of 1]
    round_double_int [of "- 1"]
  by simp_all

lemma round_double_fraction:
  assumes "\<bar>k\<bar> < 2 ^ 53" and "m \<le> 1074"
  shows "round_double (of_int k / 2 ^ m) = of_int k / 2 ^ m"
proof -
  have "(2::real) powr of_int (- int m) = 1 / 2 ^ m"
    using powr_realpow [of "2::real" m] by (simp add: powr_minus divide_inverse)
  moreover have "round_double (of_int k * 2 powr of_int (- int m)) = of_int k * 2 powr of_int (- int m)"
    using assms by (intro round_double_dyadic) simp_all
  ultimately show ?thesis by simp
qed

text \<open>Between \<open>2^53\<close> and \<open>2^54\<close> the doubles are the even integers.\<close>

lemma round_double_53:
  assumes "2 ^ 53 \<le> \<bar>x\<bar>" and "\<bar>x\<bar> < 2 ^ 54"
  shows "round_double x = 2 * of_int (round_half_even (x / 2))"
proof -
  have "(2::real) powr of_int 53 = 2 ^ 53" "(2::real) powr (of_int 53 + 1) = 2 ^ 54"
    using powr_realpow [of "2::real" 53] powr_realpow [of "2::real" 54] by simp_all
  with assms have "\<lfloor>log 2 \<bar>x\<bar>\<rfloor> = 53"
    by (intro floor_log2_unique) simp_all
  then have "double_ulp x = 2"
    by (simp add: double_ulp_def double_exponent_def)
  moreover from assms(1) have "x \<noteq> 0" by auto
  ultimately show ?thesis
    by (simp add: round_double_def)
qed

lemma round_double_5_4: "round_double (5 / 4) = 5 / 4"
  using round_double_fraction [of 5 2] by simp

lemma round_double_5_2: "round_double (5 / 2) = 5 / 2"
  using round_double_fraction [of 5 1] by simp

lemma round_double_half: "round_double (1 / 2) = 1 / 2"
  using round_double_fraction [of 1 1] by simp

lemma int_wrap_id: "- (2 ^ 31) \<le> n \<Longrightarrow> n < 2 ^ 31 \<Longrightarrow> int_wrap n = n"
  by (simp add: int_wrap_def)

section \<open>Properties of the Hatcher\<close>

lemma sqrt_100: "sqrt 100 = 10"
  by (rule real_sqrt_unique) simp_all

lemma sqrt_25: "sqrt 25 = 5"
  by (rule real_sqrt_unique) simp_all

lemma upt_9: "[0..<9] = [0, 1, 2, 3, 4, 5, 6, 7, 8]"
  by (simp add: upt_rec)

lemma upto_m3_3: "[- 3..3::int] = [- 3, - 2, - 1, 0, 1, 2, 3]"
  by (simp add: upto_rec1)

lemma hatch_diag_nonneg: "0 \<le> hatch_diag min_x min_y max_x max_y"
  unfolding hatch_diag_def
  by (intro round_double_nonneg real_sqrt_ge_zero add_nonneg_nonneg zero_le_power2)

text \<open>The outer loop visits the offset indices from its start to \<open>num_lines\<close> in order.\<close>

lemma hatch_loop_closed:
  "hatch_loop boundary cos_a sin_a cx cy spacing num_lines i hatch_lines =
     hatch_lines @
     concat (map (\<lambda>i. hatch_line boundary cos_a sin_a cx cy (round_double (of_int i * spacing)))
               [i..num_lines])"
proof (induction boundary cos_a sin_a cx cy spacing num_lines i hatch_lines rule: hatch_loop.induct)
  case (1 boundary cos_a sin_a cx cy spacing num_lines i hatch_lines)
  show ?case
  proof (cases "i \<le> num_lines")
    case True
    then have "[i..num_lines] = i # [i + 1..num_lines]"
      by (simp add: upto_rec1)
    with True 1 show ?thesis
      by (subst hatch_loop.simps) simp
  next
    case False
    then show ?thesis
      by (subst hatch_loop.simps) simp
  qed
qed

lemma U_diag: "hatch_diag 0 0 8 6 = 10"
  by (simp add: hatch_diag_def round_double_numeral sqrt_100)

lemma U_num_lines: "hatch_num_lines 0 0 8 6 8 = 3"
proof -
  have "\<lfloor>(5::real) / 4\<rfloor> = 1"
    by linarith
  then show ?thesis
    by (simp add: hatch_num_lines_def U_diag round_double_5_4 static_cast_int_def int_wrap_def)
qed

lemma U_line_0:
  "hatch_line U_polygon 1 0 4 3 0 =
     [\<lparr>hl_start_x = 2, hl_start_y = 3, hl_end_x = 6, hl_end_y = 3\<rparr>]"
  by (simp add: hatch_line_def U_polygon_def upt_9 hatch_edge_crossing_def Let_def)

lemma U_line_off:
  "off \<in> {- 24, - 16, - 8, 8, 16, 24} \<Longrightarrow> hatch_line U_polygon 1 0 4 3 off = []"
  by (auto simp add: hatch_line_def U_polygon_def upt_9 hatch_edge_crossing_def Let_def)

lemma U_hatch:
  "generate_hatch_lines_for_region U_polygon 0 8 [] 0 0 8 6 =
     [\<lparr>hl_start_x = 2, hl_start_y = 3, hl_end_x = 6, hl_end_y = 3\<rparr>]"
proof -
  have "length U_polygon = 9"
    by (simp add: U_polygon_def)
  then show ?thesis
    by (simp add: generate_hatch_lines_for_region_def U_num_lines hatch_loop_closed upto_m3_3
        U_line_0 U_line_off M_PI_def int_wrap_def round_double_numeral)
qed

lemma U_simple: "simple_polygon U_polygon"
  by (simp add: simple_polygon_def U_polygon_def upt_9 upt_rec [of 0 "numeral k" for k]
      edges_compatible_def segments_intersect_def on_segment_def orient_def Let_def)

text \<open>
  Claim C1, at the U-shaped nonagon with hatch angle 0, spacing 8 and the polygon's own
  bounding rectangle: the polygon is simple, the candidate line \<open>y = 3\<close> passes through the
  vertex \<open>(0, 3)\<close>, whose crossing is collected once for each of the two edges that meet
  there, and the pairing of the sorted crossings \<open>0, 0, 2, 6, 8\<close> returns the single segment
  from \<open>(2, 3)\<close> to \<open>(6, 3)\<close>, which spans the notch of the U: its midpoint \<open>(4, 3)\<close> is not
  inside the polygon.
\<close>

theorem hatch_segment_midpoint_outside:
  "simple_polygon U_polygon \<and>
   generate_hatch_lines_for_region U_polygon 0 8 [] 0 0 8 6 =
     [\<lparr>hl_start_x = 2, hl_start_y = 3, hl_end_x = 6, hl_end_y = 3\<rparr>] \<and>
   hatch_midpoint \<lparr>hl_start_x = 2, hl_start_y = 3, hl_end_x = 6, hl_end_y = 3\<rparr> = (4, 3) \<and>
   \<not> point_in_polygon U_polygon (4, 3)"
proof -
  have "\<not> point_in_polygon U_polygon (4, 3)"
    by (simp add: point_in_polygon_def U_polygon_def upt_9 ray_crosses_edge_def)
  then show ?thesis
    by (simp add: U_simple U_hatch hatch_midpoint_def)
qed


text \<open>The conversion of a quotient in the range of \<^verbatim>\<open>int\<close>, and beyond it.\<close>

lemma num_lines_in_range:
  assumes "0 \<le> q" and "q < 2 ^ 31 - 3"
  shows "int_wrap (static_cast_int q + 2) = \<lfloor>q\<rfloor> + 2"
    and "int_wrap (- (\<lfloor>q\<rfloor> + 2)) = - (\<lfloor>q\<rfloor> + 2)"
proof -
  define n where "n = \<lfloor>q\<rfloor>"
  from assms(1) have lo: "0 \<le> n" by (simp add: n_def)
  from assms(2) have "q < of_int (2 ^ 31 - 3)" by simp
  then have hi: "n < 2 ^ 31 - 3" by (simp only: n_def floor_less_iff)
  from lo hi assms(1) have "static_cast_int q = n"
    by (simp add: static_cast_int_def n_def [symmetric])
  moreover from lo hi have "int_wrap (n + 2) = n + 2"
    by (intro int_wrap_id) simp_all
  ultimately show "int_wrap (static_cast_int q + 2) = \<lfloor>q\<rfloor> + 2"
    by (simp only: n_def)
  from lo hi have "int_wrap (- (n + 2)) = - (n + 2)"
    by (intro int_wrap_id) simp_all
  then show "int_wrap (- (\<lfloor>q\<rfloor> + 2)) = - (\<lfloor>q\<rfloor> + 2)"
    by (simp only: n_def)
qed

lemma num_lines_overflow:
  assumes "2 ^ 31 \<le> q"
  shows "int_wrap (static_cast_int q + 2) = - (2 ^ 31) + 2"
    and "int_wrap (- (- (2 ^ 31) + 2)) = 2 ^ 31 - 2"
proof -
  from assms have "(2::int) ^ 31 \<le> \<lfloor>q\<rfloor>" by (simp add: le_floor_iff)
  moreover from assms have "0 \<le> q" by simp
  ultimately have "static_cast_int q = - (2 ^ 31)"
    by (simp add: static_cast_int_def)
  then show "int_wrap (static_cast_int q + 2) = - (2 ^ 31) + 2"
    by (simp add: int_wrap_def)
  show "int_wrap (- (- (2 ^ 31) + 2)) = 2 ^ 31 - 2"
    by (simp add: int_wrap_def)
qed

text \<open>
  Claim C7, amended: let \<open>q\<close> be the quotient \<^verbatim>\<open>diag / spacing\<close> as the code computes it in
  \<^verbatim>\<open>double\<close>.  For a boundary of at least 3 points and a positive spacing: when
  \<open>q < 2^31 - 3\<close>, so that neither the 32-bit count nor the loop counter overflows, the
  candidate count is \<open>N = \<lfloor>q\<rfloor> + 2\<close> (the code truncates the quotient, it does not round it
  up), and the segments returned are those of the candidate lines at the offsets
  \<^verbatim>\<open>i * spacing\<close>, rounded to \<^verbatim>\<open>double\<close>, for \<open>i\<close> from \<open>- N\<close> to \<open>N\<close> inclusive, in this
  order; when \<open>q \<ge> 2^31\<close> the conversion to \<^verbatim>\<open>int\<close> overflows and no candidate line is
  generated.
\<close>

theorem hatch_candidate_lines:
  assumes "3 \<le> length boundary" and "0 < spacing"
    and "q = round_double (hatch_diag min_x min_y max_x max_y / spacing)"
    and "N = hatch_num_lines min_x min_y max_x max_y spacing"
  shows "(q < 2 ^ 31 - 3 \<longrightarrow>
            N = \<lfloor>q\<rfloor> + 2 \<and>
            generate_hatch_lines_for_region boundary angle_deg spacing [] min_x min_y max_x max_y =
              concat (map (\<lambda>i. hatch_line boundary (cos (angle_deg * pi / 180))
                                  (sin (angle_deg * pi / 180))
                                  ((min_x + max_x) / 2) ((min_y + max_y) / 2)
                                  (round_double (of_int i * spacing)))
                        [- N .. N])) \<and>
         (2 ^ 31 \<le> q \<longrightarrow>
            generate_hatch_lines_for_region boundary angle_deg spacing [] min_x min_y max_x max_y
              = [])"
proof (intro conjI impI)
  have guard: "\<not> (length boundary < 3 \<or> spacing \<le> 0)"
    using assms(1,2) by simp
  have "0 \<le> hatch_diag min_x min_y max_x max_y / spacing"
    using assms(2) hatch_diag_nonneg by simp
  then have q0: "0 \<le> q"
    unfolding assms(3) by (rule round_double_nonneg)
  have N: "N = int_wrap (static_cast_int q + 2)"
    by (simp only: assms(3,4) hatch_num_lines_def)
  have gen: "generate_hatch_lines_for_region boundary angle_deg spacing [] min_x min_y max_x max_y =
      concat (map (\<lambda>i. hatch_line boundary (cos (angle_deg * pi / 180))
                          (sin (angle_deg * pi / 180))
                          ((min_x + max_x) / 2) ((min_y + max_y) / 2)
                          (round_double (of_int i * spacing)))
                [int_wrap (- N) .. N])"
    using guard
    unfolding generate_hatch_lines_for_region_def Let_def hatch_loop_closed M_PI_def assms(4)
    by simp
  {
    assume r: "q < 2 ^ 31 - 3"
    from num_lines_in_range(1) [OF q0 r] N show n: "N = \<lfloor>q\<rfloor> + 2"
      by simp
    from num_lines_in_range(2) [OF q0 r] n have "int_wrap (- N) = - N"
      by simp
    with gen show "generate_hatch_lines_for_region boundary angle_deg spacing []
        min_x min_y max_x max_y =
      concat (map (\<lambda>i. hatch_line boundary (cos (angle_deg * pi / 180))
                          (sin (angle_deg * pi / 180))
                          ((min_x + max_x) / 2) ((min_y + max_y) / 2)
                          (round_double (of_int i * spacing)))
                [- N .. N])"
      by simp
  }
  {
    assume r: "2 ^ 31 \<le> q"
    from num_lines_overflow [OF r] N have "N = - (2 ^ 31) + 2" and "int_wrap (- N) = 2 ^ 31 - 2"
      by simp_all
    then have "[int_wrap (- N) .. N] = []"
      by simp
    with gen show "generate_hatch_lines_for_region boundary angle_deg spacing []
        min_x min_y max_x max_y = []"
      by simp
  }
qed

theorem hatch_candidate_lines_witness:
  "round_double (hatch_diag 0 0 8 6 / 8) < 2 ^ 31 - 3 \<and>
   hatch_num_lines 0 0 8 6 8 = 3 \<and>
   generate_hatch_lines_for_region U_polygon 0 8 [] 0 0 8 6 =
     concat (map (\<lambda>i. hatch_line U_polygon 1 0 4 3 (round_double (of_int i * 8))) [- 3..3])"
proof -
  have len: "3 \<le> length U_polygon"
    by (simp add: U_polygon_def)
  have pos: "(0::real) < 8"
    by simp
  have q: "round_double (hatch_diag 0 0 8 6 / 8) = 5 / 4"
    by (simp add: U_diag round_double_5_4)
  have r: "(5::real) / 4 < 2 ^ 31 - 3"
    by simp
  have trig: "cos (0 * pi / 180) = 1" "sin (0 * pi / 180) = 0"
    and centre: "((0::real) + 8) / 2 = 4" "((0::real) + 6) / 2 = 3"
    by simp_all
  note inst = hatch_candidate_lines [OF len pos refl refl,
      where min_x = 0 and min_y = 0 and max_x = 8 and max_y = 6 and angle_deg = 0]
  from inst [unfolded q trig centre U_num_lines] r show ?thesis
    by (simp only: q U_num_lines simp_thms)
qed

text \<open>The count of claim C7 as the specification words it, with the quotient rounded up,
  is not what the code computes: for the rectangle \<open>(0,0)-(3,4)\<close> of diagonal 5 and spacing 2
  the code has \<open>N = 4\<close>, the rounded-up formula gives 5.\<close>

theorem hatch_num_lines_not_ceiling:
  "hatch_num_lines 0 0 3 4 2 = 4 \<and> \<lceil>hatch_diag 0 0 3 4 / 2\<rceil> + 2 = 5"
proof -
  have diag: "hatch_diag 0 0 3 4 = 5"
    by (simp add: hatch_diag_def round_double_numeral sqrt_25)
  have "\<lfloor>(5::real) / 2\<rfloor> = 2" and "\<lceil>(5::real) / 2\<rceil> = 3"
    by linarith+
  then show ?thesis
    by (simp add: hatch_num_lines_def diag static_cast_int_def int_wrap_def round_double_5_2)
qed

text \<open>A rectangle \<open>3000000000\<close> wide hatched with spacing 1: the quotient is at least \<open>2^31\<close>
  and no hatch line is generated.\<close>

lemma hatch_overflow_no_lines:
  "generate_hatch_lines_for_region U_polygon 0 1 [] 0 0 3000000000 4 = []"
proof -
  have d: "round_double 3000000000 = 3000000000"
    by (simp add: round_double_numeral)
  have s: "round_double 9000000000000000000 = 9000000000000000000"
    using round_double_dyadic [of 34332275390625 18] powr_realpow [of "2::real" 18] by simp
  have "round_double 9000000000000000000 \<le> round_double 9000000000000000016"
    by (rule round_double_mono) simp
  then have "9000000000000000000 \<le> round_double 9000000000000000016"
    by (simp only: s)
  then have "sqrt 9000000000000000000 \<le> sqrt (round_double 9000000000000000016)"
    by (rule real_sqrt_le_mono)
  moreover have "sqrt 9000000000000000000 = 3000000000"
    by (rule real_sqrt_unique) simp_all
  ultimately have "3000000000 \<le> sqrt (round_double 9000000000000000016)"
    by (simp only:)
  then have "round_double 3000000000 \<le> round_double (sqrt (round_double 9000000000000000016))"
    by (rule round_double_mono)
  then have "3000000000 \<le> hatch_diag 0 0 3000000000 4"
    by (simp add: hatch_diag_def round_double_numeral s d)
  then have "round_double 3000000000 \<le> round_double (hatch_diag 0 0 3000000000 4 / 1)"
    by (intro round_double_mono) simp
  then have q: "2 ^ 31 \<le> round_double (hatch_diag 0 0 3000000000 4 / 1)"
    by (simp add: d)
  have "3 \<le> length U_polygon"
    by (simp add: U_polygon_def)
  moreover have "\<not> (1::real) \<le> 0" by simp
  ultimately show ?thesis
    using num_lines_overflow [OF q]
    by (simp add: generate_hatch_lines_for_region_def hatch_num_lines_def hatch_loop_closed)
qed

section \<open>Properties of the signed area\<close>

lemma upt_3: "[0..<3] = [0, 1, 2]"
  by (simp add: upt_rec)

lemma upt_4: "[0..<4] = [0, 1, 2, 3]"
  by (simp add: upt_rec)

text \<open>On a polygon whose accumulation is exact, the loop computes the shoelace sum.\<close>

lemma area_step_exact:
  assumes "no_rounding pts" and "k < length pts"
  shows "area_step pts k (exact_area pts k) = exact_area pts (Suc k)"
proof -
  from assms have "let j = (k + 1) mod length pts;
                       p = fst (pts ! k) * snd (pts ! j);
                       q = fst (pts ! j) * snd (pts ! k);
                       a = exact_area pts k
                   in is_double p \<and> is_double (a + p) \<and> is_double q \<and> is_double (a + p - q)"
    by (simp add: no_rounding_def list_all_iff)
  then show ?thesis
    by (simp add: Let_def is_double_def area_step_def exact_area_def)
qed

lemma fold_area_step_exact:
  assumes "no_rounding pts" and "k \<le> length pts"
  shows "fold (area_step pts) [0..<k] 0 = exact_area pts k"
  using assms(2)
proof (induction k)
  case 0
  show ?case by (simp add: exact_area_def)
next
  case (Suc k)
  then have "fold (area_step pts) [0..<k] 0 = exact_area pts k" and "k < length pts"
    by simp_all
  then show ?case
    using area_step_exact [OF assms(1)] by simp
qed

lemma exact_area_shoelace: "exact_area pts (length pts) / 2 = shoelace pts"
  by (simp add: exact_area_def shoelace_def interv_sum_list_conv_sum_set_nat atLeast0LessThan)

lemma polygon_signed_area_shoelace:
  assumes "no_rounding pts"
  shows "polygon_signed_area pts = shoelace pts"
proof -
  from assms have "is_double (exact_area pts (length pts) / 2)"
    by (simp add: no_rounding_def)
  then show ?thesis
    using fold_area_step_exact [OF assms order_refl]
    by (simp add: polygon_signed_area_def is_double_def exact_area_shoelace)
qed

lemma sum_shift_mod:
  fixes g :: "nat \<Rightarrow> real"
  shows "(\<Sum>i<n. g ((i + 1) mod n)) = (\<Sum>i<n. g i)"
proof (cases n)
  case 0
  then show ?thesis by simp
next
  case (Suc m)
  have "(\<Sum>i<Suc m. g ((i + 1) mod Suc m)) =
        (\<Sum>i<m. g ((i + 1) mod Suc m)) + g ((m + 1) mod Suc m)"
    by simp
  also have "(\<Sum>i<m. g ((i + 1) mod Suc m)) = (\<Sum>i<m. g (Suc i))"
    by (rule sum.cong) simp_all
  also have "g ((m + 1) mod Suc m) = g 0" by simp
  also have "(\<Sum>i<m. g (Suc i)) + g 0 = (\<Sum>i<Suc m. g i)"
    using sum.lessThan_Suc_shift [of g m] by simp
  finally show ?thesis using Suc by simp
qed

lemma shoelace_rotate1: "shoelace (rotate1 pts) = shoelace pts"
proof -
  let ?n = "length pts"
  let ?g = "\<lambda>j. fst (pts ! j) * snd (pts ! ((j + 1) mod ?n))
                 - fst (pts ! ((j + 1) mod ?n)) * snd (pts ! j)"
  have "(\<Sum>i<?n. fst (rotate1 pts ! i) * snd (rotate1 pts ! ((i + 1) mod ?n))
                  - fst (rotate1 pts ! ((i + 1) mod ?n)) * snd (rotate1 pts ! i))
        = (\<Sum>i<?n. ?g ((i + 1) mod ?n))"
  proof (rule sum.cong)
    fix i assume "i \<in> {..<?n}"
    then have i: "i < ?n" by simp
    then have "0 < ?n" by (cases pts) simp_all
    then have "(i + 1) mod ?n < ?n" by (rule mod_less_divisor)
    with i show "fst (rotate1 pts ! i) * snd (rotate1 pts ! ((i + 1) mod ?n))
                  - fst (rotate1 pts ! ((i + 1) mod ?n)) * snd (rotate1 pts ! i)
                 = ?g ((i + 1) mod ?n)"
      by (simp add: nth_rotate1)
  qed simp
  also have "\<dots> = (\<Sum>i<?n. ?g i)" by (rule sum_shift_mod)
  finally show ?thesis by (simp add: shoelace_def)
qed

lemma shoelace_rotate: "shoelace (rotate k pts) = shoelace pts"
  by (induction k) (simp_all add: shoelace_rotate1)

lemma shoelace_rev: "shoelace (rev pts) = - shoelace pts"
proof (cases pts)
  case Nil
  then show ?thesis by (simp add: shoelace_def)
next
  case (Cons p ps)
  let ?n = "length pts"
  obtain m where m: "?n = Suc m" using Cons by simp
  let ?g = "\<lambda>j. fst (pts ! j) * snd (pts ! ((j + 1) mod ?n))
                 - fst (pts ! ((j + 1) mod ?n)) * snd (pts ! j)"
  let ?h = "\<lambda>i. fst (rev pts ! i) * snd (rev pts ! ((i + 1) mod ?n))
                 - fst (rev pts ! ((i + 1) mod ?n)) * snd (rev pts ! i)"
  have last: "?h m = - ?g m"
    using m by (simp add: rev_nth)
  have inner: "?h i = - ?g (m - Suc i)" if "i < m" for i
  proof -
    have "Suc (m - Suc i) = m - i" using that by simp
    then show ?thesis using that m by (simp add: rev_nth)
  qed
  have "(\<Sum>i<?n. ?h i) = (\<Sum>i<m. ?h i) + ?h m" using m by simp
  also have "(\<Sum>i<m. ?h i) = (\<Sum>i<m. - ?g (m - Suc i))"
  proof (rule sum.cong)
    fix i assume "i \<in> {..<m}"
    then have "i < m" by simp
    then show "?h i = - ?g (m - Suc i)" by (rule inner)
  qed simp
  also have "\<dots> = - (\<Sum>i<m. ?g (m - Suc i))" by (rule sum_negf)
  also have "(\<Sum>i<m. ?g (m - Suc i)) = (\<Sum>i<m. ?g i)"
    by (rule sum.nat_diff_reindex)
  finally have "(\<Sum>i<?n. ?h i) = - (\<Sum>i<?n. ?g i)" using m last by simp
  then show ?thesis by (simp add: shoelace_def)
qed

text \<open>The accumulation on the unit square and on its rotations and its reversal is exact.\<close>

lemma unit_square_no_rounding:
  "no_rounding unit_square"
  "no_rounding (rotate 1 unit_square)"
  "no_rounding (rev unit_square)"
  by (simp_all add: no_rounding_def unit_square_def upt_4 Let_def is_double_def exact_area_def
      round_double_numeral round_double_half upt_rec [of 0 "numeral k" for k])

text \<open>
  Claim C3, amended: on a point list whose accumulation is exact (no product, no partial sum
  and not the final half is rounded) \<^verbatim>\<open>polygon_signed_area\<close> is the shoelace sum; when the
  accumulation is exact on the list and on its rotation, the two values are equal, and when
  it is exact on the list and on its reversal, the two values are opposite; on the unit
  square \<open>(0,0), (1,0), (1,1), (0,1)\<close> the value is 1, and the region built from the unit
  square has area 1 and is an outer region.
\<close>

theorem polygon_signed_area_exact_symmetries:
  "(no_rounding pts \<longrightarrow> polygon_signed_area pts = shoelace pts) \<and>
   (no_rounding pts \<and> no_rounding (rotate k pts) \<longrightarrow>
      polygon_signed_area (rotate k pts) = polygon_signed_area pts) \<and>
   (no_rounding pts \<and> no_rounding (rev pts) \<longrightarrow>
      polygon_signed_area (rev pts) = - polygon_signed_area pts) \<and>
   polygon_signed_area unit_square = 1 \<and>
   hr_area (make_hatch_region unit_square hatch_angle hatch_spacing min_x min_y max_x max_y) = 1 \<and>
   hr_is_outer (make_hatch_region unit_square hatch_angle hatch_spacing min_x min_y max_x max_y)"
proof -
  have "shoelace unit_square = 1"
    by (simp add: exact_area_shoelace [symmetric] exact_area_def unit_square_def upt_4)
  then have "polygon_signed_area unit_square = 1"
    by (simp add: polygon_signed_area_shoelace unit_square_no_rounding)
  then show ?thesis
    by (simp add: polygon_signed_area_shoelace shoelace_rotate shoelace_rev make_hatch_region_def)
qed

theorem polygon_signed_area_exact_symmetries_witness:
  "no_rounding unit_square \<and> no_rounding (rotate 1 unit_square) \<and> no_rounding (rev unit_square) \<and>
   polygon_signed_area unit_square = shoelace unit_square \<and>
   polygon_signed_area (rotate 1 unit_square) = polygon_signed_area unit_square \<and>
   polygon_signed_area (rev unit_square) = - polygon_signed_area unit_square"
  using polygon_signed_area_exact_symmetries [of unit_square 1] unit_square_no_rounding
  by blast

text \<open>Claim C3 as the specification words it, for every point list, does not hold of the
  accumulation in \<^verbatim>\<open>double\<close>: on the triangle \<open>(1,1), (a,1), (a,a)\<close> with \<open>a = 94906267\<close> the
  value is \<open>4503599663031378\<close>, after a rotation by one place it is \<open>4503599663031376\<close>,
  and on the reversed list it is \<open>-4503599663031376\<close>.\<close>

theorem polygon_signed_area_order_dependent:
  "polygon_signed_area big_triangle = 4503599663031378 \<and>
   polygon_signed_area (rotate 1 big_triangle) = 4503599663031376 \<and>
   polygon_signed_area (rev big_triangle) = - 4503599663031376"
  by (simp add: polygon_signed_area_def area_step_def big_triangle_def upt_3 Let_def
      round_double_numeral round_double_53 round_half_even_def)

section \<open>Properties of the SectionExtractor\<close>

lemma wire_bbox_fields [simp]:
  "sec_curves (wire_bbox ps r) = sec_curves r"
  "sec_regions (wire_bbox ps r) = sec_regions r"
  "sec_num_regions (wire_bbox ps r) = sec_num_regions r"
  "sec_num_hatch_lines (wire_bbox ps r) = sec_num_hatch_lines r"
  by (induction ps arbitrary: r) (simp_all add: wire_bbox_def section_update_bbox_def)

lemma length_project_wire [simp]: "length (project_wire origin xAxis yAxis wire) = length wire"
  by (simp add: project_wire_def)

lemma length_tess_points [simp]: "length (tess_points ps) = length ps"
  by (simp add: tess_points_def)

lemma closed_wire_vertex_fold:
  "fold (closed_wire_vertex origin xAxis yAxis) wire (boundary, curve, result) =
     (boundary @ project_wire origin xAxis yAxis wire,
      curve\<lparr>sc_points := sc_points curve @ tess_points (project_wire origin xAxis yAxis wire)\<rparr>,
      wire_bbox (project_wire origin xAxis yAxis wire) result)"
proof (induction wire arbitrary: boundary curve result)
  case Nil
  then show ?case by (simp add: project_wire_def tess_points_def wire_bbox_def)
next
  case (Cons pt wire)
  show ?case
    by (simp add: Cons.IH closed_wire_vertex_def [of _ _ _ pt] project_wire_def tess_points_def
        wire_bbox_def split: prod.split)
qed

lemma open_wire_vertex_fold:
  "fold (open_wire_vertex origin xAxis yAxis) wire (curve, result) =
     (curve\<lparr>sc_points := sc_points curve @ tess_points (project_wire origin xAxis yAxis wire)\<rparr>,
      wire_bbox (project_wire origin xAxis yAxis wire) result)"
proof (induction wire arbitrary: curve result)
  case Nil
  then show ?case by (simp add: project_wire_def tess_points_def wire_bbox_def)
next
  case (Cons pt wire)
  show ?case
    by (simp add: Cons.IH open_wire_vertex_def [of _ _ _ pt] project_wire_def tess_points_def
        wire_bbox_def split: prod.split)
qed

lemma process_closed_wire_fields:
  assumes "process_closed_wire origin xAxis yAxis ha hs wire (r, c) = (r', c')"
  shows "c' = c + 1"
    and "sec_curves r' = sec_curves r @ (if 3 \<le> length wire then [closed_curve origin xAxis yAxis wire] else [])"
    and "map region_summary (sec_regions r') = map region_summary (sec_regions r) @
           (if 3 \<le> length wire then [computed_region origin xAxis yAxis wire] else [])"
  using assms
  by (auto simp add: process_closed_wire_def closed_wire_vertex_fold Let_def closed_curve_def
      region_summary_def computed_region_def make_hatch_region_def tess_points_def
      split: if_splits)

lemma process_open_wire_fields:
  assumes "process_open_wire origin xAxis yAxis wire (r, c) = (r', c')"
  shows "sec_curves r' = sec_curves r @ (if 2 \<le> length wire then [open_curve origin xAxis yAxis wire] else [])"
    and "sec_regions r' = sec_regions r"
  using assms
  by (auto simp add: process_open_wire_def open_wire_vertex_fold Let_def open_curve_def
      split: if_splits)

lemma closed_wires_fold:
  assumes "fold (process_closed_wire origin xAxis yAxis ha hs) wires (r, c) = (r', c')"
  shows "c' = c + int (length wires) \<and>
         sec_curves r' = sec_curves r @
           map (closed_curve origin xAxis yAxis) (filter (\<lambda>w. 3 \<le> length w) wires) \<and>
         map region_summary (sec_regions r') = map region_summary (sec_regions r) @
           map (computed_region origin xAxis yAxis) (filter (\<lambda>w. 3 \<le> length w) wires)"
  using assms
proof (induction wires arbitrary: r c)
  case Nil
  then show ?case by simp
next
  case (Cons w wires)
  obtain r1 c1 where step: "process_closed_wire origin xAxis yAxis ha hs w (r, c) = (r1, c1)"
    by (cases "process_closed_wire origin xAxis yAxis ha hs w (r, c)")
  with Cons.prems have "fold (process_closed_wire origin xAxis yAxis ha hs) wires (r1, c1) = (r', c')"
    by simp
  from Cons.IH [OF this] process_closed_wire_fields [OF step] show ?case
    by simp
qed

lemma open_wires_fold:
  assumes "fold (process_open_wire origin xAxis yAxis) wires (r, c) = (r', c')"
  shows "sec_curves r' = sec_curves r @
           map (open_curve origin xAxis yAxis) (filter (\<lambda>w. 2 \<le> length w) wires) \<and>
         sec_regions r' = sec_regions r"
  using assms
proof (induction wires arbitrary: r c)
  case Nil
  then show ?case by simp
next
  case (Cons w wires)
  obtain r1 c1 where step: "process_open_wire origin xAxis yAxis w (r, c) = (r1, c1)"
    by (cases "process_open_wire origin xAxis yAxis w (r, c)")
  with Cons.prems have "fold (process_open_wire origin xAxis yAxis) wires (r1, c1) = (r', c')"
    by simp
  from Cons.IH [OF this] process_open_wire_fields [OF step] show ?case
    by simp
qed

lemma section_wires_fields:
  "sec_num_regions (section_wires origin xAxis yAxis ha hs closedWires openWires section_initial)
     = int (length closedWires)"
  "sec_curves (section_wires origin xAxis yAxis ha hs closedWires openWires section_initial) =
     map (closed_curve origin xAxis yAxis) (filter (\<lambda>w. 3 \<le> length w) closedWires) @
     map (open_curve origin xAxis yAxis) (filter (\<lambda>w. 2 \<le> length w) openWires)"
  "map region_summary
     (sec_regions (section_wires origin xAxis yAxis ha hs closedWires openWires section_initial)) =
     map (computed_region origin xAxis yAxis) (filter (\<lambda>w. 3 \<le> length w) closedWires)"
proof -
  obtain r1 c1 where c: "fold (process_closed_wire origin xAxis yAxis ha hs) closedWires
      (section_initial, 0) = (r1, c1)"
    by (cases "fold (process_closed_wire origin xAxis yAxis ha hs) closedWires (section_initial, 0)")
  obtain r2 c2 where o: "fold (process_open_wire origin xAxis yAxis) openWires (r1, 0) = (r2, c2)"
    by (cases "fold (process_open_wire origin xAxis yAxis) openWires (r1, 0)")
  have init: "sec_curves section_initial = []" "sec_regions section_initial = []"
    by (simp_all add: section_initial_def)
  note cf = closed_wires_fold [OF c, unfolded init]
  note of' = open_wires_fold [OF o]
  have res: "section_wires origin xAxis yAxis ha hs closedWires openWires section_initial =
     (let result3 = r2\<lparr>sec_num_regions := c1\<rparr>
      in if sec_curves result3 = [] then section_zero_bbox result3 else result3)"
    by (simp add: section_wires_def c o)
  show "sec_num_regions (section_wires origin xAxis yAxis ha hs closedWires openWires section_initial)
     = int (length closedWires)"
    using cf by (simp add: res Let_def section_zero_bbox_def)
  show "sec_curves (section_wires origin xAxis yAxis ha hs closedWires openWires section_initial) =
     map (closed_curve origin xAxis yAxis) (filter (\<lambda>w. 3 \<le> length w) closedWires) @
     map (open_curve origin xAxis yAxis) (filter (\<lambda>w. 2 \<le> length w) openWires)"
    using cf of' by (simp add: res Let_def section_zero_bbox_def)
  show "map region_summary
     (sec_regions (section_wires origin xAxis yAxis ha hs closedWires openWires section_initial)) =
     map (computed_region origin xAxis yAxis) (filter (\<lambda>w. 3 \<le> length w) closedWires)"
    using cf of' by (simp add: res Let_def section_zero_bbox_def)
qed

text \<open>The entry point on the path where no kernel call throws and the intersection is
  done.\<close>

lemma compute_section_with_hatch_normal:
  assumes "\<not> is_null shape"
    and "gp_Dir normal_x normal_y normal_z = Inr normal"
    and "gp_Dir up_x up_y up_z = Inr upDir"
    and "xAxis = (case Crossed upDir normal of
                    Inl e \<Rightarrow> \<lparr>coordX = 1, coordY = 0, coordZ = 0\<rparr> | Inr x \<Rightarrow> x)"
    and "Crossed normal xAxis = Inr yAxis"
  shows "compute_section_with_hatch shape origin_x origin_y origin_z normal_x normal_y normal_z
           up_x up_y up_z ha hs (Inr True) (Inr (closedWires, openWires)) =
         section_wires \<lparr>coordX = origin_x, coordY = origin_y, coordZ = origin_z\<rparr> xAxis yAxis
           ha hs closedWires openWires section_initial"
  using assms by (simp add: compute_section_with_hatch_def section_try_def Let_def)

lemma gp_Resolution_lt_1: "\<not> 1 \<le> gp_Resolution"
  by (simp add: gp_Resolution_def)

lemma gp_Dir_z: "gp_Dir 0 0 1 = Inr (pnt 0 0 1)"
  by (simp add: gp_Dir_def pnt_def gp_Resolution_lt_1)

lemma gp_Dir_y: "gp_Dir 0 1 0 = Inr (pnt 0 1 0)"
  by (simp add: gp_Dir_def pnt_def gp_Resolution_lt_1)

lemma Crossed_y_z: "Crossed (pnt 0 1 0) (pnt 0 0 1) = Inr (pnt 1 0 0)"
  by (simp add: Crossed_def pnt_def Modulus_def gp_Resolution_lt_1)

lemma Crossed_z_x: "Crossed (pnt 0 0 1) (pnt 1 0 0) = Inr (pnt 0 1 0)"
  by (simp add: Crossed_def pnt_def Modulus_def gp_Resolution_lt_1)

text \<open>A region agrees with the shoelace formula when the accumulation on its boundary is
  exact.\<close>

lemma computed_region_exact:
  assumes "no_rounding (project_wire origin xAxis yAxis wire)"
  shows "computed_region origin xAxis yAxis wire = expected_region origin xAxis yAxis wire"
  using assms
  by (simp add: computed_region_def expected_region_def Let_def polygon_signed_area_shoelace)

text \<open>
  Claim C2, amended: when the shape is not null, the plane basis exists, the intersection is
  done and the partition returns, every closed wire with at least 3 projected points yields
  exactly one region, in the order of the wires, whose boundary is its projected points,
  whose area is the absolute value of the shoelace sum as \<^verbatim>\<open>polygon_signed_area\<close>
  accumulates it in \<^verbatim>\<open>double\<close> and which is outer exactly when that sum is positive; a
  closed wire with fewer than 3 points yields no curve and no region; an open wire yields a
  curve exactly when it has at least 2 points, and no region.  When the accumulation is
  exact on the boundary of every kept closed wire, the area and the outer flag are those of
  the shoelace formula.
\<close>

theorem section_wires_kept:
  assumes "\<not> is_null shape"
    and "gp_Dir normal_x normal_y normal_z = Inr normal"
    and "gp_Dir up_x up_y up_z = Inr upDir"
    and "xAxis = (case Crossed upDir normal of
                    Inl e \<Rightarrow> \<lparr>coordX = 1, coordY = 0, coordZ = 0\<rparr> | Inr x \<Rightarrow> x)"
    and "Crossed normal xAxis = Inr yAxis"
    and "origin = \<lparr>coordX = origin_x, coordY = origin_y, coordZ = origin_z\<rparr>"
    and "result = compute_section_with_hatch shape origin_x origin_y origin_z
           normal_x normal_y normal_z up_x up_y up_z hatch_angle hatch_spacing
           (Inr True) (Inr (closedWires, openWires))"
  shows "map region_summary (sec_regions result) =
           map (computed_region origin xAxis yAxis) (filter (\<lambda>w. 3 \<le> length w) closedWires) \<and>
         sec_curves result =
           map (closed_curve origin xAxis yAxis) (filter (\<lambda>w. 3 \<le> length w) closedWires) @
           map (open_curve origin xAxis yAxis) (filter (\<lambda>w. 2 \<le> length w) openWires) \<and>
         (list_all (\<lambda>w. no_rounding (project_wire origin xAxis yAxis w))
            (filter (\<lambda>w. 3 \<le> length w) closedWires) \<longrightarrow>
          map region_summary (sec_regions result) =
            map (expected_region origin xAxis yAxis) (filter (\<lambda>w. 3 \<le> length w) closedWires))"
proof -
  have r: "map region_summary (sec_regions result) =
      map (computed_region origin xAxis yAxis) (filter (\<lambda>w. 3 \<le> length w) closedWires)"
    and c: "sec_curves result =
      map (closed_curve origin xAxis yAxis) (filter (\<lambda>w. 3 \<le> length w) closedWires) @
      map (open_curve origin xAxis yAxis) (filter (\<lambda>w. 2 \<le> length w) openWires)"
    using compute_section_with_hatch_normal [OF assms(1-5)] assms(6,7)
    by (simp_all add: section_wires_fields)
  have "map (computed_region origin xAxis yAxis) ws = map (expected_region origin xAxis yAxis) ws"
    if "list_all (\<lambda>w. no_rounding (project_wire origin xAxis yAxis w)) ws" for ws
    using that by (simp add: list_all_iff computed_region_exact)
  with r c show ?thesis
    by simp
qed

lemma project_xy: "project_point_to_plane (pnt x y z) (pnt 0 0 0) (pnt 1 0 0) (pnt 0 1 0) = (x, y)"
  by (simp add: project_point_to_plane_def pnt_def Dot_def)

lemma square_projected:
  "project_wire (pnt 0 0 0) (pnt 1 0 0) (pnt 0 1 0) square_wire =
     [(- 5, - 5), (5, - 5), (5, 5), (- 5, 5)]"
  by (simp add: project_wire_def square_wire_def project_xy)

lemma square_no_rounding:
  "no_rounding [(- 5, - 5), (5, - 5), (5, 5), (- 5, 5)]"
  by (simp add: no_rounding_def upt_4 Let_def is_double_def exact_area_def
      round_double_numeral upt_rec [of 0 "numeral k" for k])

lemma square_expected:
  "expected_region (pnt 0 0 0) (pnt 1 0 0) (pnt 0 1 0) square_wire =
     ([\<lparr>tp_x = - 5, tp_y = - 5\<rparr>, \<lparr>tp_x = 5, tp_y = - 5\<rparr>, \<lparr>tp_x = 5, tp_y = 5\<rparr>,
       \<lparr>tp_x = - 5, tp_y = 5\<rparr>], 100, True)"
  by (simp add: expected_region_def square_projected tess_points_def
      exact_area_shoelace [symmetric] exact_area_def upt_4)

theorem section_wires_kept_witness:
  "list_all (\<lambda>w. no_rounding (project_wire (pnt 0 0 0) (pnt 1 0 0) (pnt 0 1 0) w))
     (filter (\<lambda>w. 3 \<le> length w) [square_wire, circle_wire]) \<and>
   map region_summary (sec_regions (compute_section_with_hatch cube_shape 0 0 0 0 0 1 0 1 0 45 1
      (Inr True) (Inr ([square_wire, circle_wire], [open_wire_2, open_wire_1])))) =
     [([\<lparr>tp_x = - 5, tp_y = - 5\<rparr>, \<lparr>tp_x = 5, tp_y = - 5\<rparr>, \<lparr>tp_x = 5, tp_y = 5\<rparr>,
        \<lparr>tp_x = - 5, tp_y = 5\<rparr>], 100, True)] \<and>
   sec_curves (compute_section_with_hatch cube_shape 0 0 0 0 0 1 0 1 0 45 1
      (Inr True) (Inr ([square_wire, circle_wire], [open_wire_2, open_wire_1]))) =
     [\<lparr>sc_points = [\<lparr>tp_x = - 5, tp_y = - 5\<rparr>, \<lparr>tp_x = 5, tp_y = - 5\<rparr>, \<lparr>tp_x = 5, tp_y = 5\<rparr>,
        \<lparr>tp_x = - 5, tp_y = 5\<rparr>], sc_is_closed = True\<rparr>,
      \<lparr>sc_points = [\<lparr>tp_x = 0, tp_y = 0\<rparr>, \<lparr>tp_x = 1, tp_y = 0\<rparr>], sc_is_closed = False\<rparr>]"
proof -
  have shape: "\<not> is_null cube_shape"
    by (simp add: cube_shape_def)
  have xAxis: "pnt 1 0 0 = (case Crossed (pnt 0 1 0) (pnt 0 0 1) of
                    Inl e \<Rightarrow> \<lparr>coordX = 1, coordY = 0, coordZ = 0\<rparr> | Inr x \<Rightarrow> x)"
    by (simp add: Crossed_y_z)
  have origin: "pnt 0 0 0 = \<lparr>coordX = 0, coordY = 0, coordZ = 0\<rparr>"
    by (simp add: pnt_def)
  have lens: "length square_wire = 4" "length circle_wire = 1" "length open_wire_2 = 2"
      "length open_wire_1 = 1"
    by (simp_all add: square_wire_def circle_wire_def open_wire_2_def open_wire_1_def)
  have exact: "list_all (\<lambda>w. no_rounding (project_wire (pnt 0 0 0) (pnt 1 0 0) (pnt 0 1 0) w))
      (filter (\<lambda>w. 3 \<le> length w) [square_wire, circle_wire])"
    by (simp add: lens square_projected square_no_rounding)
  have curves: "closed_curve (pnt 0 0 0) (pnt 1 0 0) (pnt 0 1 0) square_wire =
      \<lparr>sc_points = [\<lparr>tp_x = - 5, tp_y = - 5\<rparr>, \<lparr>tp_x = 5, tp_y = - 5\<rparr>, \<lparr>tp_x = 5, tp_y = 5\<rparr>,
        \<lparr>tp_x = - 5, tp_y = 5\<rparr>], sc_is_closed = True\<rparr>"
    "open_curve (pnt 0 0 0) (pnt 1 0 0) (pnt 0 1 0) open_wire_2 =
      \<lparr>sc_points = [\<lparr>tp_x = 0, tp_y = 0\<rparr>, \<lparr>tp_x = 1, tp_y = 0\<rparr>], sc_is_closed = False\<rparr>"
    by (simp_all add: closed_curve_def open_curve_def project_wire_def square_wire_def
        open_wire_2_def project_xy tess_points_def)
  from section_wires_kept [OF shape gp_Dir_z gp_Dir_y xAxis Crossed_z_x origin refl,
      of 45 1 "[square_wire, circle_wire]" "[open_wire_2, open_wire_1]"] exact
  have "map region_summary (sec_regions (compute_section_with_hatch cube_shape 0 0 0 0 0 1 0 1 0 45 1
      (Inr True) (Inr ([square_wire, circle_wire], [open_wire_2, open_wire_1])))) =
      map (expected_region (pnt 0 0 0) (pnt 1 0 0) (pnt 0 1 0))
        (filter (\<lambda>w. 3 \<le> length w) [square_wire, circle_wire])"
    and "sec_curves (compute_section_with_hatch cube_shape 0 0 0 0 0 1 0 1 0 45 1
      (Inr True) (Inr ([square_wire, circle_wire], [open_wire_2, open_wire_1]))) =
      map (closed_curve (pnt 0 0 0) (pnt 1 0 0) (pnt 0 1 0))
        (filter (\<lambda>w. 3 \<le> length w) [square_wire, circle_wire]) @
      map (open_curve (pnt 0 0 0) (pnt 1 0 0) (pnt 0 1 0))
        (filter (\<lambda>w. 2 \<le> length w) [open_wire_2, open_wire_1])"
    by blast+
  with exact show ?thesis
    by (simp add: lens square_expected curves)
qed

text \<open>Claim C2 as the specification words it, with the shoelace formula over the reals,
  does not hold of the accumulation in \<^verbatim>\<open>double\<close>: the closed wire through
  \<open>(a, a), (a - 3, a - 2), (a - 2, a - 1)\<close> with \<open>a = 94906267\<close> is a clockwise triangle of
  signed area \<open>- 1/2\<close>, and its region has area 1 and is marked as outer.\<close>

lemma sliver_projected:
  "project_wire (pnt 0 0 0) (pnt 1 0 0) (pnt 0 1 0) sliver_wire = sliver"
  by (simp add: project_wire_def sliver_wire_def sliver_def project_xy)

theorem section_region_not_shoelace:
  "map region_summary (sec_regions (compute_section_with_hatch cube_shape 0 0 0 0 0 1 0 1 0 45 1
      (Inr True) (Inr ([sliver_wire], [])))) =
     [([\<lparr>tp_x = 94906267, tp_y = 94906267\<rparr>, \<lparr>tp_x = 94906264, tp_y = 94906265\<rparr>,
        \<lparr>tp_x = 94906265, tp_y = 94906266\<rparr>], 1, True)] \<and>
   shoelace (project_wire (pnt 0 0 0) (pnt 1 0 0) (pnt 0 1 0) sliver_wire) = - 1 / 2"
proof -
  have shape: "\<not> is_null cube_shape"
    by (simp add: cube_shape_def)
  have xAxis: "pnt 1 0 0 = (case Crossed (pnt 0 1 0) (pnt 0 0 1) of
                    Inl e \<Rightarrow> \<lparr>coordX = 1, coordY = 0, coordZ = 0\<rparr> | Inr x \<Rightarrow> x)"
    by (simp add: Crossed_y_z)
  have origin: "\<lparr>coordX = 0, coordY = 0, coordZ = 0\<rparr> = pnt 0 0 0"
    by (simp add: pnt_def)
  have len: "length sliver_wire = 3"
    by (simp add: sliver_wire_def)
  have area: "polygon_signed_area sliver = 1"
    by (simp add: polygon_signed_area_def area_step_def sliver_def upt_3 Let_def
        round_double_numeral round_double_53 round_half_even_def)
  have exact: "shoelace sliver = - 1 / 2"
    by (simp add: exact_area_shoelace [symmetric] exact_area_def sliver_def upt_3)
  have region: "computed_region (pnt 0 0 0) (pnt 1 0 0) (pnt 0 1 0) sliver_wire =
      ([\<lparr>tp_x = 94906267, tp_y = 94906267\<rparr>, \<lparr>tp_x = 94906264, tp_y = 94906265\<rparr>,
        \<lparr>tp_x = 94906265, tp_y = 94906266\<rparr>], 1, True)"
    by (simp add: computed_region_def sliver_projected area) (simp add: sliver_def tess_points_def)
  show ?thesis
    using compute_section_with_hatch_normal [OF shape gp_Dir_z gp_Dir_y xAxis Crossed_z_x,
        of 0 0 0 45 1 "[sliver_wire]" "[]"]
    by (simp add: origin section_wires_fields len region sliver_projected exact)
qed

text \<open>
  Claim C9: \<^verbatim>\<open>num_regions\<close> is the number of closed wires of the partition, while the
  regions list has one entry for each closed wire with at least 3 projected points only;
  \<^verbatim>\<open>num_regions\<close> exceeds the length of the regions list by the number of closed wires
  with fewer than 3 points.
\<close>

theorem section_num_regions_counts_closed_wires:
  assumes "\<not> is_null shape"
    and "gp_Dir normal_x normal_y normal_z = Inr normal"
    and "gp_Dir up_x up_y up_z = Inr upDir"
    and "xAxis = (case Crossed upDir normal of
                    Inl e \<Rightarrow> \<lparr>coordX = 1, coordY = 0, coordZ = 0\<rparr> | Inr x \<Rightarrow> x)"
    and "Crossed normal xAxis = Inr yAxis"
    and "result = compute_section_with_hatch shape origin_x origin_y origin_z
           normal_x normal_y normal_z up_x up_y up_z hatch_angle hatch_spacing
           (Inr True) (Inr (closedWires, openWires))"
  shows "sec_num_regions result = int (length closedWires) \<and>
         length (sec_regions result) = length (filter (\<lambda>w. 3 \<le> length w) closedWires) \<and>
         sec_num_regions result =
           int (length (sec_regions result)) + int (length (filter (\<lambda>w. length w < 3) closedWires))"
proof -
  let ?origin = "\<lparr>coordX = origin_x, coordY = origin_y, coordZ = origin_z\<rparr>"
  have r: "result = section_wires ?origin xAxis yAxis hatch_angle hatch_spacing closedWires openWires
      section_initial"
    using compute_section_with_hatch_normal [OF assms(1-5)] assms(6) by simp
  have n: "sec_num_regions result = int (length closedWires)"
    by (simp add: r section_wires_fields)
  have "length (map region_summary (sec_regions result)) =
      length (map (computed_region ?origin xAxis yAxis) (filter (\<lambda>w. 3 \<le> length w) closedWires))"
    by (simp only: r section_wires_fields)
  then have l: "length (sec_regions result) = length (filter (\<lambda>w. 3 \<le> length w) closedWires)"
    by simp
  have "length closedWires = length (filter (\<lambda>w. 3 \<le> length w) closedWires) +
      length (filter (\<lambda>w. \<not> 3 \<le> length w) closedWires)"
    by (rule sum_length_filter_compl [symmetric])
  then have "length closedWires = length (filter (\<lambda>w. 3 \<le> length w) closedWires) +
      length (filter (\<lambda>w. length w < 3) closedWires)"
    by (simp add: not_le)
  with n l show ?thesis by simp
qed

theorem section_num_regions_counts_closed_wires_witness:
  "sec_num_regions (compute_section_with_hatch cube_shape 0 0 0 0 0 1 0 1 0 45 1
      (Inr True) (Inr ([square_wire, circle_wire], [open_wire_2, open_wire_1]))) = 2 \<and>
   length (sec_regions (compute_section_with_hatch cube_shape 0 0 0 0 0 1 0 1 0 45 1
      (Inr True) (Inr ([square_wire, circle_wire], [open_wire_2, open_wire_1])))) = 1"
proof -
  have shape: "\<not> is_null cube_shape"
    by (simp add: cube_shape_def)
  have xAxis: "pnt 1 0 0 = (case Crossed (pnt 0 1 0) (pnt 0 0 1) of
                    Inl e \<Rightarrow> \<lparr>coordX = 1, coordY = 0, coordZ = 0\<rparr> | Inr x \<Rightarrow> x)"
    by (simp add: Crossed_y_z)
  have lens: "length square_wire = 4" "length circle_wire = 1"
    by (simp_all add: square_wire_def circle_wire_def)
  from section_num_regions_counts_closed_wires [OF shape gp_Dir_z gp_Dir_y xAxis Crossed_z_x refl,
      of 0 0 0 45 1 "[square_wire, circle_wire]" "[open_wire_2, open_wire_1]"]
  show ?thesis
    by (simp add: lens)
qed

section \<open>Properties of the HLRExtractor\<close>

lemma DBL_MAX_pos: "0 < DBL_MAX"
  by (simp add: DBL_MAX_def)

text \<open>
  Claim C6, at its invalid inputs: for a null shape, for a shape without faces and edges and
  for a view direction of length 0 the entry points return at once, before the step that
  resets the bounding box of an empty result, and the result carries the initial extrema
  \<open>(DBL_MAX, DBL_MAX)-(- DBL_MAX, - DBL_MAX)\<close>, not the zero rectangle.
\<close>

theorem invalid_input_keeps_sentinel_bbox:
  "compute_hlr_projection null_shape 0 (- 1) 0 0 0 1 1 hlr = hlr_initial \<and>
   compute_hlr_projection empty_shape 0 (- 1) 0 0 0 1 1 hlr = hlr_initial \<and>
   compute_hlr_projection cube_shape 0 0 0 0 0 1 1 hlr = hlr_initial \<and>
   compute_hlr_projection_v2 null_shape 0 (- 1) 0 0 0 1 1 (1 / 100) hlr = v2_initial \<and>
   compute_hlr_projection_v2 cube_shape 0 0 0 0 0 1 1 (1 / 100) hlr = v2_initial \<and>
   compute_section_with_hatch null_shape 0 0 0 0 0 1 0 1 0 45 1 section_build free_bounds =
     section_initial \<and>
   hlr_lines hlr_initial = [] \<and>
   hlr_min_x hlr_initial = DBL_MAX \<and> hlr_min_y hlr_initial = DBL_MAX \<and>
   hlr_max_x hlr_initial = - DBL_MAX \<and> hlr_max_y hlr_initial = - DBL_MAX \<and>
   v2_min_x v2_initial = DBL_MAX \<and> sec_min_x section_initial = DBL_MAX \<and>
   DBL_MAX \<noteq> 0"
  using DBL_MAX_pos
  by (simp add: compute_hlr_projection_def hlr_try_def compute_hlr_projection_v2_def v2_try_def
      compute_section_with_hatch_def section_try_def null_shape_def empty_shape_def
      cube_shape_def hlr_initial_def v2_initial_def section_initial_def DBL_LOWEST_def)

text \<open>When the kernel throws before the extraction, the first entry point zeroes the bounding
  box in each of its three handlers; the second entry point and the section entry point do
  so in the \<^verbatim>\<open>Standard_Failure\<close> handler only.\<close>

lemma kernel_exception_results:
  assumes "\<not> is_null shape" and "\<not> (num_faces shape = 0 \<and> num_edges shape = 0)"
    and "\<not> sqrt (dir_x * dir_x + dir_y * dir_y + dir_z * dir_z) < 1 / 10 ^ 10"
  shows "compute_hlr_projection shape dir_x dir_y dir_z up_x up_y up_z scale (Inl e) =
           hlr_zero_bbox hlr_initial"
    and "compute_hlr_projection_v2 shape dir_x dir_y dir_z up_x up_y up_z scale deflection
           (Inl Standard_Failure) = v2_zero_bbox v2_initial"
    and "compute_hlr_projection_v2 shape dir_x dir_y dir_z up_x up_y up_z scale deflection
           (Inl std_exception) = v2_initial"
    and "compute_hlr_projection_v2 shape dir_x dir_y dir_z up_x up_y up_z scale deflection
           (Inl unknown_exception) = v2_initial"
  using assms
  by (cases e; auto simp add: compute_hlr_projection_def hlr_try_def compute_hlr_projection_v2_def
      v2_try_def Let_def)+

text \<open>Every line that \<^verbatim>\<open>extract_2d_edges\<close> appends is counted.\<close>

lemma extract_2d_edges_step_count:
  assumes "extract_2d_edges_step lt e (n, r) = (n', r')"
  shows "int (length (hlr_lines r')) - n' = int (length (hlr_lines r)) - n"
  using assms by (auto simp add: extract_2d_edges_step_def Let_def split: if_splits)

lemma extract_2d_edges_fold_count:
  assumes "fold (extract_2d_edges_step lt) es (n, r) = (n', r')"
  shows "int (length (hlr_lines r')) - n' = int (length (hlr_lines r)) - n"
  using assms
proof (induction es arbitrary: n r)
  case Nil
  then show ?case by simp
next
  case (Cons e es)
  obtain n1 r1 where step: "extract_2d_edges_step lt e (n, r) = (n1, r1)"
    by (cases "extract_2d_edges_step lt e (n, r)")
  with Cons.prems have "fold (extract_2d_edges_step lt) es (n1, r1) = (n', r')"
    by simp
  from Cons.IH [OF this] extract_2d_edges_step_count [OF step] show ?case
    by simp
qed

lemma extract_2d_edges_count:
  assumes "extract_2d_edges shape lt r = (n', r')"
  shows "int (length (hlr_lines r')) = int (length (hlr_lines r)) + n'"
proof (cases shape)
  case None
  with assms show ?thesis by (simp add: extract_2d_edges_def)
next
  case (Some es)
  with assms have "fold (extract_2d_edges_step lt) es (0, r) = (n', r')"
    by (simp add: extract_2d_edges_def)
  from extract_2d_edges_fold_count [OF this] show ?thesis by simp
qed

lemma hlr_extract_groups_count:
  assumes "hlr_extract_groups extractor r = (tot, r')"
  shows "int (length (hlr_lines r')) = int (length (hlr_lines r)) + tot"
proof -
  obtain n1 r1 where 1: "extract_2d_edges (VCompound extractor) 0 r = (n1, r1)"
    by (cases "extract_2d_edges (VCompound extractor) 0 r")
  obtain n2 r2 where 2: "extract_2d_edges (HCompound extractor) 1 r1 = (n2, r2)"
    by (cases "extract_2d_edges (HCompound extractor) 1 r1")
  obtain n3 r3 where 3: "extract_2d_edges (Rg1LineVCompound extractor) 2 r2 = (n3, r3)"
    by (cases "extract_2d_edges (Rg1LineVCompound extractor) 2 r2")
  obtain n4 r4 where 4: "extract_2d_edges (Rg1LineHCompound extractor) 3 r3 = (n4, r4)"
    by (cases "extract_2d_edges (Rg1LineHCompound extractor) 3 r3")
  obtain n5 r5 where 5: "extract_2d_edges (OutLineVCompound extractor) 4 r4 = (n5, r5)"
    by (cases "extract_2d_edges (OutLineVCompound extractor) 4 r4")
  obtain n6 r6 where 6: "extract_2d_edges (OutLineHCompound extractor) 5 r5 = (n6, r6)"
    by (cases "extract_2d_edges (OutLineHCompound extractor) 5 r5")
  from assms have "tot = n1 + n2 + n3 + n4 + n5 + n6" and "r' = r6"
    by (simp_all add: hlr_extract_groups_def 1 2 3 4 5 6)
  with extract_2d_edges_count [OF 1] extract_2d_edges_count [OF 2] extract_2d_edges_count [OF 3]
    extract_2d_edges_count [OF 4] extract_2d_edges_count [OF 5] extract_2d_edges_count [OF 6]
  show ?thesis by simp
qed

lemma extract_bbox_edges_rectangle:
  assumes "hlr_lines r = []" and "bnd_box shape = Some box"
  shows "extract_bbox_edges shape r dir_x dir_y dir_z scale =
           outline_rectangle (fallback_rectangle dir_x dir_y dir_z box scale)"
  using assms
  by (cases box) (simp add: extract_bbox_edges_def outline_rectangle_def fallback_rectangle_def)

lemma hlr_extract_all_fallback:
  assumes "hlr_lines (snd (hlr_extract_groups extractor r0)) = []" and "hlr_lines r0 = []"
  shows "hlr_extract_all shape dir_x dir_y dir_z scale extractor r0 =
     (case bnd_box shape of
        None \<Rightarrow> hlr_zero_bbox (snd (hlr_extract_groups extractor r0))
      | Some box \<Rightarrow> outline_rectangle (fallback_rectangle dir_x dir_y dir_z box scale))"
proof -
  obtain tot r6 where g: "hlr_extract_groups extractor r0 = (tot, r6)"
    by (cases "hlr_extract_groups extractor r0")
  with assms have empty: "hlr_lines r6 = []" by simp
  with hlr_extract_groups_count [OF g] assms(2) have tot: "tot = 0" by simp
  show ?thesis
  proof (cases "bnd_box shape")
    case None
    then show ?thesis
      by (simp add: hlr_extract_all_def g empty tot extract_bbox_edges_def)
  next
    case (Some box)
    have "hlr_lines (outline_rectangle (fallback_rectangle dir_x dir_y dir_z box scale)) \<noteq> []"
      by (simp add: outline_rectangle_def split: prod.split)
    then show ?thesis
      by (simp add: hlr_extract_all_def g empty tot Some
          extract_bbox_edges_rectangle [OF empty Some])
  qed
qed

text \<open>
  Claim C4, amended: when the shape is valid, the classifier returns and the six extractions
  leave the line list empty, then, if the 3D bounding box of the shape is not void, the
  result is exactly the 4 edges of the rectangle that the normalised view direction selects
  (\<open>\<bar>dir.y\<bar> > 0.9\<close>: XZ, else \<open>\<bar>dir.z\<bar> > 0.9\<close>: XY, else \<open>\<bar>dir.x\<bar> > 0.9\<close>: YZ, else XY), each
  tagged 4 (visible outline), with the coordinates and the bounding box multiplied by the
  scale once; if the 3D bounding box is void, the result has no line and the bounding box
  \<open>(0,0)-(0,0)\<close>.
\<close>

theorem hlr_fallback_rectangle:
  assumes "\<not> is_null shape"
    and "\<not> (num_faces shape = 0 \<and> num_edges shape = 0)"
    and "len = sqrt (dir_x * dir_x + dir_y * dir_y + dir_z * dir_z)"
    and "\<not> len < 1 / 10 ^ 10"
    and "hlr_lines (snd (hlr_extract_groups extractor hlr_initial)) = []"
  shows "compute_hlr_projection shape dir_x dir_y dir_z up_x up_y up_z scale (Inr extractor) =
           (case bnd_box shape of
              None \<Rightarrow>
                \<lparr>hlr_lines = [], hlr_min_x = 0, hlr_min_y = 0, hlr_max_x = 0, hlr_max_y = 0\<rparr>
            | Some box \<Rightarrow>
                outline_rectangle
                  (fallback_rectangle (dir_x / len) (dir_y / len) (dir_z / len) box scale))"
proof -
  have "hlr_lines hlr_initial = []"
    by (simp add: hlr_initial_def)
  from hlr_extract_all_fallback [OF assms(5) this] assms(1-4)
  have r: "compute_hlr_projection shape dir_x dir_y dir_z up_x up_y up_z scale (Inr extractor) =
      (case bnd_box shape of
         None \<Rightarrow> hlr_zero_bbox (snd (hlr_extract_groups extractor hlr_initial))
       | Some box \<Rightarrow>
           outline_rectangle
             (fallback_rectangle (dir_x / len) (dir_y / len) (dir_z / len) box scale))"
    by (auto simp add: compute_hlr_projection_def hlr_try_def Let_def)
  have "hlr_zero_bbox (snd (hlr_extract_groups extractor hlr_initial)) =
      \<lparr>hlr_lines = [], hlr_min_x = 0, hlr_min_y = 0, hlr_max_x = 0, hlr_max_y = 0\<rparr>"
    using assms(5) by (simp add: hlr_zero_bbox_def)
  with r show ?thesis
    by (simp split: option.split)
qed

lemma empty_extractor_groups:
  "hlr_extract_groups empty_extractor r = (0, r)"
  by (simp add: hlr_extract_groups_def empty_extractor_def extract_2d_edges_def)

theorem hlr_fallback_rectangle_witness:
  "compute_hlr_projection cube_shape 0 (- 1) 0 0 0 1 2 (Inr empty_extractor) =
     \<lparr>hlr_lines =
        [\<lparr>ln_start_x = - 10, ln_start_y = - 10, ln_end_x = 10, ln_end_y = - 10, ln_line_type = 4\<rparr>,
         \<lparr>ln_start_x = 10, ln_start_y = - 10, ln_end_x = 10, ln_end_y = 10, ln_line_type = 4\<rparr>,
         \<lparr>ln_start_x = 10, ln_start_y = 10, ln_end_x = - 10, ln_end_y = 10, ln_line_type = 4\<rparr>,
         \<lparr>ln_start_x = - 10, ln_start_y = 10, ln_end_x = - 10, ln_end_y = - 10, ln_line_type = 4\<rparr>],
      hlr_min_x = - 10, hlr_min_y = - 10, hlr_max_x = 10, hlr_max_y = 10\<rparr>"
proof -
  have shape: "\<not> is_null cube_shape" "\<not> (num_faces cube_shape = 0 \<and> num_edges cube_shape = 0)"
    "bnd_box cube_shape = Some (- 5, - 5, - 5, 5, 5, 5)"
    by (simp_all add: cube_shape_def)
  have len: "(1::real) = sqrt (0 * 0 + (- 1) * (- 1) + 0 * 0)"
    by simp
  have valid: "\<not> (1::real) < 1 / 10 ^ 10"
    by simp
  have empty: "hlr_lines (snd (hlr_extract_groups empty_extractor hlr_initial)) = []"
    by (simp add: empty_extractor_groups hlr_initial_def)
  from hlr_fallback_rectangle [OF shape(1,2) len valid empty, of 0 0 1 2]
  show ?thesis
    by (simp add: shape(3) outline_rectangle_def fallback_rectangle_def round_double_numeral)
qed

text \<open>Claim C4 as stated fails when the 3D bounding box is void: \<^verbatim>\<open>extract_bbox_edges\<close>
  returns at once and the result has no edge.\<close>

theorem hlr_fallback_void_box:
  "hlr_lines (snd (hlr_extract_groups empty_extractor hlr_initial)) = [] \<and>
   compute_hlr_projection void_shape 0 (- 1) 0 0 0 1 1 (Inr empty_extractor) =
     \<lparr>hlr_lines = [], hlr_min_x = 0, hlr_min_y = 0, hlr_max_x = 0, hlr_max_y = 0\<rparr>"
proof -
  have empty: "hlr_lines (snd (hlr_extract_groups empty_extractor hlr_initial)) = []"
    and init: "hlr_lines hlr_initial = []"
    by (simp_all add: empty_extractor_groups hlr_initial_def)
  from hlr_extract_all_fallback [OF empty init, of void_shape] show ?thesis
    by (simp add: compute_hlr_projection_def hlr_try_def void_shape_def empty
        empty_extractor_groups hlr_zero_bbox_def hlr_initial_def)
qed

lemma extract_2d_curves_step_degenerate:
  assumes "curve_type e = GeomAbs_Line"
    and "Distance (value_first e) (value_last e) < 1 / 10 ^ 7"
  shows "extract_2d_curves_step lt defl e st = st"
  using assms by (cases st) (simp add: extract_2d_curves_step_def Let_def)

lemma planar_distance_le:
  "sqrt ((coordX q - coordX p) ^ 2 + (coordY q - coordY p) ^ 2) \<le> Distance p q"
proof -
  have "(coordX q - coordX p) ^ 2 = (coordX p - coordX q) ^ 2"
    and "(coordY q - coordY p) ^ 2 = (coordY p - coordY q) ^ 2"
    by (simp_all add: power2_commute)
  then show ?thesis
    by (simp add: Distance_def)
qed

lemma extract_2d_edges_step_degenerate:
  assumes "Distance (value_first e) (value_last e) < 1 / 10 ^ 7"
  shows "extract_2d_edges_step lt e st = st"
proof -
  from planar_distance_le [of "value_last e" "value_first e"] assms
  have "sqrt ((coordX (value_last e) - coordX (value_first e)) ^ 2 +
              (coordY (value_last e) - coordY (value_first e)) ^ 2) \<le> 1 / 10 ^ 7"
    by linarith
  then show ?thesis
    by (cases st) (simp add: extract_2d_edges_step_def Let_def)
qed

text \<open>
  Claim C8: an edge whose curve is a straight line and whose two endpoint evaluations are
  less than \<open>1e-7\<close> apart changes nothing, in \<^verbatim>\<open>extract_2d_curves\<close> and in
  \<^verbatim>\<open>extract_2d_edges\<close>: the extraction of a compound gives the same lines, bounding box and
  counts with and without it, and a compound of that edge alone yields no primitive.
\<close>

theorem degenerate_line_edge_dropped:
  assumes "curve_type e = GeomAbs_Line"
    and "Distance (value_first e) (value_last e) < 1 / 10 ^ 7"
  shows "extract_2d_curves (Some (es1 @ e # es2)) line_type deflection st =
           extract_2d_curves (Some (es1 @ es2)) line_type deflection st \<and>
         extract_2d_curves (Some [e]) line_type deflection st = (0, st) \<and>
         extract_2d_edges (Some (es1 @ e # es2)) line_type result =
           extract_2d_edges (Some (es1 @ es2)) line_type result \<and>
         extract_2d_edges (Some [e]) line_type result = (0, result)"
  by (simp add: extract_2d_curves_def extract_2d_edges_def
      extract_2d_curves_step_degenerate [OF assms] extract_2d_edges_step_degenerate [OF assms(2)])

theorem degenerate_line_edge_dropped_witness:
  "extract_2d_curves (Some [line_edge (pnt 1 1 0) (pnt 1 1 0)]) 0 (1 / 100)
     (v2_initial, \<lparr>numLines = 0, numArcs = 0, numPolylines = 0\<rparr>) =
     (0, v2_initial, \<lparr>numLines = 0, numArcs = 0, numPolylines = 0\<rparr>) \<and>
   extract_2d_edges (Some [line_edge (pnt 1 1 0) (pnt 1 1 0)]) 0 hlr_initial = (0, hlr_initial)"
proof -
  have line: "curve_type (line_edge (pnt 1 1 0) (pnt 1 1 0)) = GeomAbs_Line"
    by (simp add: line_edge_def)
  have close: "Distance (value_first (line_edge (pnt 1 1 0) (pnt 1 1 0)))
      (value_last (line_edge (pnt 1 1 0) (pnt 1 1 0))) < 1 / 10 ^ 7"
    by (simp add: line_edge_def Distance_def)
  from degenerate_line_edge_dropped [OF line close, of "[]" "[]" 0 "1 / 100"
      "(v2_initial, \<lparr>numLines = 0, numArcs = 0, numPolylines = 0\<rparr>)" hlr_initial]
  show ?thesis
    by blast
qed

text \<open>The second entry point does not look at the face and edge counts nor at the 3D
  bounding box of the shape.\<close>

lemma v2_ignores_topology:
  "compute_hlr_projection_v2 (shape\<lparr>num_faces := f, num_edges := n, bnd_box := b\<rparr>)
       dir_x dir_y dir_z up_x up_y up_z scale deflection hlr =
   compute_hlr_projection_v2 shape dir_x dir_y dir_z up_x up_y up_z scale deflection hlr"
  by (simp add: compute_hlr_projection_v2_def v2_try_def)

lemma v2_extract_all_empty:
  assumes "v2_extract_groups deflection extractor
             (v2_initial, \<lparr>numLines = 0, numArcs = 0, numPolylines = 0\<rparr>) = (r1, c1)"
    and "v2_curves r1 = []" and "v2_polylines r1 = []"
  shows "v2_curves (v2_extract_all scale deflection extractor v2_initial) = [] \<and>
         v2_polylines (v2_extract_all scale deflection extractor v2_initial) = [] \<and>
         v2_min_x (v2_extract_all scale deflection extractor v2_initial) = 0 \<and>
         v2_min_y (v2_extract_all scale deflection extractor v2_initial) = 0 \<and>
         v2_max_x (v2_extract_all scale deflection extractor v2_initial) = 0 \<and>
         v2_max_y (v2_extract_all scale deflection extractor v2_initial) = 0"
  using assms
  by (simp add: v2_extract_all_def v2_apply_scale_def v2_zero_bbox_def Let_def)

text \<open>
  Claim C10: in \<^verbatim>\<open>compute_hlr_projection_v2\<close>, for a shape that is not null and a view
  direction of length at least \<open>1e-10\<close>, when the six extractions emit no curve and no
  polyline the result has empty curve and polyline lists and the bounding box
  \<open>(0,0)-(0,0)\<close>, whatever the 3D bounding box of the shape is; and the result never depends
  on the face and edge counts or on the 3D bounding box, which only
  \<^verbatim>\<open>compute_hlr_projection\<close> reads.
\<close>

theorem v2_has_no_bbox_fallback:
  assumes "\<not> is_null shape"
    and "\<not> sqrt (dir_x * dir_x + dir_y * dir_y + dir_z * dir_z) < 1 / 10 ^ 10"
    and "v2_extract_groups (if deflection \<le> 0 then 1 / 100 else deflection) extractor
           (v2_initial, \<lparr>numLines = 0, numArcs = 0, numPolylines = 0\<rparr>) = (r1, c1)"
    and "v2_curves r1 = []" and "v2_polylines r1 = []"
    and "result = compute_hlr_projection_v2 shape dir_x dir_y dir_z up_x up_y up_z scale deflection
           (Inr extractor)"
  shows "v2_curves result = [] \<and> v2_polylines result = [] \<and>
         v2_min_x result = 0 \<and> v2_min_y result = 0 \<and> v2_max_x result = 0 \<and> v2_max_y result = 0 \<and>
         compute_hlr_projection_v2 (shape\<lparr>num_faces := f, num_edges := n, bnd_box := b\<rparr>)
             dir_x dir_y dir_z up_x up_y up_z scale deflection hlr =
           compute_hlr_projection_v2 shape dir_x dir_y dir_z up_x up_y up_z scale deflection hlr"
proof -
  have "result = v2_extract_all scale (if deflection \<le> 0 then 1 / 100 else deflection) extractor
      v2_initial"
    using assms(1,2,6) by (simp add: compute_hlr_projection_v2_def v2_try_def Let_def)
  with v2_extract_all_empty [OF assms(3-5), of scale] show ?thesis
    by (simp only: v2_ignores_topology simp_thms)
qed

lemma v2_empty_extractor_groups:
  "v2_extract_groups deflection empty_extractor st =
     (fst st\<lparr>v2_num_edges := v2_num_edges (fst st)\<rparr>, snd st)"
  by (cases st)
    (simp add: v2_extract_groups_def empty_extractor_def v2_extract_group_def extract_2d_curves_def)

theorem v2_has_no_bbox_fallback_witness:
  "v2_curves (compute_hlr_projection_v2 cube_shape 0 (- 1) 0 0 0 1 2 (1 / 100)
      (Inr empty_extractor)) = [] \<and>
   v2_polylines (compute_hlr_projection_v2 cube_shape 0 (- 1) 0 0 0 1 2 (1 / 100)
      (Inr empty_extractor)) = [] \<and>
   v2_min_x (compute_hlr_projection_v2 cube_shape 0 (- 1) 0 0 0 1 2 (1 / 100)
      (Inr empty_extractor)) = 0 \<and>
   v2_max_x (compute_hlr_projection_v2 cube_shape 0 (- 1) 0 0 0 1 2 (1 / 100)
      (Inr empty_extractor)) = 0 \<and>
   length (hlr_lines (compute_hlr_projection cube_shape 0 (- 1) 0 0 0 1 2
      (Inr empty_extractor))) = 4"
proof -
  have shape: "\<not> is_null cube_shape"
    by (simp add: cube_shape_def)
  have valid: "\<not> sqrt (0 * 0 + (- 1) * (- 1) + 0 * 0) < (1::real) / 10 ^ 10"
    by simp
  have groups: "v2_extract_groups (if (1::real) / 100 \<le> 0 then 1 / 100 else 1 / 100) empty_extractor
      (v2_initial, \<lparr>numLines = 0, numArcs = 0, numPolylines = 0\<rparr>) =
      (v2_initial\<lparr>v2_num_edges := v2_num_edges v2_initial\<rparr>,
       \<lparr>numLines = 0, numArcs = 0, numPolylines = 0\<rparr>)"
    by (simp add: v2_empty_extractor_groups)
  have none: "v2_curves (v2_initial\<lparr>v2_num_edges := v2_num_edges v2_initial\<rparr>) = []"
    "v2_polylines (v2_initial\<lparr>v2_num_edges := v2_num_edges v2_initial\<rparr>) = []"
    by (simp_all add: v2_initial_def)
  have v1: "length (hlr_lines (compute_hlr_projection cube_shape 0 (- 1) 0 0 0 1 2
      (Inr empty_extractor))) = 4"
    using hlr_extract_all_fallback [of empty_extractor hlr_initial cube_shape 0 "- 1" 0 2]
    by (simp add: compute_hlr_projection_def hlr_try_def cube_shape_def empty_extractor_groups
        hlr_initial_def outline_rectangle_def fallback_rectangle_def)
  from v2_has_no_bbox_fallback [OF shape valid groups none refl] v1 show ?thesis
    by simp
qed

section \<open>Properties of the bounding box of the second projection\<close>

lemma lower_bound_insert: "finite S \<Longrightarrow> lower_bound (insert a S) = min (lower_bound S) a"
  by (simp add: lower_bound_def insert_commute [of DBL_MAX a] min.commute)

lemma upper_bound_insert: "finite S \<Longrightarrow> upper_bound (insert a S) = max (upper_bound S) a"
  by (simp add: upper_bound_def insert_commute [of DBL_LOWEST a] max.commute)

lemma fold_min_Min: "fold min xs (m::real) = Min (insert m (set xs))"
  using Min.set_eq_fold [of m xs] by simp

lemma fold_max_Max: "fold max xs (m::real) = Max (insert m (set xs))"
  using Max.set_eq_fold [of m xs] by simp

lemma polyline_add_point_fold:
  "fold polyline_add_point pts (polyline, result) =
     (polyline\<lparr>pl_points := pl_points polyline @
                 map (\<lambda>pt. \<lparr>tp_x = coordX pt, tp_y = coordY pt\<rparr>) pts\<rparr>,
      result\<lparr>v2_min_x := fold min (map coordX pts) (v2_min_x result),
             v2_max_x := fold max (map coordX pts) (v2_max_x result),
             v2_min_y := fold min (map coordY pts) (v2_min_y result),
             v2_max_y := fold max (map coordY pts) (v2_max_y result)\<rparr>)"
proof (induction pts arbitrary: polyline result)
  case Nil
  then show ?case by simp
next
  case (Cons pt pts)
  show ?case
    by (simp add: Cons.IH polyline_add_point_def [of pt] v2_widen_x_def v2_widen_y_def
        min.commute max.commute)
qed

lemma lower_bound_le: "finite S \<Longrightarrow> lower_bound S \<le> DBL_MAX"
  by (simp add: lower_bound_def)

lemma upper_bound_ge: "finite S \<Longrightarrow> DBL_LOWEST \<le> upper_bound S"
  by (simp add: upper_bound_def)

lemma lower_bound_Un:
  "finite S \<Longrightarrow> finite T \<Longrightarrow> lower_bound (S \<union> T) = min (lower_bound S) (lower_bound T)"
  using Min_Un [of "insert DBL_MAX S" "insert DBL_MAX T"] by (simp add: lower_bound_def)

lemma upper_bound_Un:
  "finite S \<Longrightarrow> finite T \<Longrightarrow> upper_bound (S \<union> T) = max (upper_bound S) (upper_bound T)"
  using Max_Un [of "insert DBL_LOWEST S" "insert DBL_LOWEST T"] by (simp add: upper_bound_def)

lemma lower_bound_empty: "lower_bound {} = DBL_MAX"
  by (simp add: lower_bound_def)

lemma upper_bound_empty: "upper_bound {} = DBL_LOWEST"
  by (simp add: upper_bound_def)

lemma v2_bbox_inv_append_curve:
  assumes "v2_bbox_inv r"
    and "v2_curves r' = v2_curves r @ [c]" and "v2_polylines r' = v2_polylines r"
    and "v2_min_x r' = min (v2_min_x r) (lower_bound (fst ` set (curve_lower c)))"
    and "v2_min_y r' = min (v2_min_y r) (lower_bound (snd ` set (curve_lower c)))"
    and "v2_max_x r' = max (v2_max_x r) (upper_bound (fst ` set (curve_upper c)))"
    and "v2_max_y r' = max (v2_max_y r) (upper_bound (snd ` set (curve_upper c)))"
  shows "v2_bbox_inv r'"
proof -
  have lo: "set (result_lower r') = set (result_lower r) \<union> set (curve_lower c)"
    and up: "set (result_upper r') = set (result_upper r) \<union> set (curve_upper c)"
    using assms(2,3) by (auto simp add: result_lower_def result_upper_def)
  from assms show ?thesis
    by (simp add: v2_bbox_inv_def lo up image_Un lower_bound_Un upper_bound_Un)
qed

lemma v2_bbox_inv_append_polyline:
  assumes "v2_bbox_inv r"
    and "v2_curves r' = v2_curves r" and "v2_polylines r' = v2_polylines r @ [p]"
    and "pl_points p \<noteq> []"
    and "v2_min_x r' = min (v2_min_x r) (lower_bound (fst ` set (polyline_coords p)))"
    and "v2_min_y r' = min (v2_min_y r) (lower_bound (snd ` set (polyline_coords p)))"
    and "v2_max_x r' = max (v2_max_x r) (upper_bound (fst ` set (polyline_coords p)))"
    and "v2_max_y r' = max (v2_max_y r) (upper_bound (snd ` set (polyline_coords p)))"
  shows "v2_bbox_inv r'"
proof -
  have lo: "set (result_lower r') = set (result_lower r) \<union> set (polyline_coords p)"
    and up: "set (result_upper r') = set (result_upper r) \<union> set (polyline_coords p)"
    using assms(2,3) by (auto simp add: result_lower_def result_upper_def)
  from assms show ?thesis
    by (simp add: v2_bbox_inv_def lo up image_Un lower_bound_Un upper_bound_Un)
qed

lemma v2_bbox_inv_bounds:
  assumes "v2_bbox_inv r"
  shows "v2_min_x r \<le> DBL_MAX" "v2_min_y r \<le> DBL_MAX"
    "DBL_LOWEST \<le> v2_max_x r" "DBL_LOWEST \<le> v2_max_y r"
  using assms by (simp_all add: v2_bbox_inv_def lower_bound_le upper_bound_ge)

lemma lower_bound_2: "lower_bound {a, b} = min DBL_MAX (min a b)"
  by (simp add: lower_bound_insert lower_bound_empty min.assoc min.commute)

lemma lower_bound_3: "lower_bound {a, b, c} = min DBL_MAX (min a (min b c))"
  by (simp add: lower_bound_insert lower_bound_empty)

lemma upper_bound_2: "upper_bound {a, b} = max DBL_LOWEST (max a b)"
  by (simp add: upper_bound_insert upper_bound_empty max.assoc max.commute)

lemma upper_bound_3: "upper_bound {a, b, c} = max DBL_LOWEST (max a (max b c))"
  by (simp add: upper_bound_insert upper_bound_empty)

lemma Min_insert_absorb:
  assumes "finite P" and "a \<in> P" and "b \<in> P" and "m \<le> DBL_MAX"
  shows "Min (insert (min m (min a b)) P) = min m (lower_bound P)"
proof -
  from assms have ne: "P \<noteq> {}" by auto
  from assms have "Min P \<le> a" and "Min P \<le> b" by simp_all
  with assms(1,4) ne show ?thesis
    by (simp add: lower_bound_def, linarith?)
qed

lemma Max_insert_absorb:
  assumes "finite P" and "a \<in> P" and "b \<in> P" and "DBL_LOWEST \<le> m"
  shows "Max (insert (max m (max a b)) P) = max m (upper_bound P)"
proof -
  from assms have ne: "P \<noteq> {}" by auto
  from assms have "a \<le> Max P" and "b \<le> Max P" by simp_all
  with assms(1,4) ne show ?thesis
    by (simp add: upper_bound_def, linarith?)
qed

lemma step_null:
  "curve_is_null e \<Longrightarrow> extract_2d_curves_step lt d e st = st"
  by (cases st) (simp add: extract_2d_curves_step_def)

lemma step_line:
  assumes "\<not> curve_is_null e" and "curve_type e = GeomAbs_Line"
    and "\<not> Distance (value_first e) (value_last e) \<le> 1 / 10 ^ 7"
  shows "extract_2d_curves_step lt d e (n, r, c) =
     (n + 1, (widen_ends e r)\<lparr>v2_curves := v2_curves r @ [line_curve lt e]\<rparr>,
      c\<lparr>numLines := numLines c + 1\<rparr>)"
  using assms
  by (simp add: extract_2d_curves_step_def Let_def widen_ends_def line_curve_def
      v2_widen_x_def v2_widen_y_def)

lemma step_circle:
  assumes "\<not> curve_is_null e" and "curve_type e = GeomAbs_Circle"
  shows "extract_2d_curves_step lt d e (n, r, c) =
     (n + 1,
      (v2_widen_y (round_double (coordY (circ_location e) - circ_radius e))
                  (round_double (coordY (circ_location e) + circ_radius e))
        (v2_widen_x (round_double (coordX (circ_location e) - circ_radius e))
           (round_double (coordX (circ_location e) + circ_radius e)) (widen_ends e r)))
        \<lparr>v2_curves := v2_curves r @ [circle_curve lt e]\<rparr>,
      c\<lparr>numArcs := numArcs c + 1\<rparr>)"
  using assms
  by (simp add: extract_2d_curves_step_def Let_def widen_ends_def circle_curve_def
      v2_widen_x_def v2_widen_y_def)

lemma step_ellipse:
  assumes "\<not> curve_is_null e" and "curve_type e = GeomAbs_Ellipse"
  shows "extract_2d_curves_step lt d e (n, r, c) =
     (n + 1,
      (v2_widen_y (round_double (coordY (elips_location e) - elips_major_radius e))
                  (round_double (coordY (elips_location e) + elips_major_radius e))
        (v2_widen_x (round_double (coordX (elips_location e) - elips_major_radius e))
           (round_double (coordX (elips_location e) + elips_major_radius e)) (widen_ends e r)))
        \<lparr>v2_curves := v2_curves r @ [ellipse_curve lt e]\<rparr>,
      c\<lparr>numArcs := numArcs c + 1\<rparr>)"
  using assms
  by (simp add: extract_2d_curves_step_def Let_def widen_ends_def ellipse_curve_def
      v2_widen_x_def v2_widen_y_def)

lemma step_other:
  assumes "\<not> curve_is_null e" and "curve_type e = GeomAbs_OtherCurve"
    and "2 \<le> length (tangential_deflection e d)"
  shows "extract_2d_curves_step lt d e (n, r, c) =
     (n + 1,
      (snd (fold polyline_add_point (tangential_deflection e d)
              (\<lparr>pl_points = [], pl_line_type = lt\<rparr>, widen_ends e r)))
        \<lparr>v2_polylines := v2_polylines r @ [sampled_polyline lt d e]\<rparr>,
      c\<lparr>numPolylines := numPolylines c + 1\<rparr>)"
  using assms
  by (simp add: extract_2d_curves_step_def Let_def widen_ends_def sampled_polyline_def
      polyline_add_point_fold v2_widen_x_def v2_widen_y_def)

lemma step_other_dropped:
  assumes "\<not> curve_is_null e" and "curve_type e = GeomAbs_OtherCurve"
    and "\<not> 2 \<le> length (tangential_deflection e d)"
  shows "extract_2d_curves_step lt d e (n, r, c) = (n, widen_ends e r, c)"
  using assms
  by (simp add: extract_2d_curves_step_def Let_def widen_ends_def)

lemma v2_widen_fields [simp]:
  "v2_min_x (v2_widen_x lo hi r) = min (v2_min_x r) lo"
  "v2_max_x (v2_widen_x lo hi r) = max (v2_max_x r) hi"
  "v2_min_y (v2_widen_x lo hi r) = v2_min_y r"
  "v2_max_y (v2_widen_x lo hi r) = v2_max_y r"
  "v2_curves (v2_widen_x lo hi r) = v2_curves r"
  "v2_polylines (v2_widen_x lo hi r) = v2_polylines r"
  "v2_min_y (v2_widen_y lo hi r) = min (v2_min_y r) lo"
  "v2_max_y (v2_widen_y lo hi r) = max (v2_max_y r) hi"
  "v2_min_x (v2_widen_y lo hi r) = v2_min_x r"
  "v2_max_x (v2_widen_y lo hi r) = v2_max_x r"
  "v2_curves (v2_widen_y lo hi r) = v2_curves r"
  "v2_polylines (v2_widen_y lo hi r) = v2_polylines r"
  by (simp_all add: v2_widen_x_def v2_widen_y_def)

lemma widen_ends_fields [simp]:
  "v2_min_x (widen_ends e r) = min (v2_min_x r) (min (coordX (value_first e)) (coordX (value_last e)))"
  "v2_max_x (widen_ends e r) = max (v2_max_x r) (max (coordX (value_first e)) (coordX (value_last e)))"
  "v2_min_y (widen_ends e r) = min (v2_min_y r) (min (coordY (value_first e)) (coordY (value_last e)))"
  "v2_max_y (widen_ends e r) = max (v2_max_y r) (max (coordY (value_first e)) (coordY (value_last e)))"
  "v2_curves (widen_ends e r) = v2_curves r"
  "v2_polylines (widen_ends e r) = v2_polylines r"
  by (simp_all add: widen_ends_def)

lemma emitted_curve_coords:
  "curve_lower (line_curve lt e) =
     [(coordX (value_first e), coordY (value_first e)), (coordX (value_last e), coordY (value_last e))]"
  "curve_upper (line_curve lt e) =
     [(coordX (value_first e), coordY (value_first e)), (coordX (value_last e), coordY (value_last e))]"
  "curve_lower (circle_curve lt e) =
     [(coordX (value_first e), coordY (value_first e)), (coordX (value_last e), coordY (value_last e)),
      (round_double (coordX (circ_location e) - circ_radius e),
       round_double (coordY (circ_location e) - circ_radius e))]"
  "curve_upper (circle_curve lt e) =
     [(coordX (value_first e), coordY (value_first e)), (coordX (value_last e), coordY (value_last e)),
      (round_double (coordX (circ_location e) + circ_radius e),
       round_double (coordY (circ_location e) + circ_radius e))]"
  "curve_lower (ellipse_curve lt e) =
     [(coordX (value_first e), coordY (value_first e)), (coordX (value_last e), coordY (value_last e)),
      (round_double (coordX (elips_location e) - elips_major_radius e),
       round_double (coordY (elips_location e) - elips_major_radius e))]"
  "curve_upper (ellipse_curve lt e) =
     [(coordX (value_first e), coordY (value_first e)), (coordX (value_last e), coordY (value_last e)),
      (round_double (coordX (elips_location e) + elips_major_radius e),
       round_double (coordY (elips_location e) + elips_major_radius e))]"
  by (simp_all add: curve_lower_def curve_upper_def curve_ends_def curve_corner_lower_def
      curve_corner_upper_def line_curve_def circle_curve_def ellipse_curve_def)

lemma sampled_polyline_coords:
  "fst ` set (polyline_coords (sampled_polyline lt d e)) = coordX ` set (tangential_deflection e d)"
  "snd ` set (polyline_coords (sampled_polyline lt d e)) = coordY ` set (tangential_deflection e d)"
  by (auto simp add: polyline_coords_def sampled_polyline_def image_iff)

lemma polyline_fold_fields [simp]:
  "v2_min_x (snd (fold polyline_add_point pts (p, r))) = Min (insert (v2_min_x r) (coordX ` set pts))"
  "v2_min_y (snd (fold polyline_add_point pts (p, r))) = Min (insert (v2_min_y r) (coordY ` set pts))"
  "v2_max_x (snd (fold polyline_add_point pts (p, r))) = Max (insert (v2_max_x r) (coordX ` set pts))"
  "v2_max_y (snd (fold polyline_add_point pts (p, r))) = Max (insert (v2_max_y r) (coordY ` set pts))"
  "v2_curves (snd (fold polyline_add_point pts (p, r))) = v2_curves r"
  "v2_polylines (snd (fold polyline_add_point pts (p, r))) = v2_polylines r"
  by (simp_all add: polyline_add_point_fold fold_min_Min fold_max_Max)

lemma extract_2d_curves_step_inv:
  assumes inv: "v2_bbox_inv r" and ok: "tessellation_covers_ends d e"
    and step: "extract_2d_curves_step lt d e (n, r, c) = (n', r', c')"
  shows "v2_bbox_inv r'"
proof (cases "curve_is_null e")
  case True
  with step inv show ?thesis
    by (simp add: step_null)
next
  case False
  note b = v2_bbox_inv_bounds [OF inv]
  show ?thesis
  proof (cases "curve_type e")
    case GeomAbs_Line
    show ?thesis
    proof (cases "Distance (value_first e) (value_last e) \<le> 1 / 10 ^ 7")
      case True
      with GeomAbs_Line False step inv show ?thesis
        by (simp add: extract_2d_curves_step_def Let_def)
    next
      case far: False
      from step have r': "r' = (widen_ends e r)\<lparr>v2_curves := v2_curves r @ [line_curve lt e]\<rparr>"
        by (simp add: step_line [OF False GeomAbs_Line far])
      show ?thesis
        by (rule v2_bbox_inv_append_curve [OF inv, where c = "line_curve lt e"])
          (use b in \<open>simp_all add: r' emitted_curve_coords lower_bound_2 upper_bound_2\<close>)
    qed
  next
    case GeomAbs_Circle
    from step have r': "r' =
        (v2_widen_y (round_double (coordY (circ_location e) - circ_radius e))
                    (round_double (coordY (circ_location e) + circ_radius e))
          (v2_widen_x (round_double (coordX (circ_location e) - circ_radius e))
             (round_double (coordX (circ_location e) + circ_radius e)) (widen_ends e r)))
          \<lparr>v2_curves := v2_curves r @ [circle_curve lt e]\<rparr>"
      by (simp add: step_circle [OF False GeomAbs_Circle])
    show ?thesis
      by (rule v2_bbox_inv_append_curve [OF inv, where c = "circle_curve lt e"])
        (use b in \<open>simp_all add: r' emitted_curve_coords lower_bound_3 upper_bound_3\<close>)
  next
    case GeomAbs_Ellipse
    from step have r': "r' =
        (v2_widen_y (round_double (coordY (elips_location e) - elips_major_radius e))
                    (round_double (coordY (elips_location e) + elips_major_radius e))
          (v2_widen_x (round_double (coordX (elips_location e) - elips_major_radius e))
             (round_double (coordX (elips_location e) + elips_major_radius e)) (widen_ends e r)))
          \<lparr>v2_curves := v2_curves r @ [ellipse_curve lt e]\<rparr>"
      by (simp add: step_ellipse [OF False GeomAbs_Ellipse])
    show ?thesis
      by (rule v2_bbox_inv_append_curve [OF inv, where c = "ellipse_curve lt e"])
        (use b in \<open>simp_all add: r' emitted_curve_coords lower_bound_3 upper_bound_3\<close>)
  next
    case GeomAbs_OtherCurve
    let ?pts = "tangential_deflection e d"
    from GeomAbs_OtherCurve False ok have pts: "2 \<le> length ?pts"
      "value_first e \<in> set ?pts" "value_last e \<in> set ?pts"
      by (simp_all add: tessellation_covers_ends_def)
    from step have r': "r' =
        (snd (fold polyline_add_point ?pts (\<lparr>pl_points = [], pl_line_type = lt\<rparr>, widen_ends e r)))
          \<lparr>v2_polylines := v2_polylines r @ [sampled_polyline lt d e]\<rparr>"
      by (simp add: step_other [OF False GeomAbs_OtherCurve pts(1)])
    have ne: "pl_points (sampled_polyline lt d e) \<noteq> []"
      using pts(1) by (auto simp add: sampled_polyline_def)
    show ?thesis
    proof (rule v2_bbox_inv_append_polyline [OF inv _ _ ne])
      show "v2_curves r' = v2_curves r" and "v2_polylines r' = v2_polylines r @ [sampled_polyline lt d e]"
        by (simp_all add: r')
      show "v2_min_x r' = min (v2_min_x r) (lower_bound (fst ` set (polyline_coords (sampled_polyline lt d e))))"
        unfolding sampled_polyline_coords using pts(2,3) b(1)
        by (simp add: r' Min_insert_absorb del: Min_insert)
      show "v2_min_y r' = min (v2_min_y r) (lower_bound (snd ` set (polyline_coords (sampled_polyline lt d e))))"
        unfolding sampled_polyline_coords using pts(2,3) b(2)
        by (simp add: r' Min_insert_absorb del: Min_insert)
      show "v2_max_x r' = max (v2_max_x r) (upper_bound (fst ` set (polyline_coords (sampled_polyline lt d e))))"
        unfolding sampled_polyline_coords using pts(2,3) b(3)
        by (simp add: r' Max_insert_absorb del: Max_insert)
      show "v2_max_y r' = max (v2_max_y r) (upper_bound (snd ` set (polyline_coords (sampled_polyline lt d e))))"
        unfolding sampled_polyline_coords using pts(2,3) b(4)
        by (simp add: r' Max_insert_absorb del: Max_insert)
    qed
  qed
qed

lemma extract_2d_curves_fold_inv:
  assumes "v2_bbox_inv r" and "\<forall>e \<in> set es. tessellation_covers_ends d e"
    and "fold (extract_2d_curves_step lt d) es (n, r, c) = (n', r', c')"
  shows "v2_bbox_inv r'"
  using assms
proof (induction es arbitrary: n r c)
  case Nil
  then show ?case by simp
next
  case (Cons e es)
  obtain n1 r1 c1 where step: "extract_2d_curves_step lt d e (n, r, c) = (n1, r1, c1)"
    by (cases "extract_2d_curves_step lt d e (n, r, c)")
  from Cons.prems(2) have ok: "tessellation_covers_ends d e"
    and rest: "\<forall>e \<in> set es. tessellation_covers_ends d e"
    by simp_all
  from extract_2d_curves_step_inv [OF Cons.prems(1) ok step] have "v2_bbox_inv r1" .
  moreover from Cons.prems(3) step have "fold (extract_2d_curves_step lt d) es (n1, r1, c1) = (n', r', c')"
    by simp
  ultimately show ?case
    using Cons.IH rest by blast
qed

lemma v2_bbox_inv_num_edges [simp]:
  "v2_bbox_inv (r\<lparr>v2_num_edges := k\<rparr>) = v2_bbox_inv r"
  by (simp add: v2_bbox_inv_def result_lower_def result_upper_def)

lemma v2_extract_group_inv:
  assumes "v2_bbox_inv (fst st)" and "\<forall>e \<in> set (group_edges g). tessellation_covers_ends d e"
  shows "v2_bbox_inv (fst (v2_extract_group g lt d st))"
proof (cases g)
  case None
  with assms(1) show ?thesis
    by (cases st) (simp add: v2_extract_group_def extract_2d_curves_def)
next
  case (Some es)
  obtain r c where st: "st = (r, c)" by (cases st)
  obtain n' r' c' where f: "fold (extract_2d_curves_step lt d) es (0, r, c) = (n', r', c')"
    by (cases "fold (extract_2d_curves_step lt d) es (0, r, c)")
  from assms Some st have "v2_bbox_inv r" and "\<forall>e \<in> set es. tessellation_covers_ends d e"
    by (simp_all add: group_edges_def)
  from extract_2d_curves_fold_inv [OF this f] show ?thesis
    by (simp add: v2_extract_group_def extract_2d_curves_def Some st f)
qed

lemma v2_extract_groups_inv:
  assumes "v2_bbox_inv (fst st)"
    and "\<forall>e \<in> set (extractor_edges extractor). tessellation_covers_ends d e"
  shows "v2_bbox_inv (fst (v2_extract_groups d extractor st))"
  unfolding v2_extract_groups_def
  using assms(2)
  by (intro v2_extract_group_inv assms(1)) (simp_all add: extractor_edges_def)

lemma v2_initial_inv: "v2_bbox_inv v2_initial"
  by (simp add: v2_bbox_inv_def v2_initial_def result_lower_def result_upper_def
      lower_bound_empty upper_bound_empty)

lemma scale_coord_mono:
  assumes "0 \<le> s"
  shows "mono (scale_coord s)"
proof (rule monoI)
  fix x y :: real
  assume "x \<le> y"
  then have "x * s \<le> y * s"
    using assms by (rule mult_right_mono)
  then have "round_double (x * s) \<le> round_double (y * s)"
    by (rule round_double_mono)
  with \<open>x \<le> y\<close> show "scale_coord s x \<le> scale_coord s y"
    by (simp add: scale_coord_def)
qed

lemma curve_ends_scale:
  "s \<noteq> 1 \<Longrightarrow> curve_ends (v2_scale_curve s c) = map (scale_point s) (curve_ends c)"
  by (simp add: curve_ends_def v2_scale_curve_def scale_point_def scale_coord_def)

lemma polyline_coords_scale:
  "s \<noteq> 1 \<Longrightarrow> polyline_coords (v2_scale_polyline s p) = map (scale_point s) (polyline_coords p)"
  by (simp add: polyline_coords_def v2_scale_polyline_def scale_point_def scale_coord_def comp_def)

lemma scale_point_1: "map (scale_point 1) vs = vs"
  by (induction vs) (simp_all add: scale_point_def scale_coord_def)

text \<open>The points of the scaled result are the scaled points of the result.\<close>

lemma result_ends_scale:
  "result_ends (v2_apply_scale s r) = map (scale_point s) (result_ends r)"
proof (cases "s = 1")
  case True
  then show ?thesis
    by (simp add: v2_apply_scale_def scale_point_1)
next
  case False
  then show ?thesis
    by (simp add: result_ends_def v2_apply_scale_def map_concat comp_def curve_ends_scale
        polyline_coords_scale)
qed

lemma v2_apply_scale_bbox:
  "v2_min_x (v2_apply_scale s r) = scale_coord s (v2_min_x r)"
  "v2_min_y (v2_apply_scale s r) = scale_coord s (v2_min_y r)"
  "v2_max_x (v2_apply_scale s r) = scale_coord s (v2_max_x r)"
  "v2_max_y (v2_apply_scale s r) = scale_coord s (v2_max_y r)"
  by (simp_all add: v2_apply_scale_def scale_coord_def)

lemma v2_apply_scale_empty:
  "v2_curves (v2_apply_scale s r) = [] \<longleftrightarrow> v2_curves r = []"
  "v2_polylines (v2_apply_scale s r) = [] \<longleftrightarrow> v2_polylines r = []"
  by (simp_all add: v2_apply_scale_def)

lemma v2_apply_scale_1: "v2_apply_scale 1 r = r"
  by (simp add: v2_apply_scale_def)

text \<open>Multiplication by a scale that is not negative, followed by rounding, is monotone:
  it commutes with the minimum and the maximum.\<close>

lemma Min_scale:
  assumes "finite A" and "A \<noteq> {}" and "0 \<le> s"
  shows "Min (scale_coord s ` A) = scale_coord s (Min A)"
  using mono_Min_commute [OF scale_coord_mono [OF assms(3)] assms(1,2)] by simp

lemma Max_scale:
  assumes "finite A" and "A \<noteq> {}" and "0 \<le> s"
  shows "Max (scale_coord s ` A) = scale_coord s (Max A)"
  using mono_Max_commute [OF scale_coord_mono [OF assms(3)] assms(1,2)] by simp

lemma set_result_coords:
  "set (result_lower r) = set (result_ends r) \<union> set (result_corners_lower r)"
  "set (result_upper r) = set (result_ends r) \<union> set (result_corners_upper r)"
  by (auto simp add: result_lower_def result_upper_def result_ends_def result_corners_lower_def
      result_corners_upper_def curve_lower_def curve_upper_def)

lemma lower_bound_Min:
  assumes "finite A" and "A \<noteq> {}" and "\<forall>x \<in> A. finite_double x"
  shows "lower_bound A = Min A"
proof -
  from assms(2) obtain x where x: "x \<in> A" by auto
  with assms(1) have "Min A \<le> x" by simp
  moreover from assms(3) x have "x \<le> DBL_MAX"
    by (auto simp add: finite_double_def)
  ultimately have "Min A \<le> DBL_MAX" by simp
  with assms(1,2) show ?thesis
    by (simp add: lower_bound_def)
qed

lemma upper_bound_Max:
  assumes "finite A" and "A \<noteq> {}" and "\<forall>x \<in> A. finite_double x"
  shows "upper_bound A = Max A"
proof -
  from assms(2) obtain x where x: "x \<in> A" by auto
  with assms(1) have "x \<le> Max A" by simp
  moreover from assms(3) x have "DBL_LOWEST \<le> x"
    by (auto simp add: finite_double_def DBL_LOWEST_def)
  ultimately have "DBL_LOWEST \<le> Max A" by simp
  with assms(1,2) show ?thesis
    by (simp add: upper_bound_def)
qed

lemma v2_bbox_inv_nonempty:
  assumes "v2_bbox_inv r" and "\<not> (v2_curves r = [] \<and> v2_polylines r = [])"
  shows "result_lower r \<noteq> []" and "result_upper r \<noteq> []"
proof -
  have c: "curve_lower c \<noteq> []" "curve_upper c \<noteq> []" for c
    by (simp_all add: curve_lower_def curve_upper_def curve_ends_def)
  from assms(1) have p: "polyline_coords p \<noteq> []" if "p \<in> set (v2_polylines r)" for p
    using that by (auto simp add: v2_bbox_inv_def list_all_iff polyline_coords_def)
  show "result_lower r \<noteq> []"
  proof (cases "v2_curves r")
    case Nil
    with assms(2) obtain q qs where "v2_polylines r = q # qs"
      by (cases "v2_polylines r") auto
    with p [of q] show ?thesis
      by (simp add: result_lower_def)
  next
    case (Cons a as)
    with c show ?thesis by (simp add: result_lower_def)
  qed
  show "result_upper r \<noteq> []"
  proof (cases "v2_curves r")
    case Nil
    with assms(2) obtain q qs where "v2_polylines r = q # qs"
      by (cases "v2_polylines r") auto
    with p [of q] show ?thesis
      by (simp add: result_upper_def)
  next
    case (Cons a as)
    with c show ?thesis by (simp add: result_upper_def)
  qed
qed

text \<open>The bounding box of a result that satisfies the invariant and has a primitive.\<close>

lemma v2_bbox_inv_Min:
  assumes inv: "v2_bbox_inv r" and ne: "\<not> (v2_curves r = [] \<and> v2_polylines r = [])"
    and fin: "\<forall>v \<in> set (result_lower r @ result_upper r). finite_double (fst v) \<and> finite_double (snd v)"
  shows "v2_min_x r = Min (fst ` set (result_lower r))"
    and "v2_min_y r = Min (snd ` set (result_lower r))"
    and "v2_max_x r = Max (fst ` set (result_upper r))"
    and "v2_max_y r = Max (snd ` set (result_upper r))"
proof -
  note n = v2_bbox_inv_nonempty [OF inv ne]
  have lx: "lower_bound (fst ` set (result_lower r)) = Min (fst ` set (result_lower r))"
    using n(1) fin by (intro lower_bound_Min) auto
  have ly: "lower_bound (snd ` set (result_lower r)) = Min (snd ` set (result_lower r))"
    using n(1) fin by (intro lower_bound_Min) auto
  have ux: "upper_bound (fst ` set (result_upper r)) = Max (fst ` set (result_upper r))"
    using n(2) fin by (intro upper_bound_Max) auto
  have uy: "upper_bound (snd ` set (result_upper r)) = Max (snd ` set (result_upper r))"
    using n(2) fin by (intro upper_bound_Max) auto
  from inv lx show "v2_min_x r = Min (fst ` set (result_lower r))"
    by (simp add: v2_bbox_inv_def)
  from inv ly show "v2_min_y r = Min (snd ` set (result_lower r))"
    by (simp add: v2_bbox_inv_def)
  from inv ux show "v2_max_x r = Max (fst ` set (result_upper r))"
    by (simp add: v2_bbox_inv_def)
  from inv uy show "v2_max_y r = Max (snd ` set (result_upper r))"
    by (simp add: v2_bbox_inv_def)
qed

text \<open>The scaled bounding box: the extremum over the points of the scaled result and over
  the scaled corners.\<close>

lemma v2_scaled_bbox:
  assumes inv: "v2_bbox_inv r" and ne: "\<not> (v2_curves r = [] \<and> v2_polylines r = [])"
    and fin: "\<forall>v \<in> set (result_lower r @ result_upper r). finite_double (fst v) \<and> finite_double (snd v)"
    and s: "0 \<le> s"
  shows "v2_min_x (v2_apply_scale s r) =
           Min (fst ` (set (result_ends (v2_apply_scale s r)) \<union>
                       scale_point s ` set (result_corners_lower r)))"
    and "v2_min_y (v2_apply_scale s r) =
           Min (snd ` (set (result_ends (v2_apply_scale s r)) \<union>
                       scale_point s ` set (result_corners_lower r)))"
    and "v2_max_x (v2_apply_scale s r) =
           Max (fst ` (set (result_ends (v2_apply_scale s r)) \<union>
                       scale_point s ` set (result_corners_upper r)))"
    and "v2_max_y (v2_apply_scale s r) =
           Max (snd ` (set (result_ends (v2_apply_scale s r)) \<union>
                       scale_point s ` set (result_corners_upper r)))"
proof -
  note n = v2_bbox_inv_nonempty [OF inv ne]
  note m = v2_bbox_inv_Min [OF inv ne fin]
  have img: "fst ` scale_point s ` V = scale_coord s ` fst ` V"
    "snd ` scale_point s ` V = scale_coord s ` snd ` V" for V
    by (simp_all add: image_image scale_point_def)
  have lo: "set (result_ends (v2_apply_scale s r)) \<union> scale_point s ` set (result_corners_lower r)
      = scale_point s ` set (result_lower r)"
    by (simp add: result_ends_scale set_result_coords image_Un)
  have up: "set (result_ends (v2_apply_scale s r)) \<union> scale_point s ` set (result_corners_upper r)
      = scale_point s ` set (result_upper r)"
    by (simp add: result_ends_scale set_result_coords image_Un)
  show "v2_min_x (v2_apply_scale s r) =
      Min (fst ` (set (result_ends (v2_apply_scale s r)) \<union>
                  scale_point s ` set (result_corners_lower r)))"
    unfolding lo img using n(1) s by (simp add: v2_apply_scale_bbox Min_scale m)
  show "v2_min_y (v2_apply_scale s r) =
      Min (snd ` (set (result_ends (v2_apply_scale s r)) \<union>
                  scale_point s ` set (result_corners_lower r)))"
    unfolding lo img using n(1) s by (simp add: v2_apply_scale_bbox Min_scale m)
  show "v2_max_x (v2_apply_scale s r) =
      Max (fst ` (set (result_ends (v2_apply_scale s r)) \<union>
                  scale_point s ` set (result_corners_upper r)))"
    unfolding up img using n(2) s by (simp add: v2_apply_scale_bbox Max_scale m)
  show "v2_max_y (v2_apply_scale s r) =
      Max (snd ` (set (result_ends (v2_apply_scale s r)) \<union>
                  scale_point s ` set (result_corners_upper r)))"
    unfolding up img using n(2) s by (simp add: v2_apply_scale_bbox Max_scale m)
qed

lemma v2_counters_coords [simp]:
  "result_lower (r\<lparr>v2_num_lines := a, v2_num_arcs := b, v2_num_polylines := c\<rparr>) = result_lower r"
  "result_upper (r\<lparr>v2_num_lines := a, v2_num_arcs := b, v2_num_polylines := c\<rparr>) = result_upper r"
  "result_corners_lower (r\<lparr>v2_num_lines := a, v2_num_arcs := b, v2_num_polylines := c\<rparr>) =
     result_corners_lower r"
  "result_corners_upper (r\<lparr>v2_num_lines := a, v2_num_arcs := b, v2_num_polylines := c\<rparr>) =
     result_corners_upper r"
  "v2_bbox_inv (r\<lparr>v2_num_lines := a, v2_num_arcs := b, v2_num_polylines := c\<rparr>) = v2_bbox_inv r"
  by (simp_all add: result_lower_def result_upper_def result_corners_lower_def
      result_corners_upper_def v2_bbox_inv_def)

text \<open>
  Claim C5, amended: for a shape that is not null, a view direction of length at least
  \<open>1e-10\<close>, a classifier that returns, a scale that is not negative, coordinates that are
  finite doubles, and a sampler that gives every edge that is neither a line, a circle nor an
  ellipse at least 2 points with its two endpoint evaluations among them, the returned
  bounding box is \<open>(0,0)-(0,0)\<close> when no primitive was emitted, and otherwise the
  componentwise minimum and maximum over the end points of the emitted curves, the points of
  the emitted polylines and, for every circle, arc and ellipse, the corner
  \<^verbatim>\<open>center - radius\<close> below and \<^verbatim>\<open>center + radius\<close> above (the radius of an ellipse being its
  major radius), computed in \<^verbatim>\<open>double\<close> before the scaling and then multiplied by the scale
  in \<^verbatim>\<open>double\<close>.  With scale 1 these are the corners of the emitted primitives themselves.
\<close>

theorem v2_bbox_consistent:
  assumes "\<not> is_null shape"
    and "\<not> sqrt (dir_x * dir_x + dir_y * dir_y + dir_z * dir_z) < 1 / 10 ^ 10"
    and "0 \<le> scale"
    and "d = (if deflection \<le> 0 then 1 / 100 else deflection)"
    and "\<forall>e \<in> set (extractor_edges extractor). tessellation_covers_ends d e"
    and "r1 = fst (v2_extract_groups d extractor
                     (v2_initial, \<lparr>numLines = 0, numArcs = 0, numPolylines = 0\<rparr>))"
    and "\<forall>v \<in> set (result_lower r1 @ result_upper r1). finite_double (fst v) \<and> finite_double (snd v)"
    and "result = compute_hlr_projection_v2 shape dir_x dir_y dir_z up_x up_y up_z scale deflection
                    (Inr extractor)"
  shows "if v2_curves result = [] \<and> v2_polylines result = []
         then v2_min_x result = 0 \<and> v2_min_y result = 0 \<and> v2_max_x result = 0 \<and> v2_max_y result = 0
         else v2_curves result = map (if scale = 1 then id else v2_scale_curve scale) (v2_curves r1) \<and>
              v2_min_x result =
                Min (fst ` (set (result_ends result) \<union>
                            scale_point scale ` set (result_corners_lower r1))) \<and>
              v2_min_y result =
                Min (snd ` (set (result_ends result) \<union>
                            scale_point scale ` set (result_corners_lower r1))) \<and>
              v2_max_x result =
                Max (fst ` (set (result_ends result) \<union>
                            scale_point scale ` set (result_corners_upper r1))) \<and>
              v2_max_y result =
                Max (snd ` (set (result_ends result) \<union>
                            scale_point scale ` set (result_corners_upper r1))) \<and>
              (scale = 1 \<longrightarrow>
                 v2_min_x result = Min (fst ` set (result_lower result)) \<and>
                 v2_min_y result = Min (snd ` set (result_lower result)) \<and>
                 v2_max_x result = Max (fst ` set (result_upper result)) \<and>
                 v2_max_y result = Max (snd ` set (result_upper result)))"
proof -
  obtain c1 where g: "v2_extract_groups d extractor
      (v2_initial, \<lparr>numLines = 0, numArcs = 0, numPolylines = 0\<rparr>) = (r1, c1)"
    using assms(6)
    by (cases "v2_extract_groups d extractor
      (v2_initial, \<lparr>numLines = 0, numArcs = 0, numPolylines = 0\<rparr>)") simp
  let ?r2 = "r1\<lparr>v2_num_lines := numLines c1, v2_num_arcs := numArcs c1,
                 v2_num_polylines := numPolylines c1\<rparr>"
  let ?r3 = "v2_apply_scale scale ?r2"
  have inv1: "v2_bbox_inv r1"
    using v2_extract_groups_inv [of "(v2_initial, \<lparr>numLines = 0, numArcs = 0, numPolylines = 0\<rparr>)"
        extractor d] assms(5) g
    by (simp add: v2_initial_inv)
  then have inv2: "v2_bbox_inv ?r2" by simp
  have fin2: "\<forall>v \<in> set (result_lower ?r2 @ result_upper ?r2).
      finite_double (fst v) \<and> finite_double (snd v)"
    using assms(7) by simp
  have res: "result = (if v2_curves ?r3 = [] \<and> v2_polylines ?r3 = [] then v2_zero_bbox ?r3 else ?r3)"
    using assms(1,2,4,8) g
    by (simp add: compute_hlr_projection_v2_def v2_try_def v2_extract_all_def Let_def)
  show ?thesis
  proof (cases "v2_curves ?r3 = [] \<and> v2_polylines ?r3 = []")
    case True
    then show ?thesis
      by (simp add: res v2_zero_bbox_def)
  next
    case False
    then have ne: "\<not> (v2_curves ?r2 = [] \<and> v2_polylines ?r2 = [])"
      by (simp add: v2_apply_scale_empty)
    from False have eq: "result = ?r3"
      by (simp only: res if_False)
    have nres: "\<not> (v2_curves result = [] \<and> v2_polylines result = [])"
      unfolding eq by (rule False)
    have curves: "v2_curves ?r3 = map (if scale = 1 then id else v2_scale_curve scale) (v2_curves r1)"
      by (simp add: v2_apply_scale_def)
    note sb = v2_scaled_bbox [OF inv2 ne fin2 assms(3), unfolded v2_counters_coords]
    have one: "v2_min_x ?r3 = Min (fst ` set (result_lower ?r3)) \<and>
        v2_min_y ?r3 = Min (snd ` set (result_lower ?r3)) \<and>
        v2_max_x ?r3 = Max (fst ` set (result_upper ?r3)) \<and>
        v2_max_y ?r3 = Max (snd ` set (result_upper ?r3))" if "scale = 1"
      unfolding that v2_apply_scale_1
      by (intro conjI v2_bbox_inv_Min [OF inv2 ne fin2])
    show ?thesis
      unfolding if_not_P [OF nres] unfolding eq
      by (intro conjI impI curves sb one)
  qed
qed

lemma pnt_coords [simp]:
  "coordX (pnt x y z) = x" "coordY (pnt x y z) = y" "coordZ (pnt x y z) = z"
  by (simp_all add: pnt_def)

lemma line_edge_fields [simp]:
  "curve_is_null (line_edge p q) = False" "curve_type (line_edge p q) = GeomAbs_Line"
  "value_first (line_edge p q) = p" "value_last (line_edge p q) = q"
  by (simp_all add: line_edge_def)

lemma circle_edge_fields [simp]:
  "curve_is_null (circle_edge ctr rad p) = False"
  "curve_type (circle_edge ctr rad p) = GeomAbs_Circle"
  "value_first (circle_edge ctr rad p) = p" "value_last (circle_edge ctr rad p) = p"
  "circ_location (circle_edge ctr rad p) = ctr" "circ_radius (circle_edge ctr rad p) = rad"
  by (simp_all add: circle_edge_def)

lemma spline_edge_fields [simp]:
  "curve_is_null (spline_edge p q samples) = False"
  "curve_type (spline_edge p q samples) = GeomAbs_OtherCurve"
  "value_first (spline_edge p q samples) = p" "value_last (spline_edge p q samples) = q"
  "tangential_deflection (spline_edge p q samples) d = samples"
  by (simp_all add: spline_edge_def)

lemma line_edge_length: "Distance (pnt 0 0 0) (pnt 3 4 0) = 5"
  by (simp add: Distance_def sqrt_25)

lemma DBL_MAX_ge: "1000 \<le> DBL_MAX"
  by (simp add: DBL_MAX_def)

lemma sample_line_step:
  "extract_2d_curves_step lt d (line_edge (pnt 0 0 0) (pnt 3 4 0)) (n, r, c) =
     (n + 1, (widen_ends (line_edge (pnt 0 0 0) (pnt 3 4 0)) r)
        \<lparr>v2_curves := v2_curves r @ [line_curve lt (line_edge (pnt 0 0 0) (pnt 3 4 0))]\<rparr>,
      c\<lparr>numLines := numLines c + 1\<rparr>)"
  by (rule step_line) (simp_all add: line_edge_length)

lemma line_extractor_groups:
  "v2_extract_groups d line_extractor (v2_initial, \<lparr>numLines = 0, numArcs = 0, numPolylines = 0\<rparr>)
   = (v2_initial\<lparr>v2_curves := [line_curve 0 (line_edge (pnt 0 0 0) (pnt 3 4 0))],
        v2_min_x := 0, v2_min_y := 0, v2_max_x := 3, v2_max_y := 4, v2_num_edges := 1\<rparr>,
      \<lparr>numLines = 1, numArcs = 0, numPolylines = 0\<rparr>)"
  using DBL_MAX_ge
  by (simp add: v2_extract_groups_def v2_extract_group_def extract_2d_curves_def line_extractor_def
      sample_line_step widen_ends_def v2_widen_x_def v2_widen_y_def v2_initial_def
      DBL_LOWEST_def)

lemma cube_shape_valid:
  "\<not> is_null cube_shape" "\<not> sqrt (0 * 0 + (- 1) * (- 1) + 0 * 0) < (1::real) / 10 ^ 10"
  by (simp_all add: cube_shape_def)

text \<open>
  Claim C5 as stated fails for a negative scale: the bounding box is multiplied by the scale
  like the coordinates, so its minimum and maximum change places.  For the line from
  \<open>(0, 0)\<close> to \<open>(3, 4)\<close> and scale \<open>- 1\<close> the emitted line runs from \<open>(0, 0)\<close> to \<open>(- 3, - 4)\<close>
  and the returned box has \<open>min_x = 0\<close> and \<open>max_x = - 3\<close>.
\<close>

theorem v2_bbox_negative_scale:
  "v2_curves (compute_hlr_projection_v2 cube_shape 0 (- 1) 0 0 0 1 (- 1) (1 / 100)
     (Inr line_extractor)) \<noteq> [] \<and>
   v2_min_x (compute_hlr_projection_v2 cube_shape 0 (- 1) 0 0 0 1 (- 1) (1 / 100)
     (Inr line_extractor)) = 0 \<and>
   Min (fst ` set (result_lower (compute_hlr_projection_v2 cube_shape 0 (- 1) 0 0 0 1 (- 1) (1 / 100)
     (Inr line_extractor)))) = - 3 \<and>
   v2_max_x (compute_hlr_projection_v2 cube_shape 0 (- 1) 0 0 0 1 (- 1) (1 / 100)
     (Inr line_extractor)) = - 3 \<and>
   Max (fst ` set (result_upper (compute_hlr_projection_v2 cube_shape 0 (- 1) 0 0 0 1 (- 1) (1 / 100)
     (Inr line_extractor)))) = 0"
proof -
  have "compute_hlr_projection_v2 cube_shape 0 (- 1) 0 0 0 1 (- 1) (1 / 100) (Inr line_extractor) =
      v2_initial\<lparr>v2_curves := [v2_scale_curve (- 1) (line_curve 0 (line_edge (pnt 0 0 0) (pnt 3 4 0)))],
        v2_min_x := 0, v2_min_y := 0, v2_max_x := - 3, v2_max_y := - 4, v2_num_edges := 1,
        v2_num_lines := 1\<rparr>"
    by (simp add: compute_hlr_projection_v2_def v2_try_def cube_shape_valid v2_extract_all_def
        line_extractor_groups v2_apply_scale_def round_double_numeral)
      (simp add: v2_initial_def)
  then show ?thesis
    by (simp add: result_lower_def result_upper_def curve_lower_def curve_upper_def
        curve_ends_def curve_corner_lower_def curve_corner_upper_def v2_scale_curve_def
        line_curve_def round_double_numeral v2_initial_def)
qed

lemma sample_circle_step:
  "extract_2d_curves_step lt d (circle_edge (pnt 2 2 0) 1 (pnt 3 2 0)) (n, r, c) =
     (n + 1,
      (v2_widen_y 1 3 (v2_widen_x 1 3 (widen_ends (circle_edge (pnt 2 2 0) 1 (pnt 3 2 0)) r)))
        \<lparr>v2_curves := v2_curves r @ [circle_curve lt (circle_edge (pnt 2 2 0) 1 (pnt 3 2 0))]\<rparr>,
      c\<lparr>numArcs := numArcs c + 1\<rparr>)"
  using step_circle [of "circle_edge (pnt 2 2 0) 1 (pnt 3 2 0)" lt d n r c]
  by (simp add: round_double_numeral)

lemma sample_spline_step:
  "extract_2d_curves_step lt d
       (spline_edge (pnt 0 (- 1) 0) (pnt 4 0 0) [pnt 0 (- 1) 0, pnt 2 (- 2) 0, pnt 4 0 0]) (n, r, c) =
     (n + 1,
      (snd (fold polyline_add_point [pnt 0 (- 1) 0, pnt 2 (- 2) 0, pnt 4 0 0]
              (\<lparr>pl_points = [], pl_line_type = lt\<rparr>,
               widen_ends (spline_edge (pnt 0 (- 1) 0) (pnt 4 0 0)
                 [pnt 0 (- 1) 0, pnt 2 (- 2) 0, pnt 4 0 0]) r)))
        \<lparr>v2_polylines := v2_polylines r @
           [sampled_polyline lt d (spline_edge (pnt 0 (- 1) 0) (pnt 4 0 0)
              [pnt 0 (- 1) 0, pnt 2 (- 2) 0, pnt 4 0 0])]\<rparr>,
      c\<lparr>numPolylines := numPolylines c + 1\<rparr>)"
  using step_other [of "spline_edge (pnt 0 (- 1) 0) (pnt 4 0 0)
    [pnt 0 (- 1) 0, pnt 2 (- 2) 0, pnt 4 0 0]" d lt n r c] by simp

lemma sample_extractor_groups:
  "v2_extract_groups d sample_extractor (v2_initial, \<lparr>numLines = 0, numArcs = 0, numPolylines = 0\<rparr>)
   = (v2_initial\<lparr>v2_curves := [line_curve 0 (line_edge (pnt 0 0 0) (pnt 3 4 0)),
                                  circle_curve 0 (circle_edge (pnt 2 2 0) 1 (pnt 3 2 0))],
        v2_polylines := [sampled_polyline 4 d (spline_edge (pnt 0 (- 1) 0) (pnt 4 0 0)
              [pnt 0 (- 1) 0, pnt 2 (- 2) 0, pnt 4 0 0])],
        v2_min_x := 0, v2_min_y := - 2, v2_max_x := 4, v2_max_y := 4, v2_num_edges := 3\<rparr>,
      \<lparr>numLines = 1, numArcs = 1, numPolylines = 1\<rparr>)"
  using DBL_MAX_ge
  by (simp add: v2_extract_groups_def v2_extract_group_def extract_2d_curves_def sample_extractor_def
      sample_line_step sample_circle_step sample_spline_step polyline_add_point_def
      widen_ends_def v2_widen_x_def v2_widen_y_def v2_initial_def DBL_LOWEST_def)

lemma sample_corners:
  "result_corners_lower (fst (v2_extract_groups d sample_extractor
      (v2_initial, \<lparr>numLines = 0, numArcs = 0, numPolylines = 0\<rparr>))) = [(1, 1)]"
  "result_corners_upper (fst (v2_extract_groups d sample_extractor
      (v2_initial, \<lparr>numLines = 0, numArcs = 0, numPolylines = 0\<rparr>))) = [(3, 3)]"
  by (simp_all add: sample_extractor_groups result_corners_lower_def result_corners_upper_def
      curve_corner_lower_def curve_corner_upper_def line_curve_def circle_curve_def
      round_double_numeral)

theorem v2_bbox_consistent_witness:
  "v2_curves (compute_hlr_projection_v2 cube_shape 0 (- 1) 0 0 0 1 2 (1 / 100)
     (Inr sample_extractor)) \<noteq> [] \<and>
   v2_min_x (compute_hlr_projection_v2 cube_shape 0 (- 1) 0 0 0 1 2 (1 / 100)
     (Inr sample_extractor)) =
     Min (fst ` (set (result_ends (compute_hlr_projection_v2 cube_shape 0 (- 1) 0 0 0 1 2 (1 / 100)
       (Inr sample_extractor))) \<union> scale_point 2 ` {(1, 1)})) \<and>
   v2_min_y (compute_hlr_projection_v2 cube_shape 0 (- 1) 0 0 0 1 2 (1 / 100)
     (Inr sample_extractor)) =
     Min (snd ` (set (result_ends (compute_hlr_projection_v2 cube_shape 0 (- 1) 0 0 0 1 2 (1 / 100)
       (Inr sample_extractor))) \<union> scale_point 2 ` {(1, 1)})) \<and>
   v2_max_x (compute_hlr_projection_v2 cube_shape 0 (- 1) 0 0 0 1 2 (1 / 100)
     (Inr sample_extractor)) =
     Max (fst ` (set (result_ends (compute_hlr_projection_v2 cube_shape 0 (- 1) 0 0 0 1 2 (1 / 100)
       (Inr sample_extractor))) \<union> scale_point 2 ` {(3, 3)})) \<and>
   v2_max_y (compute_hlr_projection_v2 cube_shape 0 (- 1) 0 0 0 1 2 (1 / 100)
     (Inr sample_extractor)) =
     Max (snd ` (set (result_ends (compute_hlr_projection_v2 cube_shape 0 (- 1) 0 0 0 1 2 (1 / 100)
       (Inr sample_extractor))) \<union> scale_point 2 ` {(3, 3)})) \<and>
   v2_min_x (compute_hlr_projection_v2 cube_shape 0 (- 1) 0 0 0 1 2 (1 / 100)
     (Inr sample_extractor)) = 0 \<and>
   v2_min_y (compute_hlr_projection_v2 cube_shape 0 (- 1) 0 0 0 1 2 (1 / 100)
     (Inr sample_extractor)) = - 4 \<and>
   v2_max_x (compute_hlr_projection_v2 cube_shape 0 (- 1) 0 0 0 1 2 (1 / 100)
     (Inr sample_extractor)) = 8 \<and>
   v2_max_y (compute_hlr_projection_v2 cube_shape 0 (- 1) 0 0 0 1 2 (1 / 100)
     (Inr sample_extractor)) = 8"
proof -
  let ?R = "compute_hlr_projection_v2 cube_shape 0 (- 1) 0 0 0 1 2 (1 / 100) (Inr sample_extractor)"
  let ?r1 = "fst (v2_extract_groups (1 / 100) sample_extractor
                (v2_initial, \<lparr>numLines = 0, numArcs = 0, numPolylines = 0\<rparr>))"
  have scale: "(0::real) \<le> 2"
    by simp
  have d: "(1::real) / 100 = (if (1::real) / 100 \<le> 0 then 1 / 100 else 1 / 100)"
    by simp
  have covers: "\<forall>e \<in> set (extractor_edges sample_extractor). tessellation_covers_ends (1 / 100) e"
    by (simp add: extractor_edges_def group_edges_def sample_extractor_def
        tessellation_covers_ends_def)
  have fin: "\<forall>v \<in> set (result_lower ?r1 @ result_upper ?r1).
      finite_double (fst v) \<and> finite_double (snd v)"
    using DBL_MAX_ge
    by (simp add: sample_extractor_groups result_lower_def result_upper_def emitted_curve_coords
        polyline_coords_def sampled_polyline_def finite_double_def round_double_numeral)
  have R: "?R = v2_initial\<lparr>v2_curves :=
        [v2_scale_curve 2 (line_curve 0 (line_edge (pnt 0 0 0) (pnt 3 4 0))),
         v2_scale_curve 2 (circle_curve 0 (circle_edge (pnt 2 2 0) 1 (pnt 3 2 0)))],
      v2_polylines := [v2_scale_polyline 2 (sampled_polyline 4 (1 / 100)
         (spline_edge (pnt 0 (- 1) 0) (pnt 4 0 0) [pnt 0 (- 1) 0, pnt 2 (- 2) 0, pnt 4 0 0]))],
      v2_min_x := 0, v2_min_y := - 4, v2_max_x := 8, v2_max_y := 8, v2_num_edges := 3,
      v2_num_lines := 1, v2_num_arcs := 1, v2_num_polylines := 1\<rparr>"
    by (simp add: compute_hlr_projection_v2_def v2_try_def cube_shape_valid v2_extract_all_def
        sample_extractor_groups v2_apply_scale_def round_double_numeral)
  have ne: "v2_curves ?R \<noteq> []"
    by (simp add: R)
  have vals: "v2_min_x ?R = 0" "v2_min_y ?R = - 4" "v2_max_x ?R = 8" "v2_max_y ?R = 8"
    by (simp_all add: R)
  have corners: "set (result_corners_lower ?r1) = {(1, 1)}" "set (result_corners_upper ?r1) = {(3, 3)}"
    by (simp_all add: sample_corners)
  from v2_bbox_consistent [OF cube_shape_valid scale d covers refl fin refl, of 0 0 1] ne
  have "v2_min_x ?R =
        Min (fst ` (set (result_ends ?R) \<union> scale_point 2 ` set (result_corners_lower ?r1))) \<and>
      v2_min_y ?R =
        Min (snd ` (set (result_ends ?R) \<union> scale_point 2 ` set (result_corners_lower ?r1))) \<and>
      v2_max_x ?R =
        Max (fst ` (set (result_ends ?R) \<union> scale_point 2 ` set (result_corners_upper ?r1))) \<and>
      v2_max_y ?R =
        Max (snd ` (set (result_ends ?R) \<union> scale_point 2 ` set (result_corners_upper ?r1)))"
    by (simp only: if_not_P simp_thms)
  with ne vals show ?thesis
    by (simp only: corners simp_thms)
qed

text \<open>With a scale other than 1 the scaled corner need not be the corner of the scaled
  circle: the centre and the radius are multiplied by the scale one by one.  For the circle
  of radius 1 about \<open>(c, c)\<close> with \<open>c = 3002399751580331\<close> and scale 3 the returned \<open>min_x\<close> is
  \<open>3 * (c - 1) = 9007199254740990\<close>, while the emitted centre is \<open>9007199254740992\<close>, the
  emitted radius is 3 and their difference is \<open>9007199254740989\<close>.\<close>

lemma v2_scaled_corner_not_emitted_corner:
  "v2_min_x (compute_hlr_projection_v2 cube_shape 0 (- 1) 0 0 0 1 3 (1 / 100)
     (Inr far_circle_extractor)) = 9007199254740990 \<and>
   map (\<lambda>c. (cv_center_x c, cv_radius c))
     (v2_curves (compute_hlr_projection_v2 cube_shape 0 (- 1) 0 0 0 1 3 (1 / 100)
        (Inr far_circle_extractor))) = [(9007199254740992, 3)]"
proof -
  let ?e = "circle_edge (pnt 3002399751580331 3002399751580331 0) 1
              (pnt 3002399751580332 3002399751580331 0)"
  have step: "extract_2d_curves_step lt d ?e (n, r, c) =
      (n + 1,
       (v2_widen_y 3002399751580330 3002399751580332
          (v2_widen_x 3002399751580330 3002399751580332 (widen_ends ?e r)))
         \<lparr>v2_curves := v2_curves r @ [circle_curve lt ?e]\<rparr>,
       c\<lparr>numArcs := numArcs c + 1\<rparr>)" for lt d n r c
    using step_circle [of ?e lt d n r c] by (simp add: round_double_numeral)
  have big: "3002399751580332 \<le> DBL_MAX"
    by (simp add: DBL_MAX_def)
  have groups: "v2_extract_groups (1 / 100) far_circle_extractor
      (v2_initial, \<lparr>numLines = 0, numArcs = 0, numPolylines = 0\<rparr>) =
      (v2_initial\<lparr>v2_curves := [circle_curve 0 ?e],
         v2_min_x := 3002399751580330, v2_min_y := 3002399751580330,
         v2_max_x := 3002399751580332, v2_max_y := 3002399751580332, v2_num_edges := 1\<rparr>,
       \<lparr>numLines = 0, numArcs = 1, numPolylines = 0\<rparr>)"
    using big
    by (simp add: v2_extract_groups_def v2_extract_group_def extract_2d_curves_def
        far_circle_extractor_def step widen_ends_def v2_widen_x_def v2_widen_y_def
        v2_initial_def DBL_LOWEST_def)
  have r: "round_double 9007199254740993 = 9007199254740992"
    by (simp add: round_double_53 round_half_even_def)
  show ?thesis
    by (simp add: compute_hlr_projection_v2_def v2_try_def cube_shape_valid v2_extract_all_def
        groups v2_apply_scale_def v2_scale_curve_def circle_curve_def round_double_numeral r,
        (simp add: v2_initial_def)?)
qed

lemma v2_bbox_dropped_edge:
  "v2_curves (compute_hlr_projection_v2 cube_shape 0 (- 1) 0 0 0 1 1 (1 / 100)
     (Inr dropped_extractor)) = [line_curve 0 (line_edge (pnt 0 0 0) (pnt 3 4 0))] \<and>
   v2_polylines (compute_hlr_projection_v2 cube_shape 0 (- 1) 0 0 0 1 1 (1 / 100)
     (Inr dropped_extractor)) = [] \<and>
   v2_max_x (compute_hlr_projection_v2 cube_shape 0 (- 1) 0 0 0 1 1 (1 / 100)
     (Inr dropped_extractor)) = 6 \<and>
   v2_max_y (compute_hlr_projection_v2 cube_shape 0 (- 1) 0 0 0 1 1 (1 / 100)
     (Inr dropped_extractor)) = 6"
proof -
  have "extract_2d_curves_step lt d (spline_edge (pnt 5 5 0) (pnt 6 6 0) []) (n, r, c) =
      (n, widen_ends (spline_edge (pnt 5 5 0) (pnt 6 6 0) []) r, c)" for lt d n r c
    using step_other_dropped [of "spline_edge (pnt 5 5 0) (pnt 6 6 0) []" d lt n r c] by simp
  then have "v2_extract_groups (1 / 100) dropped_extractor
      (v2_initial, \<lparr>numLines = 0, numArcs = 0, numPolylines = 0\<rparr>) =
      (v2_initial\<lparr>v2_curves := [line_curve 0 (line_edge (pnt 0 0 0) (pnt 3 4 0))],
         v2_min_x := 0, v2_min_y := 0, v2_max_x := 6, v2_max_y := 6, v2_num_edges := 1\<rparr>,
       \<lparr>numLines = 1, numArcs = 0, numPolylines = 0\<rparr>)"
    using DBL_MAX_ge
    by (simp add: v2_extract_groups_def v2_extract_group_def extract_2d_curves_def
        dropped_extractor_def sample_line_step widen_ends_def v2_widen_x_def v2_widen_y_def
        v2_initial_def DBL_LOWEST_def)
  then show ?thesis
    by (simp add: compute_hlr_projection_v2_def v2_try_def cube_shape_valid v2_extract_all_def
        v2_apply_scale_def, (simp add: v2_initial_def)?)
qed

end
